theory Spec2Isabelle
  imports Main "HOL-Library.Sublist"
begin

section \<open>Python values, exceptions and dictionaries\<close>

text \<open>
  The server status enumeration \<^verbatim>\<open>core.const.Status\<close> is imported by the source but
  its declaration is not part of it; the members are those the data model names.
\<close>

datatype Status = UNKNOWN | LOADING | RUNNING | PAUSED | STOPPED | SHUTDOWN

text \<open>
  The values a decoded datagram, a message or a server dictionary can hold. Dictionaries
  keep their insertion order, as Python's do, so they are association lists whose keys are
  pairwise different. Floating point numbers are left out.
\<close>

datatype pyval =
    PNone
  | PBool bool
  | PInt int
  | PStr string
  | PList "pyval list"
  | PDict "(string \<times> pyval) list"
  | PStatus Status

type_synonym 'v dict = "(string \<times> 'v) list"

datatype py_error =
    KeyError
  | TypeError
  | AttributeError
  | ValueError
  | JSONDecodeError
  | TimeoutError
  | InvalidStateError
  | DatabaseError
  | PluginError

type_synonym 'a raises = "py_error + 'a"

text \<open>\<^verbatim>\<open>d[k] = v\<close>: an existing key keeps its place, a new key goes last.\<close>

fun setitem :: "string \<Rightarrow> 'v \<Rightarrow> 'v dict \<Rightarrow> 'v dict" where
  "setitem k v [] = [(k, v)]"
| "setitem k v ((k', v') # d) = (if k' = k then (k, v) # d else (k', v') # setitem k v d)"

definition contains :: "'v dict \<Rightarrow> string \<Rightarrow> bool" where
  "contains d k = (map_of d k \<noteq> None)"

text \<open>\<^verbatim>\<open>d[k]\<close> raises KeyError on a missing key.\<close>

definition getitem :: "'v dict \<Rightarrow> string \<Rightarrow> 'v raises" where
  "getitem d k = (case map_of d k of None \<Rightarrow> Inl KeyError | Some v \<Rightarrow> Inr v)"

definition remove_key :: "string \<Rightarrow> 'v dict \<Rightarrow> 'v dict" where
  "remove_key k d = filter (\<lambda>kv. fst kv \<noteq> k) d"

text \<open>\<^verbatim>\<open>del d[k]\<close> raises KeyError on a missing key.\<close>

definition delitem :: "string \<Rightarrow> 'v dict \<Rightarrow> 'v dict raises" where
  "delitem k d = (if contains d k then Inr (remove_key k d) else Inl KeyError)"

text \<open>\<^verbatim>\<open>a | b\<close>: a copy of \<open>a\<close> into which the items of \<open>b\<close> are stored in order.\<close>

definition dict_or :: "'v dict \<Rightarrow> 'v dict \<Rightarrow> 'v dict" where
  "dict_or a b = fold (\<lambda>kv acc. setitem (fst kv) (snd kv) acc) b a"

definition well_formed :: "'v dict \<Rightarrow> bool" where
  "well_formed d = distinct (map fst d)"

text \<open>Truth value of a Python object, as \<^verbatim>\<open>if result:\<close> tests it.\<close>

fun truthy :: "pyval \<Rightarrow> bool" where
  "truthy PNone = False"
| "truthy (PBool b) = b"
| "truthy (PInt i) = (i \<noteq> 0)"
| "truthy (PStr s) = (s \<noteq> [])"
| "truthy (PList xs) = (xs \<noteq> [])"
| "truthy (PDict d) = (d \<noteq> [])"
| "truthy (PStatus s) = True"

subsection \<open>\<^verbatim>\<open>str\<close> of an integer\<close>

definition digit_char :: "nat \<Rightarrow> char" where
  "digit_char d = ''0123456789'' ! d"

fun str_nat :: "nat \<Rightarrow> string" where
  "str_nat n = (if n < 10 then [digit_char n] else str_nat (n div 10) @ [digit_char (n mod 10)])"

declare str_nat.simps [simp del]

definition str_int :: "int \<Rightarrow> string" where
  "str_int i = (if i < 0 then CHR ''-'' # str_nat (nat (- i)) else str_nat (nat i))"

text \<open>Reading the digits back, to show that \<open>str_int\<close> loses nothing.\<close>

definition digit_val :: "char \<Rightarrow> nat" where
  "digit_val c = of_char c - 48"

definition nat_of_digits :: "string \<Rightarrow> nat" where
  "nat_of_digits s = foldl (\<lambda>acc c. 10 * acc + digit_val c) 0 s"

definition int_of_str :: "string \<Rightarrow> int" where
  "int_of_str s = (case s of [] \<Rightarrow> 0
     | c # cs \<Rightarrow> if c = CHR ''-'' then - int (nat_of_digits cs) else int (nat_of_digits s))"

section \<open>The bot of \<^verbatim>\<open>core/bot.py\<close>\<close>

text \<open>
  A future of the event loop. \<open>Pending\<close> is the only state that \<^verbatim>\<open>set_result\<close> and
  \<^verbatim>\<open>cancel\<close> leave; a future that is done keeps its outcome.
\<close>

datatype future = Pending | Done pyval | Cancelled

datatype log_level = Debug | Info | Warning | Error | Exception

text \<open>
  An event listener stands for \<^verbatim>\<open>listener.processEvent(data)\<close>: given the event and the
  server dictionaries it returns a value or raises, and may have changed the dictionaries.
\<close>

type_synonym listener = "pyval \<Rightarrow> pyval dict dict \<Rightarrow> pyval raises \<times> pyval dict dict"

text \<open>
  What the bot reads from outside the source: the host name, the installations found for a
  server name by \<^verbatim>\<open>utils.findDCSInstallations\<close>, the ini file, the JSON codec, the
  \<^verbatim>\<open>int\<close> builtin and the \<^verbatim>\<open>rename\<close> method of each plugin.
\<close>

record env =
  node :: string
  findDCSInstallations :: "string \<Rightarrow> string list"
  config :: "string dict dict"
  loads :: "string \<Rightarrow> pyval raises"
  dumps :: "pyval \<Rightarrow> string raises"
  int_of :: "pyval \<Rightarrow> int raises"
  cogs :: "(string \<Rightarrow> string \<Rightarrow> py_error option) list"

text \<open>
  The attributes of \<^verbatim>\<open>DCSServerBot\<close> the operations below touch, the two database tables
  they use, and three records of what left the process: datagrams sent, events handed
  to listeners, and log lines. \<open>futures\<close> is the store of future objects, addressed by
  position; \<open>listeners\<close> maps a token to the address of its future; \<open>loop_calls\<close>
  holds the calls posted by \<^verbatim>\<open>call_soon_threadsafe\<close> that the loop has not run yet.
\<close>

record bot =
  version :: string
  globals :: "pyval dict dict"
  embeds :: "nat dict dict"
  listeners :: "nat dict"
  futures :: "future list"
  loop_calls :: "(nat \<times> pyval) list"
  eventListeners :: "listener list"
  db_servers :: "(string \<times> string \<times> pyval \<times> pyval) list"
  db_message_persistence :: "(string \<times> string \<times> nat) list"
  settings_changes :: "(string \<times> string \<times> string) list"
  sent :: "(pyval \<times> int \<times> string) list"
  delivered :: "(nat \<times> pyval) list"
  log :: "(log_level \<times> string) list"

definition log_msg :: "log_level \<Rightarrow> string \<Rightarrow> bot \<Rightarrow> bot" where
  "log_msg lvl txt st = st\<lparr>log := log st @ [(lvl, txt)]\<rparr>"

subsection \<open>\<^verbatim>\<open>sendtoDCS\<close> and \<^verbatim>\<open>sendtoDCSSync\<close>\<close>

text \<open>
  The loop \<^verbatim>\<open>for key, value in message.items(): if type(value) == int: message[key] = str(value)\<close>.
  \<^verbatim>\<open>type(value) == int\<close> is false of a bool and of anything nested.
\<close>

definition coerce_item :: "string \<times> pyval \<Rightarrow> pyval dict \<Rightarrow> pyval dict" where
  "coerce_item kv message =
     (case snd kv of PInt i \<Rightarrow> setitem (fst kv) (PStr (str_int i)) message | _ \<Rightarrow> message)"

definition coerce_ints :: "pyval dict \<Rightarrow> pyval dict" where
  "coerce_ints message = fold coerce_item message message"

text \<open>
  The coercion as the specification words it, to compare the loop with: an integer
  becomes its decimal string, every other value and every key stays.
\<close>

fun coerced :: "pyval \<Rightarrow> pyval" where
  "coerced (PInt i) = PStr (str_int i)"
| "coerced v = v"

definition coerced_item :: "string \<times> pyval \<Rightarrow> string \<times> pyval" where
  "coerced_item kv = (fst kv, coerced (snd kv))"

text \<open>
  The functions return the caller's message dictionary as the call leaves it, next to
  the outcome: the dictionary is changed in place before anything can raise.
\<close>

definition sendtoDCS :: "env \<Rightarrow> bot \<Rightarrow> pyval dict \<Rightarrow> pyval dict \<Rightarrow> pyval dict \<times> bot raises" where
  "sendtoDCS e st server message =
     (let message' = coerce_ints message in
      (message',
       case dumps e (PDict message') of Inl err \<Rightarrow> Inl err | Inr msg \<Rightarrow>
       (case getitem server ''server_name'' of Inl err \<Rightarrow> Inl err | Inr _ \<Rightarrow>
        let st1 = log_msg Debug ''HOST->server'' st in
        (case getitem server ''host'' of Inl err \<Rightarrow> Inl err | Inr host \<Rightarrow>
         (case getitem server ''port'' of Inl err \<Rightarrow> Inl err | Inr port \<Rightarrow>
          (case int_of e port of Inl err \<Rightarrow> Inl err | Inr p \<Rightarrow>
             Inr (st1\<lparr>sent := sent st1 @ [(host, p, msg)]\<rparr>)))))))"

text \<open>
  \<open>uuid\<close> is the text of the fresh \<^verbatim>\<open>uuid.uuid4()\<close>. The result carries the address of
  the new future, on which the caller then waits.
\<close>

definition sendtoDCSSync ::
  "env \<Rightarrow> bot \<Rightarrow> string \<Rightarrow> pyval dict \<Rightarrow> pyval dict \<Rightarrow> pyval dict \<times> bot \<times> nat raises" where
  "sendtoDCSSync e st uuid server message =
     (let fut = length (futures st);
          st1 = st\<lparr>futures := futures st @ [Pending]\<rparr>;
          token = ''sync-'' @ uuid;
          message1 = setitem ''channel'' (PStr token) message in
      (case sendtoDCS e st1 server message1 of
         (message2, Inl err) \<Rightarrow> (message2, st1, Inl err)
       | (message2, Inr st2) \<Rightarrow>
           (message2, st2\<lparr>listeners := setitem token fut (listeners st2)\<rparr>, Inr fut)))"

text \<open>
  \<^verbatim>\<open>asyncio.wait_for(future, timeout)\<close> at the moment the timeout elapses: a future that
  is still pending is cancelled and the caller gets TimeoutError; a future that is done
  hands its result over. Nothing here touches \<open>listeners\<close> or \<open>globals\<close>.
\<close>

definition cancel :: "future \<Rightarrow> future" where
  "cancel f = (case f of Pending \<Rightarrow> Cancelled | _ \<Rightarrow> f)"

definition wait_for_timeout :: "bot \<Rightarrow> nat \<Rightarrow> bot \<times> pyval raises" where
  "wait_for_timeout st fut =
     (case futures st ! fut of
        Done v \<Rightarrow> (st, Inr v)
      | _ \<Rightarrow> (st\<lparr>futures := (futures st)[fut := cancel (futures st ! fut)]\<rparr>, Inl TimeoutError))"

text \<open>
  The event loop runs the oldest posted call \<^verbatim>\<open>f.set_result(value)\<close>. On a future that
  is no longer pending the call raises InvalidStateError inside the loop, which logs it.
\<close>

definition run_loop_call :: "bot \<Rightarrow> bot" where
  "run_loop_call st =
     (case loop_calls st of
        [] \<Rightarrow> st
      | (fut, v) # rest \<Rightarrow>
          (case futures st ! fut of
             Pending \<Rightarrow> st\<lparr>futures := (futures st)[fut := Done v], loop_calls := rest\<rparr>
           | _ \<Rightarrow> log_msg Exception ''InvalidStateError'' (st\<lparr>loop_calls := rest\<rparr>)))"

subsection \<open>\<^verbatim>\<open>rename_server\<close>\<close>

text \<open>\<^verbatim>\<open>self.globals[name][key] = value\<close> for a name that is bound.\<close>

definition server_set :: "string \<Rightarrow> string \<Rightarrow> pyval \<Rightarrow> bot \<Rightarrow> bot" where
  "server_set name key v st =
     st\<lparr>globals := map (\<lambda>nr. if fst nr = name then (fst nr, setitem key v (snd nr)) else nr)
                      (globals st)\<rparr>"

text \<open>
  \<^verbatim>\<open>UPDATE servers SET server_name = new WHERE server_name = old\<close> and the same on
  \<^verbatim>\<open>message_persistence\<close>. The \<^verbatim>\<open>ON CONFLICT\<close> clauses of the source show that
  \<^verbatim>\<open>server_name\<close> is unique in the first table and the pair of server and embed name
  in the second; an update that would break either fails, and \<^verbatim>\<open>rename_server\<close>
  then rolls both back.
\<close>

definition db_rename ::
  "string \<Rightarrow> string \<Rightarrow> bot \<Rightarrow> bot option" where
  "db_rename old_name new_name st =
     (let srv = db_servers st; mp = db_message_persistence st in
      if old_name \<noteq> new_name \<and> old_name \<in> fst ` set srv \<and> new_name \<in> fst ` set srv then None
      else if old_name \<noteq> new_name \<and>
              list_ex (\<lambda>r. fst r = old_name \<and> list_ex (\<lambda>r'. fst r' = new_name \<and> fst (snd r') = fst (snd r)) mp) mp
      then None
      else Some (st\<lparr>db_servers := map (\<lambda>r. if fst r = old_name then (new_name, snd r) else r) srv,
                     db_message_persistence := map (\<lambda>r. if fst r = old_name then (new_name, snd r) else r) mp\<rparr>))"

text \<open>\<^verbatim>\<open>for plugin in self.cogs.values(): plugin.rename(old_name, new_name)\<close>; the first
  plugin that raises ends the loop.\<close>

fun cogs_rename :: "(string \<Rightarrow> string \<Rightarrow> py_error option) list \<Rightarrow> string \<Rightarrow> string \<Rightarrow> py_error option" where
  "cogs_rename [] old_name new_name = None"
| "cogs_rename (plugin # ps) old_name new_name =
     (case plugin old_name new_name of Some err \<Rightarrow> Some err | None \<Rightarrow> cogs_rename ps old_name new_name)"

text \<open>The statements of \<^verbatim>\<open>rename_server\<close> after the two on \<open>globals\<close>.\<close>

definition rename_rest :: "env \<Rightarrow> bot \<Rightarrow> string \<Rightarrow> string \<Rightarrow> bool \<Rightarrow> bot \<times> unit raises" where
  "rename_rest e st old_name new_name update_settings =
     (let st1 = (case map_of (embeds st) old_name of
                   None \<Rightarrow> st
                 | Some em \<Rightarrow> st\<lparr>embeds := remove_key old_name (setitem new_name em (embeds st))\<rparr>) in
      case cogs_rename (cogs e) old_name new_name of
        Some err \<Rightarrow> (st1, Inl err)
      | None \<Rightarrow>
          let st2 = (case db_rename old_name new_name st1 of
                       Some st' \<Rightarrow> st'
                     | None \<Rightarrow> log_msg Exception ''DatabaseError'' st1);
              st3 = (if update_settings
                     then st2\<lparr>settings_changes := settings_changes st2 @ [(old_name, ''name'', new_name)]\<rparr>
                     else st2)
          in (st3, Inr ()))"

definition rename_server :: "env \<Rightarrow> bot \<Rightarrow> string \<Rightarrow> string \<Rightarrow> bool \<Rightarrow> bot \<times> unit raises" where
  "rename_server e st old_name new_name update_settings =
     (case (if \<not> contains (globals st) new_name
            then (case getitem (globals st) old_name of
                    Inl err \<Rightarrow> Inl err
                  | Inr rec \<Rightarrow>
                      Inr (st\<lparr>globals := setitem new_name
                                 (setitem ''server_name'' (PStr new_name) rec) (globals st)\<rparr>))
            else Inr st) of
        Inl err \<Rightarrow> (st, Inl err)
      | Inr st1 \<Rightarrow>
          (case delitem old_name (globals st1) of
             Inl err \<Rightarrow> (st1, Inl err)
           | Inr g \<Rightarrow> rename_rest e (st1\<lparr>globals := g\<rparr>) old_name new_name update_settings))"

subsection \<open>\<^verbatim>\<open>register_server\<close>\<close>

text \<open>
  Server names are strings; \<^verbatim>\<open>utils.findDCSInstallations\<close>, which is not part of the
  source, is taken to find no installation for a name that is not one.
\<close>

definition find_installations :: "env \<Rightarrow> pyval \<Rightarrow> string list" where
  "find_installations e name =
     (case name of PStr n \<Rightarrow> findDCSInstallations e n | _ \<Rightarrow> [])"

text \<open>\<^verbatim>\<open>self.config[installation][option]\<close>\<close>

definition config_get :: "env \<Rightarrow> string \<Rightarrow> string \<Rightarrow> pyval raises" where
  "config_get e installation option =
     (case getitem (config e) installation of
        Inl err \<Rightarrow> Inl err
      | Inr section \<Rightarrow>
          (case getitem section option of Inl err \<Rightarrow> Inl err | Inr v \<Rightarrow> Inr (PStr v)))"

text \<open>
  Lines 283 to 291: an existing dictionary is replaced by its merge with the announcement;
  a new one is a copy of the announcement, bound first and then given the three channels,
  so a missing ini entry raises with the copy already bound.
\<close>

definition bind_server :: "env \<Rightarrow> bot \<Rightarrow> string \<Rightarrow> string \<Rightarrow> pyval dict \<Rightarrow> bot \<times> unit raises" where
  "bind_server e st name installation data =
     (case map_of (globals st) name of
        Some rec \<Rightarrow> (st\<lparr>globals := setitem name (dict_or rec data) (globals st)\<rparr>, Inr ())
      | None \<Rightarrow>
          let st1 = st\<lparr>globals := setitem name data (globals st)\<rparr> in
          (case config_get e installation ''CHAT_CHANNEL'' of
             Inl err \<Rightarrow> (st1, Inl err)
           | Inr chat \<Rightarrow>
               let st2 = server_set name ''chat_channel'' chat st1 in
               (case config_get e installation ''STATUS_CHANNEL'' of
                  Inl err \<Rightarrow> (st2, Inl err)
                | Inr status \<Rightarrow>
                    let st3 = server_set name ''status_channel'' status st2 in
                    (case config_get e installation ''ADMIN_CHANNEL'' of
                       Inl err \<Rightarrow> (st3, Inl err)
                     | Inr admin \<Rightarrow> (server_set name ''admin_channel'' admin st3, Inr ())))))"

text \<open>Lines 293 to 296: the status an accepted announcement gives the server.\<close>

definition announced_status :: "pyval dict \<Rightarrow> Status raises" where
  "announced_status data =
     (case getitem data ''channel'' of
        Inl err \<Rightarrow> Inl err
      | Inr (PStr channel) \<Rightarrow>
          Inr (if prefix ''sync-'' channel
               then (if map_of data ''pause'' = Some (PBool True) then PAUSED else RUNNING)
               else LOADING)
      | Inr _ \<Rightarrow> Inl AttributeError)"

text \<open>
  \<^verbatim>\<open>INSERT INTO servers ... ON CONFLICT (server_name) DO UPDATE SET agent_host, host, port\<close>
\<close>

definition db_upsert_server :: "string \<Rightarrow> string \<Rightarrow> pyval \<Rightarrow> pyval \<Rightarrow> bot \<Rightarrow> bot" where
  "db_upsert_server name agent host port st =
     st\<lparr>db_servers :=
          (if name \<in> fst ` set (db_servers st)
           then map (\<lambda>r. if fst r = name then (name, agent, host, port) else r) (db_servers st)
           else db_servers st @ [(name, agent, host, port)])\<rparr>"

text \<open>
  Lines 322 to 327: \<^verbatim>\<open>server['embeds']\<close> is emptied and filled with the persisted
  messages of the server, if this host owns it.
\<close>

definition persisted_embeds :: "env \<Rightarrow> bot \<Rightarrow> string \<Rightarrow> pyval" where
  "persisted_embeds e st name =
     PDict (fold (\<lambda>r acc. setitem (fst (snd r)) (PInt (int (snd (snd r)))) acc)
              (filter (\<lambda>r. fst r = name \<and>
                            list_ex (\<lambda>s. fst s = name \<and> fst (snd s) = node e) (db_servers st))
                 (db_message_persistence st))
              [])"

text \<open>
  The \<^verbatim>\<open>try\<close> block of lines 300 to 333. \<^verbatim>\<open>except (Exception, ...)\<close> catches what the
  block raises, a KeyError of \<^verbatim>\<open>data['host']\<close> or of \<^verbatim>\<open>rename_server\<close> included:
  it is logged and the function returns True.
\<close>

definition register_db :: "env \<Rightarrow> bot \<Rightarrow> string \<Rightarrow> pyval dict \<Rightarrow> bot \<times> bool" where
  "register_db e st name data =
     (case getitem data ''host'' of
        Inl err \<Rightarrow> (log_msg Exception ''KeyError'' st, True)
      | Inr host \<Rightarrow>
     (case getitem data ''port'' of
        Inl err \<Rightarrow> (log_msg Exception ''KeyError'' st, True)
      | Inr port \<Rightarrow>
          let rows = filter (\<lambda>r. fst (snd r) = node e \<and> fst (snd (snd r)) = host \<and>
                                  snd (snd (snd r)) = port) (db_servers st);
              finish = (\<lambda>s. let s1 = db_upsert_server name (node e) host port s in
                             (server_set name ''embeds'' (persisted_embeds e s1 name) s1, True))
          in
          (case rows of
             [row] \<Rightarrow>
               let server_name = fst row in
               if server_name \<noteq> name then
                 let st1 = log_msg Warning ''same parameters as another server'' st in
                 if length (findDCSInstallations e server_name) = 0 then
                   (case rename_server e (log_msg Info ''Auto-renaming server'' st1)
                           server_name name False of
                      (st2, Inl err) \<Rightarrow> (log_msg Exception ''rename_server raised'' st2, True)
                    | (st2, Inr _) \<Rightarrow> finish st2)
                 else
                   (let st2 = log_msg Warning ''Registration aborted due to UDP port conflict'' st1
                    in (st2\<lparr>globals := remove_key name (globals st2)\<rparr>, False))
               else finish st
           | _ \<Rightarrow> finish st)))"

definition register_server :: "env \<Rightarrow> bot \<Rightarrow> pyval dict \<Rightarrow> bot \<times> bool raises" where
  "register_server e st data =
     (case getitem data ''server_name'' of
        Inl err \<Rightarrow> (st, Inl err)
      | Inr sn \<Rightarrow>
          (case sn of
             PStr name \<Rightarrow>
               (case find_installations e sn of
                  [] \<Rightarrow> (log_msg Error ''Server not found in dcsserverbot.ini'' st, Inr False)
                | installation # _ \<Rightarrow>
                    let st1 = log_msg Debug ''Registering DCS-Server'' st in
                    (case getitem data ''hook_version'' of
                       Inl err \<Rightarrow> (st1, Inl err)
                     | Inr hook_version \<Rightarrow>
                         if hook_version \<noteq> PStr (version st1)
                         then (log_msg Error ''wrong Hook version'' st1, Inr False)
                         else
                           (case bind_server e st1 name installation data of
                              (st2, Inl err) \<Rightarrow> (st2, Inl err)
                            | (st2, Inr _) \<Rightarrow>
                                let st3 = server_set name ''installation'' (PStr installation) st2 in
                                (case announced_status data of
                                   Inl err \<Rightarrow> (st3, Inl err)
                                 | Inr status \<Rightarrow>
                                     let st4 = log_msg Debug ''Server initialized''
                                                 (server_set name ''status'' (PStatus status) st3) in
                                     (case register_db e st4 name data of
                                        (st5, ok) \<Rightarrow> (st5, Inr ok))))))
           | _ \<Rightarrow> (log_msg Error ''Server not found in dcsserverbot.ini'' st, Inr False)))"

subsection \<open>The UDP request handler \<^verbatim>\<open>RequestHandler.handle\<close>\<close>

text \<open>\<^verbatim>\<open>bytes.strip()\<close> removes ASCII white space at both ends.\<close>

definition is_space :: "char \<Rightarrow> bool" where
  "is_space c = (c \<in> set [CHR '' '', CHR 0x09, CHR 0x0A, CHR 0x0B, CHR 0x0C, CHR 0x0D])"

definition strip :: "string \<Rightarrow> string" where
  "strip s = rev (dropWhile is_space (rev (dropWhile is_space s)))"

text \<open>
  \<^verbatim>\<open>key in data\<close> and \<^verbatim>\<open>data[key]\<close> for a string key and whatever \<^verbatim>\<open>json.loads\<close>
  returned: a dictionary is searched by key, a list by element, a string by substring,
  and anything else raises TypeError; only a dictionary can be subscripted by a string.
\<close>

definition py_in :: "string \<Rightarrow> pyval \<Rightarrow> bool raises" where
  "py_in key data =
     (case data of
        PDict d \<Rightarrow> Inr (contains d key)
      | PList xs \<Rightarrow> Inr (PStr key \<in> set xs)
      | PStr s \<Rightarrow> Inr (sublist key s)
      | _ \<Rightarrow> Inl TypeError)"

definition py_getitem :: "pyval \<Rightarrow> string \<Rightarrow> pyval raises" where
  "py_getitem data key = (case data of PDict d \<Rightarrow> getitem d key | _ \<Rightarrow> Inl TypeError)"

text \<open>
  \<^verbatim>\<open>name not in self.globals or self.globals[name]['status'] == Status.UNKNOWN\<close>: a list
  or a dictionary cannot be hashed; any other value that is not a string is no key of
  \<open>globals\<close>.
\<close>

definition unregistered :: "bot \<Rightarrow> pyval \<Rightarrow> bool raises" where
  "unregistered st sn =
     (case sn of
        PStr name \<Rightarrow>
          (case map_of (globals st) name of
             None \<Rightarrow> Inr True
           | Some rec \<Rightarrow>
               (case getitem rec ''status'' of
                  Inl err \<Rightarrow> Inl err
                | Inr status \<Rightarrow> Inr (status = PStatus UNKNOWN)))
      | PList _ \<Rightarrow> Inl TypeError
      | PDict _ \<Rightarrow> Inl TypeError
      | _ \<Rightarrow> Inr True)"

text \<open>
  Lines 355 to 364. The coroutines are started in the order of \<open>eventListeners\<close> and
  their futures are read in that order; each is run here to its end before the next.
  A result is kept when it is true as a condition; what a listener raises is logged.
  The number counts the listeners already run, for the record of deliveries.
\<close>

fun dispatch :: "listener list \<Rightarrow> nat \<Rightarrow> pyval \<Rightarrow> bot \<Rightarrow> bot \<times> pyval list" where
  "dispatch [] i data st = (st, [])"
| "dispatch (l # ls) i data st =
     (case l data (globals st) of
        (res, g) \<Rightarrow>
          let st1 = st\<lparr>globals := g, delivered := delivered st @ [(i, data)]\<rparr> in
          (case res of
             Inl err \<Rightarrow> dispatch ls (Suc i) data (log_msg Exception ''listener raised'' st1)
           | Inr result \<Rightarrow>
               (case dispatch ls (Suc i) data st1 of
                  (st2, results) \<Rightarrow> (st2, if truthy result then result # results else results))))"

text \<open>Lines 365 to 369.\<close>

definition resolve :: "bot \<Rightarrow> pyval \<Rightarrow> pyval list \<Rightarrow> bot \<times> unit raises" where
  "resolve st data results =
     (case py_getitem data ''channel'' of
        Inl err \<Rightarrow> (st, Inl err)
      | Inr (PStr channel) \<Rightarrow>
          if prefix ''sync'' channel \<and> contains (listeners st) channel then
            (case map_of (listeners st) channel of
               None \<Rightarrow> (st, Inr ())
             | Some f \<Rightarrow>
                 let st1 = (if futures st ! f \<noteq> Cancelled
                            then st\<lparr>loop_calls := loop_calls st @
                                       [(f, case results of [] \<Rightarrow> PNone | r # _ \<Rightarrow> r)]\<rparr>
                            else st)
                 in (st1\<lparr>listeners := remove_key channel (listeners st1)\<rparr>, Inr ()))
          else (st, Inr ())
      | Inr _ \<Rightarrow> (st, Inl AttributeError))"

text \<open>
  Lines 340 to 354: what is decided before any listener is called. The result is the
  decoded event when it goes on to the listeners, and nothing when the handler has
  returned.
\<close>

definition admit :: "env \<Rightarrow> bot \<Rightarrow> string \<Rightarrow> bot \<times> pyval option raises" where
  "admit e st request =
     (case loads e (strip request) of
        Inl err \<Rightarrow> (st, Inl err)
      | Inr data \<Rightarrow>
     (case py_in ''server_name'' data of
        Inl err \<Rightarrow> (st, Inl err)
      | Inr False \<Rightarrow> (log_msg Warning ''Message without server_name retrieved'' st, Inr None)
      | Inr True \<Rightarrow>
     (case py_getitem data ''server_name'' of
        Inl err \<Rightarrow> (st, Inl err)
      | Inr sn \<Rightarrow>
     (case dumps e data of
        Inl err \<Rightarrow> (st, Inl err)
      | Inr _ \<Rightarrow>
          let st1 = log_msg Debug ''server->HOST'' st in
     (case py_getitem data ''command'' of
        Inl err \<Rightarrow> (st1, Inl err)
      | Inr command \<Rightarrow>
          if command = PStr ''registerDCSServer''
          then (case data of
                  PDict d \<Rightarrow>
                    (case register_server e st1 d of
                       (st2, Inl err) \<Rightarrow> (st2, Inl err)
                     | (st2, Inr False) \<Rightarrow> (st2, Inr None)
                     | (st2, Inr True) \<Rightarrow> (st2, Inr (Some data)))
                | _ \<Rightarrow> (st1, Inl TypeError))
          else (case unregistered st1 sn of
                  Inl err \<Rightarrow> (st1, Inl err)
                | Inr True \<Rightarrow>
                    (log_msg Debug ''Command for unregistered server, ignoring'' st1, Inr None)
                | Inr False \<Rightarrow> (st1, Inr (Some data))))))))"

definition handle :: "env \<Rightarrow> bot \<Rightarrow> string \<Rightarrow> bot \<times> unit raises" where
  "handle e st request =
     (case admit e st request of
        (st2, Inl err) \<Rightarrow> (st2, Inl err)
      | (st2, Inr None) \<Rightarrow> (st2, Inr ())
      | (st2, Inr (Some data)) \<Rightarrow>
          (case dispatch (eventListeners st2) 0 data st2 of
             (st3, results) \<Rightarrow> resolve st3 data results))"

subsection \<open>\<^verbatim>\<open>register_servers\<close>\<close>

text \<open>
  One turn of the loop of \<^verbatim>\<open>register_servers\<close>, in two halves around the \<^verbatim>\<open>await\<close>.
  The first sends the request. The second is given what the wait delivered: a
  TimeoutError sets the status of the server to SHUTDOWN, any other exception leaves the
  function, and a result is logged. The dictionary \<^verbatim>\<open>server\<close> of the loop is the one
  found under the name when the turn began; it is the record of the registry for as
  long as no registration binds a new dictionary under the name.
\<close>

definition probe_send :: "env \<Rightarrow> bot \<Rightarrow> string \<Rightarrow> string \<Rightarrow> bot \<times> nat raises" where
  "probe_send e st uuid server_name =
     (case getitem (globals st) server_name of
        Inl err \<Rightarrow> (st, Inl err)
      | Inr server \<Rightarrow>
          snd (sendtoDCSSync e st uuid server [(''command'', PStr ''registerDCSServer'')]))"

definition probe_resume :: "bot \<Rightarrow> string \<Rightarrow> pyval raises \<Rightarrow> bot \<times> unit raises" where
  "probe_resume st server_name outcome =
     (case outcome of
        Inr _ \<Rightarrow> (log_msg Info ''Running DCS server registered'' st, Inr ())
      | Inl TimeoutError \<Rightarrow> (server_set server_name ''status'' (PStatus SHUTDOWN) st, Inr ())
      | Inl err \<Rightarrow> (st, Inl err))"

text \<open>
  What the handler thread does while a request waits is \<open>handle\<close>, and how its work
  falls between the steps of this loop is not fixed by the source. The turn and the
  loop are therefore given for the run in which no datagram is handled from the first
  request to the last: each wait then ends by its timeout. \<open>uuid4\<close> gives the uuid
  drawn for the request to a server.
\<close>

definition probe_unanswered :: "env \<Rightarrow> bot \<Rightarrow> string \<Rightarrow> string \<Rightarrow> bot \<times> unit raises" where
  "probe_unanswered e st uuid server_name =
     (case probe_send e st uuid server_name of
        (st1, Inl err) \<Rightarrow> (st1, Inl err)
      | (st1, Inr fut) \<Rightarrow>
          (case wait_for_timeout st1 fut of
             (st2, outcome) \<Rightarrow> probe_resume st2 server_name outcome))"

fun probes_unanswered :: "env \<Rightarrow> bot \<Rightarrow> (string \<Rightarrow> string) \<Rightarrow> string list \<Rightarrow> bot \<times> unit raises" where
  "probes_unanswered e st uuid4 [] = (st, Inr ())"
| "probes_unanswered e st uuid4 (server_name # rest) =
     (case probe_unanswered e st (uuid4 server_name) server_name of
        (st1, Inl err) \<Rightarrow> (st1, Inl err)
      | (st1, Inr _) \<Rightarrow> probes_unanswered e st1 uuid4 rest)"

definition register_servers_unanswered :: "env \<Rightarrow> bot \<Rightarrow> (string \<Rightarrow> string) \<Rightarrow> bot \<times> unit raises" where
  "register_servers_unanswered e st uuid4 =
     probes_unanswered e (log_msg Info ''Searching for DCS servers'' st) uuid4 (map fst (globals st))"

text \<open>
  For the statements about the handler: what the listeners return for an event, in
  their order, each starting from the server dictionaries the one before left; the
  results among them that are kept; and two states with the same pending requests.
\<close>

fun returns :: "listener list \<Rightarrow> pyval \<Rightarrow> pyval dict dict \<Rightarrow> pyval raises list" where
  "returns [] data g = []"
| "returns (l # ls) data g = (case l data g of (res, g') \<Rightarrow> res # returns ls data g')"

fun non_empty_results :: "pyval raises list \<Rightarrow> pyval list" where
  "non_empty_results [] = []"
| "non_empty_results (Inl err # rs) = non_empty_results rs"
| "non_empty_results (Inr v # rs) = (if truthy v then v # non_empty_results rs else non_empty_results rs)"

definition same_pending :: "bot \<Rightarrow> bot \<Rightarrow> bool" where
  "same_pending st st' =
     (listeners st' = listeners st \<and> futures st' = futures st \<and> loop_calls st' = loop_calls st \<and>
      eventListeners st' = eventListeners st)"

section \<open>The agent of \<^verbatim>\<open>services/listener.py\<close>\<close>

text \<open>
  \<^verbatim>\<open>ServerImpl\<close> is not part of the source; a server object is the attributes the service
  reads and writes. \<open>srv_listeners\<close> maps the token of a request to the address of its
  future.
\<close>

record server_obj =
  srv_name :: string
  srv_installation :: string
  srv_status :: Status
  srv_dcs_version :: pyval
  srv_process :: "nat option"
  srv_settings :: "pyval dict"
  srv_listeners :: "nat dict"

text \<open>What \<^verbatim>\<open>getattr(server, name)\<close> can find: a method, or a value that is not callable.\<close>

datatype attribute = Callable "pyval dict \<Rightarrow> pyval raises" | Plain pyval

text \<open>
  What the service reads from outside the source: the host name, the ini file, the
  installations \<^verbatim>\<open>utils.findDCSInstallations\<close> finds for a name (pairs of server name
  and installation), the JSON codec, the constructor behind \<^verbatim>\<open>DataObjectFactory\<close>,
  \<^verbatim>\<open>utils.find_process\<close>, the two ports of \<^verbatim>\<open>Autoexec\<close>, and the \<^verbatim>\<open>rename\<close> method and
  the attributes of a server object.
\<close>

record service_env =
  svc_node :: string
  svc_config :: "string dict dict"
  svc_findDCSInstallations :: "string \<Rightarrow> (string \<times> string) list"
  svc_loads :: "string \<Rightarrow> pyval raises"
  svc_dumps :: "pyval \<Rightarrow> string raises"
  new_server :: "string \<Rightarrow> string \<Rightarrow> string \<Rightarrow> string \<Rightarrow> server_obj"
  find_process :: "string \<Rightarrow> string \<Rightarrow> nat option"
  webgui_port :: "string \<Rightarrow> pyval"
  webrtc_port :: "string \<Rightarrow> pyval"
  rename_method :: "server_obj \<Rightarrow> string \<Rightarrow> server_obj raises"
  getattr :: "server_obj \<Rightarrow> string \<Rightarrow> attribute option"

text \<open>
  What happens to the servers is recorded as events: a message passed to
  \<^verbatim>\<open>server.sendtoDCS\<close>, a method invoked for an RPC, and the \<^verbatim>\<open>DELETE\<close> of an intercom
  row. The first two carry the id of the row they come from.
\<close>

datatype event = SentToDCS nat string pyval | RpcInvoked nat string | Deleted nat

fun event_id :: "event \<Rightarrow> nat" where
  "event_id (SentToDCS i name data) = i"
| "event_id (RpcInvoked i name) = i"
| "event_id (Deleted i) = i"

fun is_delete :: "event \<Rightarrow> bool" where
  "is_delete (Deleted i) = True"
| "is_delete ev = False"

text \<open>
  The service: its servers in the order of the dictionary, the futures and the calls
  posted for the loop, the \<^verbatim>\<open>servers\<close> and \<^verbatim>\<open>intercom\<close> tables (rows of the latter are
  id, agent and data, in the order a query without \<^verbatim>\<open>ORDER BY\<close> returns them), the next
  id of the sequence, the events and the log.
\<close>

record service =
  svc_version :: string
  servers :: "server_obj dict"
  svc_futures :: "future list"
  svc_loop_calls :: "(nat \<times> pyval) list"
  svc_db_servers :: "(string \<times> string \<times> pyval \<times> pyval) list"
  intercom_table :: "(nat \<times> string \<times> pyval) list"
  intercom_seq :: nat
  events :: "event list"
  svc_log :: "(log_level \<times> string) list"

definition svc_log_msg :: "log_level \<Rightarrow> string \<Rightarrow> service \<Rightarrow> service" where
  "svc_log_msg lvl txt st = st\<lparr>svc_log := svc_log st @ [(lvl, txt)]\<rparr>"

definition emit :: "event \<Rightarrow> service \<Rightarrow> service" where
  "emit ev st = st\<lparr>events := events st @ [ev]\<rparr>"

text \<open>\<^verbatim>\<open>INSERT INTO intercom (agent, data) VALUES ('Master', data)\<close>\<close>

definition sendtoMaster :: "service \<Rightarrow> pyval \<Rightarrow> service" where
  "sendtoMaster st data =
     st\<lparr>intercom_table := intercom_table st @ [(intercom_seq st, ''Master'', data)],
        intercom_seq := Suc (intercom_seq st)\<rparr>"

text \<open>An attribute of the object under a name of \<^verbatim>\<open>self.servers\<close> is assigned.\<close>

definition server_update :: "string \<Rightarrow> (server_obj \<Rightarrow> server_obj) \<Rightarrow> service \<Rightarrow> service" where
  "server_update name f st =
     st\<lparr>servers := map (\<lambda>ns. if fst ns = name then (fst ns, f (snd ns)) else ns) (servers st)\<rparr>"

subsection \<open>\<^verbatim>\<open>EventListenerService.register_server\<close>\<close>

text \<open>\<^verbatim>\<open>key in ports\<close> for a dictionary keyed by port: a list or a dictionary cannot be hashed.\<close>

definition port_taken :: "pyval \<Rightarrow> pyval list \<Rightarrow> bool raises" where
  "port_taken port ports =
     (case port of PList _ \<Rightarrow> Inl TypeError | PDict _ \<Rightarrow> Inl TypeError | _ \<Rightarrow> Inr (port \<in> set ports))"

text \<open>\<^verbatim>\<open>server.settings['advanced'].get('voice_chat_server', False)\<close> as a condition.\<close>

definition voice_chat :: "server_obj \<Rightarrow> bool raises" where
  "voice_chat server =
     (case getitem (srv_settings server) ''advanced'' of
        Inl err \<Rightarrow> Inl err
      | Inr (PDict advanced) \<Rightarrow>
          Inr (case map_of advanced ''voice_chat_server'' of None \<Rightarrow> False | Some v \<Rightarrow> truthy v)
      | Inr _ \<Rightarrow> Inl AttributeError)"

text \<open>
  Lines 137 to 162, the loop over \<^verbatim>\<open>self.servers.values()\<close> with the ports seen so far.
  The result is False when the loop returned False from the function, True when it ran
  to its end. A shared voice port is only logged.
\<close>

fun validate_ports ::
  "service_env \<Rightarrow> service \<Rightarrow> server_obj list \<Rightarrow> pyval list \<Rightarrow> pyval list \<Rightarrow> pyval list \<Rightarrow>
   service \<times> bool raises" where
  "validate_ports e st [] dcs_ports webgui_ports webrtc_ports = (st, Inr True)"
| "validate_ports e st (server # rest) dcs_ports webgui_ports webrtc_ports =
     (let dcs_port = (case map_of (srv_settings server) ''port'' of None \<Rightarrow> PInt 10308 | Some p \<Rightarrow> p) in
      case port_taken dcs_port dcs_ports of
        Inl err \<Rightarrow> (st, Inl err)
      | Inr True \<Rightarrow> (svc_log_msg Error ''shares its DCS port'' st, Inr False)
      | Inr False \<Rightarrow>
          let gui = (let p = webgui_port e (srv_installation server) in if truthy p then p else PInt 8088) in
          (case port_taken gui webgui_ports of
             Inl err \<Rightarrow> (st, Inl err)
           | Inr True \<Rightarrow> (svc_log_msg Error ''shares its webgui_port'' st, Inr False)
           | Inr False \<Rightarrow>
               let rtc = (let p = webrtc_port e (srv_installation server) in if truthy p then p else PInt 10309) in
               (case port_taken rtc webrtc_ports of
                  Inl err \<Rightarrow> (st, Inl err)
                | Inr True \<Rightarrow>
                    (case voice_chat server of
                       Inl err \<Rightarrow> (st, Inl err)
                     | Inr chat \<Rightarrow>
                         validate_ports e
                           (svc_log_msg (if chat then Error else Warning) ''shares its webrtc_port'' st)
                           rest (dcs_ports @ [dcs_port]) (webgui_ports @ [gui]) webrtc_ports)
                | Inr False \<Rightarrow>
                    validate_ports e st rest (dcs_ports @ [dcs_port]) (webgui_ports @ [gui])
                      (webrtc_ports @ [rtc]))))"

text \<open>
  Lines 165 to 183. After the loop above the variable \<^verbatim>\<open>server\<close> is the last object of
  \<^verbatim>\<open>self.servers\<close>, and that is the one renamed.
\<close>

definition service_register_db ::
  "service_env \<Rightarrow> service \<Rightarrow> string \<Rightarrow> pyval dict \<Rightarrow> service \<times> bool raises" where
  "service_register_db e st name data =
     (case getitem data ''host'' of
        Inl err \<Rightarrow> (st, Inl err)
      | Inr host \<Rightarrow>
     (case getitem data ''port'' of
        Inl err \<Rightarrow> (st, Inl err)
      | Inr port \<Rightarrow>
          (case filter (\<lambda>r. fst (snd r) = svc_node e \<and> fst (snd (snd r)) = host \<and>
                             snd (snd (snd r)) = port) (svc_db_servers st) of
             [row] \<Rightarrow>
               let server_name = fst row in
               if server_name \<noteq> name then
                 if length (svc_findDCSInstallations e server_name) = 0 then
                   (let st1 = svc_log_msg Info ''Auto-renaming server'' st;
                        last_name = fst (last (servers st1)) in
                    case rename_method e (snd (last (servers st1))) name of
                      Inl err \<Rightarrow> (st1, Inl err)
                    | Inr renamed \<Rightarrow>
                        let st2 = server_update last_name (\<lambda>_. renamed) st1;
                            st3 = (if contains (servers st2) server_name
                                   then st2\<lparr>servers := remove_key server_name (servers st2)\<rparr>
                                   else st2)
                        in (svc_log_msg Debug ''Server initialized'' st3, Inr True))
                 else
                   (let st1 = svc_log_msg Warning ''Registration aborted due to UDP port conflict'' st
                    in (st1\<lparr>servers := remove_key name (servers st1)\<rparr>, Inr False))
               else (svc_log_msg Debug ''Server initialized'' st, Inr True)
           | _ \<Rightarrow> (svc_log_msg Debug ''Server initialized'' st, Inr True))))"

definition service_config_get :: "service_env \<Rightarrow> string \<Rightarrow> string \<Rightarrow> string raises" where
  "service_config_get e installation option =
     (case getitem (svc_config e) installation of
        Inl err \<Rightarrow> Inl err
      | Inr section \<Rightarrow> getitem section option)"

definition service_register_server ::
  "service_env \<Rightarrow> service \<Rightarrow> pyval dict \<Rightarrow> service \<times> bool raises" where
  "service_register_server e st data =
     (case getitem data ''server_name'' of
        Inl err \<Rightarrow> (st, Inl err)
      | Inr sn \<Rightarrow>
     (case (case sn of PStr name \<Rightarrow> map (\<lambda>i. (name, snd i)) (svc_findDCSInstallations e name) | _ \<Rightarrow> []) of
        [] \<Rightarrow> (svc_log_msg Error ''No server found in any serverSettings.lua'' st, Inr False)
      | (name, installation) # _ \<Rightarrow>
          if \<not> contains (svc_config e) installation
          then (svc_log_msg Error ''No section found in dcsserverbot.ini'' st, Inr False)
          else
            let st1 = svc_log_msg Debug ''Registering DCS-Server'' st in
            (case getitem data ''hook_version'' of
               Inl err \<Rightarrow> (st1, Inl err)
             | Inr hook_version \<Rightarrow>
                 if hook_version \<noteq> PStr (svc_version st1)
                 then (svc_log_msg Error ''wrong Hook version'' st1, Inr False)
                 else
                   (case (if contains (servers st1) name then Inr st1
                          else (case service_config_get e installation ''DCS_HOST'' of
                                  Inl err \<Rightarrow> Inl err
                                | Inr host \<Rightarrow>
                                    (case service_config_get e installation ''DCS_PORT'' of
                                       Inl err \<Rightarrow> Inl err
                                     | Inr port \<Rightarrow>
                                         Inr (st1\<lparr>servers := setitem name
                                                (new_server e name installation host port) (servers st1)\<rparr>)))) of
                      Inl err \<Rightarrow> (st1, Inl err)
                    | Inr st2 \<Rightarrow>
                        let st3 = server_update name
                              (\<lambda>s. s\<lparr>srv_process :=
                                     (case find_process e ''DCS_server.exe'' (srv_installation s) of
                                        Some pid \<Rightarrow> Some pid
                                      | None \<Rightarrow> find_process e ''DCS.exe'' (srv_installation s))\<rparr>) st2 in
                        (case getitem data ''dcs_version'' of
                           Inl err \<Rightarrow> (st3, Inl err)
                         | Inr dcs_version \<Rightarrow>
                             let st4 = server_update name
                                   (\<lambda>s. s\<lparr>srv_dcs_version := dcs_version, srv_status := STOPPED\<rparr>) st3 in
                             (case validate_ports e st4 (map snd (servers st4)) [] [] [] of
                                (st5, Inl err) \<Rightarrow> (st5, Inl err)
                              | (st5, Inr False) \<Rightarrow> (st5, Inr False)
                              | (st5, Inr True) \<Rightarrow> service_register_db e st5 name data))))))"

subsection \<open>The UDP request handler of the service\<close>

text \<open>
  In the handler \<^verbatim>\<open>server\<close> is the object found under the name when the datagram
  came in. After \<^verbatim>\<open>register_server\<close> it is still the object under that name, unless
  the registration was aborted for a port conflict and the name removed; the attributes
  set before that leave the installation alone.
\<close>

text \<open>
  \<^verbatim>\<open>self.servers.get(server_name)\<close>: a list or a dictionary cannot be hashed, any other
  value that is not a string is no key of \<^verbatim>\<open>self.servers\<close>.
\<close>

definition servers_get :: "service \<Rightarrow> pyval \<Rightarrow> (string \<times> server_obj) option raises" where
  "servers_get st sn =
     (case sn of
        PStr name \<Rightarrow> Inr (map_option (\<lambda>s. (name, s)) (map_of (servers st) name))
      | PList _ \<Rightarrow> Inl TypeError
      | PDict _ \<Rightarrow> Inl TypeError
      | _ \<Rightarrow> Inr None)"

text \<open>
  Lines 247 to 253. The result tells whether the handler goes on: it returns here when
  the channel is the token of a pending request of the server and the command is not
  the registration.
\<close>

definition answer_request ::
  "service \<Rightarrow> server_obj \<Rightarrow> pyval dict \<Rightarrow> pyval \<Rightarrow> service \<times> bool raises" where
  "answer_request st server d command =
     (case map_of d ''channel'' of
        None \<Rightarrow> (st, Inr True)
      | Some (PStr channel) \<Rightarrow>
          if prefix ''sync-'' channel then
            (case map_of (srv_listeners server) channel of
               None \<Rightarrow> (st, Inr True)
             | Some f \<Rightarrow>
                 let st1 = (if svc_futures st ! f = Pending
                            then st\<lparr>svc_loop_calls := svc_loop_calls st @ [(f, PDict d)]\<rparr>
                            else st)
                 in (st1, Inr (command = PStr ''registerDCSServer'')))
          else (st, Inr True)
      | Some _ \<Rightarrow> (st, Inl AttributeError))"

definition service_handle :: "service_env \<Rightarrow> service \<Rightarrow> string \<Rightarrow> service \<times> unit raises" where
  "service_handle e st request =
     (case svc_loads e (strip request) of
        Inl err \<Rightarrow> (st, Inl err)
      | Inr data \<Rightarrow>
     (case py_in ''server_name'' data of
        Inl err \<Rightarrow> (st, Inl err)
      | Inr False \<Rightarrow> (svc_log_msg Warning ''Message without server_name received'' st, Inr ())
      | Inr True \<Rightarrow>
     (case data of
        PDict d \<Rightarrow>
          (case getitem d ''server_name'' of
             Inl err \<Rightarrow> (st, Inl err)
           | Inr sn \<Rightarrow>
          (case getitem d ''command'' of
             Inl err \<Rightarrow> (st, Inl err)
           | Inr command \<Rightarrow>
          (case servers_get st sn of
             Inl err \<Rightarrow> (st, Inl err)
           | Inr None \<Rightarrow> (svc_log_msg Warning ''Command for unknown server received, ignoring'' st, Inr ())
           | Inr (Some (name, server)) \<Rightarrow>
          (case svc_dumps e data of
             Inl err \<Rightarrow> (st, Inl err)
           | Inr _ \<Rightarrow>
               (case answer_request (svc_log_msg Debug ''server->HOST'' st) server d command of
                  (st1, Inl err) \<Rightarrow> (st1, Inl err)
                | (st1, Inr False) \<Rightarrow> (st1, Inr ())
                | (st1, Inr True) \<Rightarrow>
                    if command = PStr ''registerDCSServer'' then
                      (case service_register_server e st1 d of
                         (st2, Inl err) \<Rightarrow> (st2, Inl err)
                       | (st2, Inr _) \<Rightarrow>
                           let st3 = svc_log_msg Info ''Registering server on Master node'' st2;
                               installation = (case map_of (servers st2) name of
                                                 Some s \<Rightarrow> srv_installation s
                                               | None \<Rightarrow> srv_installation server);
                               d1 = setitem ''agent'' (PStr (svc_node e))
                                      (setitem ''installation'' (PStr installation) d)
                           in (sendtoMaster st3 (PDict d1), Inr ()))
                    else (sendtoMaster st1 data, Inr ()))))))
      | _ \<Rightarrow> (st, Inl TypeError))))"

subsection \<open>\<^verbatim>\<open>rpc\<close> and the \<^verbatim>\<open>intercom\<close> loop\<close>

text \<open>
  \<^verbatim>\<open>getattr\<close> raises TypeError for a name that is no string and AttributeError for a
  missing attribute; an attribute that is false as a condition gives None; keyword
  arguments must be a dictionary; a value that is not callable cannot be called.
\<close>

definition rpc :: "service_env \<Rightarrow> server_obj \<Rightarrow> pyval dict \<Rightarrow> pyval raises" where
  "rpc e server d =
     (case map_of d ''method'' of
        Some (PStr method) \<Rightarrow>
          (case getattr e server method of
             None \<Rightarrow> Inl AttributeError
           | Some (Plain v) \<Rightarrow> if truthy v then Inl TypeError else Inr PNone
           | Some (Callable func) \<Rightarrow>
               (case (case map_of d ''params'' of None \<Rightarrow> PDict [] | Some p \<Rightarrow> p) of
                  PDict kwargs \<Rightarrow> func kwargs
                | _ \<Rightarrow> Inl TypeError))
      | _ \<Rightarrow> Inl TypeError)"

text \<open>Lines 199 to 216: what the loop does with the data of one row before it deletes the row.\<close>

definition process_row :: "service_env \<Rightarrow> service \<Rightarrow> nat \<Rightarrow> pyval \<Rightarrow> service \<times> unit raises" where
  "process_row e st i data =
     (case data of
        PDict d \<Rightarrow>
          (case getitem d ''server_name'' of
             Inl err \<Rightarrow> (st, Inl err)
           | Inr sn \<Rightarrow>
          (case getitem d ''command'' of
             Inl err \<Rightarrow> (st, Inl err)
           | Inr command \<Rightarrow>
          (case servers_get st sn of
             Inl err \<Rightarrow> (st, Inl err)
           | Inr None \<Rightarrow> (svc_log_msg Warning ''Command for unknown server received, ignoring'' st, Inr ())
           | Inr (Some (name, server)) \<Rightarrow>
               if command = PStr ''rpc'' then
                 if map_of d ''object'' = Some (PStr ''Server'') then
                   (let st1 = emit (RpcInvoked i name) st in
                    case rpc e server d of
                      Inl err \<Rightarrow> (st1, Inl err)
                    | Inr rc \<Rightarrow>
                        if truthy rc
                        then (sendtoMaster st1 (PDict (setitem ''return'' rc d)), Inr ())
                        else (st1, Inr ()))
                 else (svc_log_msg Warning ''RPC command received for unknown object'' st, Inr ())
               else (emit (SentToDCS i name data) st, Inr ()))))
      | _ \<Rightarrow> (st, Inl TypeError))"

text \<open>
  The rows are handled in the order the query returned them. The deletions belong to
  the transaction of the loop: they are collected and take effect when the loop ends,
  and an exception drops them.
\<close>

fun intercom_rows ::
  "service_env \<Rightarrow> service \<Rightarrow> (nat \<times> string \<times> pyval) list \<Rightarrow> nat list \<Rightarrow> service \<times> nat list raises" where
  "intercom_rows e st [] deleted = (st, Inr deleted)"
| "intercom_rows e st (row # rows) deleted =
     (case process_row e st (fst row) (snd (snd row)) of
        (st1, Inl err) \<Rightarrow> (st1, Inl err)
      | (st1, Inr _) \<Rightarrow>
          intercom_rows e (emit (Deleted (fst row)) st1) rows (deleted @ [fst row]))"

text \<open>\<^verbatim>\<open>SELECT id, data FROM intercom WHERE agent = %s\<close> for this node.\<close>

definition select_intercom :: "service_env \<Rightarrow> service \<Rightarrow> (nat \<times> string \<times> pyval) list" where
  "select_intercom e st = filter (\<lambda>row. fst (snd row) = svc_node e) (intercom_table st)"

definition intercom :: "service_env \<Rightarrow> service \<Rightarrow> service \<times> unit raises" where
  "intercom e st =
     (case intercom_rows e st (select_intercom e st) [] of
        (st1, Inl err) \<Rightarrow> (st1, Inl err)
      | (st1, Inr deleted) \<Rightarrow>
          (st1\<lparr>intercom_table := filter (\<lambda>row. fst row \<notin> set deleted) (intercom_table st1)\<rparr>, Inr ()))"

section \<open>A small installation to run the definitions on\<close>

text \<open>
  A codec given by a table of datagram texts and the values they stand for, an \<^verbatim>\<open>int\<close>
  for integers, booleans and digit strings, a host with the two configured servers
  Alpha and Bravo, and a bot that has just started.
\<close>

definition table_loads :: "(string \<times> pyval) list \<Rightarrow> string \<Rightarrow> pyval raises" where
  "table_loads tbl wire = (case map_of tbl wire of Some v \<Rightarrow> Inr v | None \<Rightarrow> Inl JSONDecodeError)"

definition table_dumps :: "(string \<times> pyval) list \<Rightarrow> pyval \<Rightarrow> string raises" where
  "table_dumps tbl v =
     (case find (\<lambda>wv. snd wv = v) tbl of Some wv \<Rightarrow> Inr (fst wv) | None \<Rightarrow> Inl TypeError)"

definition example_int :: "pyval \<Rightarrow> int raises" where
  "example_int v =
     (case v of
        PInt i \<Rightarrow> Inr i
      | PBool b \<Rightarrow> Inr (if b then 1 else 0)
      | PStr s \<Rightarrow> (if s \<noteq> [] \<and> list_all (\<lambda>c. c \<in> set ''0123456789'') s
                  then Inr (int (nat_of_digits s)) else Inl ValueError)
      | _ \<Rightarrow> Inl TypeError)"

definition example_channels :: "string dict" where
  "example_channels = [(''CHAT_CHANNEL'', ''11''), (''STATUS_CHANNEL'', ''12''), (''ADMIN_CHANNEL'', ''13'')]"

definition example_env :: "(string \<times> pyval) list \<Rightarrow> env" where
  "example_env tbl =
     \<lparr>node = ''node1'',
      findDCSInstallations =
        (\<lambda>n. if n = ''Alpha'' then [''instance1''] else if n = ''Bravo'' then [''instance2''] else []),
      config = [(''instance1'', example_channels), (''instance2'', example_channels)],
      loads = table_loads tbl,
      dumps = table_dumps tbl,
      int_of = example_int,
      cogs = []\<rparr>"

definition example_bot :: bot where
  "example_bot =
     \<lparr>version = ''2.5'', globals = [], embeds = [], listeners = [], futures = [], loop_calls = [],
      eventListeners = [], db_servers = [], db_message_persistence = [], settings_changes = [],
      sent = [], delivered = [], log = []\<rparr>"

definition example_server :: "string \<Rightarrow> int \<Rightarrow> Status \<Rightarrow> pyval dict" where
  "example_server name port status =
     [(''server_name'', PStr name), (''host'', PStr ''127.0.0.1''), (''port'', PInt port),
      (''status'', PStatus status)]"

text \<open>
  A request to Alpha that waits for its reply: the state right after
  \<^verbatim>\<open>sendtoDCSSync\<close> with the uuid \<open>6f1c\<close>.
\<close>

definition example_wire :: "(string \<times> pyval) list" where
  "example_wire =
     [(''datagram-1'', PDict [(''command'', PStr ''ping''), (''channel'', PStr ''sync-6f1c'')])]"

definition example_pending :: bot where
  "example_pending =
     fst (snd (sendtoDCSSync (example_env example_wire)
       (example_bot\<lparr>globals := [(''Alpha'', example_server ''Alpha'' 6666 RUNNING)]\<rparr>)
       ''6f1c'' (example_server ''Alpha'' 6666 RUNNING) [(''command'', PStr ''ping'')]))"

text \<open>
  An agent on the same host, with Alpha configured and not yet heard of, and the
  datagrams of the examples below.
\<close>

definition example_server_obj :: "string \<Rightarrow> string \<Rightarrow> Status \<Rightarrow> server_obj" where
  "example_server_obj name installation status =
     \<lparr>srv_name = name, srv_installation = installation, srv_status = status,
      srv_dcs_version = PNone, srv_process = None, srv_settings = [], srv_listeners = []\<rparr>"

definition example_service_env :: "(string \<times> pyval) list \<Rightarrow> service_env" where
  "example_service_env tbl =
     \<lparr>svc_node = ''node1'',
      svc_config = [(''instance1'', [(''DCS_HOST'', ''127.0.0.1''), (''DCS_PORT'', ''6666'')]),
                    (''instance2'', [(''DCS_HOST'', ''127.0.0.1''), (''DCS_PORT'', ''6667'')])],
      svc_findDCSInstallations =
        (\<lambda>n. if n = ''Alpha'' then [(''Alpha'', ''instance1'')]
             else if n = ''Bravo'' then [(''Bravo'', ''instance2'')] else []),
      svc_loads = table_loads tbl,
      svc_dumps = table_dumps tbl,
      new_server = (\<lambda>name installation host port. example_server_obj name installation UNKNOWN),
      find_process = (\<lambda>exe installation. None),
      webgui_port = (\<lambda>installation. PNone),
      webrtc_port = (\<lambda>installation. PNone),
      rename_method = (\<lambda>server name. Inr (server\<lparr>srv_name := name\<rparr>)),
      getattr = (\<lambda>server name. None)\<rparr>"

definition example_service :: service where
  "example_service =
     \<lparr>svc_version = ''2.5'',
      servers = [(''Alpha'', example_server_obj ''Alpha'' ''instance1'' UNKNOWN)],
      svc_futures = [], svc_loop_calls = [], svc_db_servers = [], intercom_table = [],
      intercom_seq = 1, events = [], svc_log = []\<rparr>"

definition example_datagrams :: "(string \<times> pyval) list" where
  "example_datagrams =
     [(''register Bravo'',
         PDict [(''command'', PStr ''registerDCSServer''), (''server_name'', PStr ''Bravo''),
                (''hook_version'', PStr ''2.5''), (''channel'', PStr ''-1''),
                (''host'', PStr ''127.0.0.1''), (''port'', PInt 6667), (''dcs_version'', PStr ''2.8'')]),
      (''Alpha started'',
         PDict [(''command'', PStr ''onSimulationStart''), (''server_name'', PStr ''Alpha''),
                (''channel'', PStr ''-1'')]),
      (''Bravo started'',
         PDict [(''command'', PStr ''onSimulationStart''), (''server_name'', PStr ''Bravo''),
                (''channel'', PStr ''-1'')]),
      (''no command'', PDict [(''server_name'', PStr ''Alpha'')]),
      (''no server_name'', PDict [(''command'', PStr ''onSimulationStart'')]),
      (''Alpha answers'',
         PDict [(''command'', PStr ''getMissionDetails''), (''server_name'', PStr ''Alpha''),
                (''channel'', PStr ''sync-6f1c'')])]"

text \<open>
  Datagrams that lack something, and a bot that has Alpha running and one listener.
\<close>

definition malformed_datagrams :: "(string \<times> pyval) list" where
  "malformed_datagrams =
     [(''a number'', PInt 42),
      (''a list'', PList [PInt 1, PInt 2]),
      (''a list with server_name'', PList [PStr ''server_name'']),
      (''event without channel'',
         PDict [(''command'', PStr ''onSimulationStart''), (''server_name'', PStr ''Alpha'')]),
      (''registration without channel'',
         PDict [(''command'', PStr ''registerDCSServer''), (''server_name'', PStr ''Bravo''),
                (''hook_version'', PStr ''2.5''), (''host'', PStr ''127.0.0.1''),
                (''port'', PInt 6667), (''dcs_version'', PStr ''2.8'')]),
      (''registration without dcs_version'',
         PDict [(''command'', PStr ''registerDCSServer''), (''server_name'', PStr ''Alpha''),
                (''hook_version'', PStr ''2.5''), (''host'', PStr ''127.0.0.1''),
                (''port'', PInt 6666)])]"

definition example_listening :: bot where
  "example_listening =
     example_bot\<lparr>globals := [(''Alpha'', example_server ''Alpha'' 6666 RUNNING)],
                 eventListeners := [\<lambda>data g. (Inr PNone, g)]\<rparr>"

section \<open>Properties\<close>

lemma str_nat_small: "n < 10 \<Longrightarrow> str_nat n = [digit_char n]"
  by (subst str_nat.simps) simp

lemma str_nat_big: "\<not> n < 10 \<Longrightarrow> str_nat n = str_nat (n div 10) @ [digit_char (n mod 10)]"
  by (subst str_nat.simps) simp

lemma digit_cases: "d < 10 \<Longrightarrow> d \<in> {0, 1, 2, 3, 4, 5, 6, 7, 8, 9 :: nat}"
  by auto

lemma map_of_setitem: "map_of (setitem k v d) = (map_of d)(k \<mapsto> v)"
  by (induction d) (auto simp: fun_eq_iff)

lemma keys_setitem:
  "map fst (setitem k v d) = (if k \<in> fst ` set d then map fst d else map fst d @ [k])"
proof (induction d)
  case Nil
  then show ?case by simp
next
  case (Cons a d)
  then show ?case by (cases a) (simp add: image_iff)
qed

lemma well_formed_setitem: "well_formed d \<Longrightarrow> well_formed (setitem k v d)"
  by (simp add: well_formed_def keys_setitem)

lemma setitem_middle:
  "k \<notin> fst ` set ps \<Longrightarrow> setitem k v (ps @ (k, w) # r) = ps @ (k, v) # r"
  by (induction ps) auto


lemma coerce_item_middle:
  "fst kv \<notin> fst ` set ps \<Longrightarrow>
   coerce_item kv (ps @ kv # r) = ps @ coerced_item kv # r"
  by (cases kv; cases "snd kv") (auto simp: coerce_item_def coerced_item_def setitem_middle)

lemma fold_coerce_item:
  "distinct (map fst (ps @ xs)) \<Longrightarrow>
   fold coerce_item xs (ps @ xs) = ps @ map coerced_item xs"
proof (induction xs arbitrary: ps)
  case Nil
  then show ?case by simp
next
  case (Cons kv xs)
  have "fst kv \<notin> fst ` set ps" using Cons.prems by auto
  then have step: "coerce_item kv (ps @ kv # xs) = (ps @ [coerced_item kv]) @ xs"
    by (simp add: coerce_item_middle)
  have "distinct (map fst ((ps @ [coerced_item kv]) @ xs))"
    using Cons.prems by (auto simp: coerced_item_def)
  from Cons.IH [OF this] show ?case
    by (simp add: step)
qed

lemma coerce_ints_map: "well_formed m \<Longrightarrow> coerce_ints m = map coerced_item m"
  using fold_coerce_item [of "[]" m] by (simp add: coerce_ints_def well_formed_def)

lemma digit_val_digit_char: "d < 10 \<Longrightarrow> digit_val (digit_char d) = d"
  using digit_cases [of d] by (auto simp: digit_val_def digit_char_def)

lemma nat_of_digits_snoc: "nat_of_digits (s @ [c]) = 10 * nat_of_digits s + digit_val c"
  by (simp add: nat_of_digits_def)

lemma nat_of_digits_str_nat: "nat_of_digits (str_nat n) = n"
proof (induction n rule: str_nat.induct)
  case (1 n)
  show ?case
  proof (cases "n < 10")
    case True
    then show ?thesis
      by (subst str_nat.simps) (simp add: nat_of_digits_def digit_val_digit_char)
  next
    case False
    with 1 have "nat_of_digits (str_nat (n div 10)) = n div 10" by simp
    with False show ?thesis
      by (subst str_nat.simps) (simp add: nat_of_digits_snoc digit_val_digit_char)
  qed
qed

lemma digit_char_not_minus: "d < 10 \<Longrightarrow> digit_char d \<noteq> CHR ''-''"
proof
  assume d: "d < 10" and "digit_char d = CHR ''-''"
  with digit_cases [of d] show False by (auto simp: digit_char_def)
qed

lemma hd_str_nat: "\<exists>d cs. d < 10 \<and> str_nat n = digit_char d # cs"
proof (induction n rule: str_nat.induct)
  case (1 n)
  show ?case
  proof (cases "n < 10")
    case True
    then show ?thesis by (subst str_nat.simps) auto
  next
    case False
    with 1 obtain d cs where "d < 10" "str_nat (n div 10) = digit_char d # cs" by auto
    with False show ?thesis by (subst str_nat.simps) auto
  qed
qed

lemma int_of_str_str_int: "int_of_str (str_int i) = i"
proof (cases "i < 0")
  case True
  then show ?thesis by (simp add: int_of_str_def str_int_def nat_of_digits_str_nat)
next
  case False
  obtain d cs where d: "d < 10" "str_nat (nat i) = digit_char d # cs"
    using hd_str_nat by blast
  have "nat_of_digits (digit_char d # cs) = nat i"
    using nat_of_digits_str_nat [of "nat i"] d by simp
  with False d show ?thesis
    by (simp add: int_of_str_def str_int_def digit_char_not_minus)
qed

lemma inj_str_int: "inj str_int"
  by (rule inj_on_inverseI [where g = int_of_str]) (rule int_of_str_str_int)



lemma fst_sendtoDCS: "fst (sendtoDCS e st server message) = coerce_ints message"
  by (simp add: sendtoDCS_def Let_def)

lemma fst_sendtoDCSSync:
  "fst (sendtoDCSSync e st uuid server message) =
   coerce_ints (setitem ''channel'' (PStr (''sync-'' @ uuid)) message)"
proof -
  obtain m r where "sendtoDCS e (st\<lparr>futures := futures st @ [Pending]\<rparr>) server
      (setitem ''channel'' (PStr (''sync-'' @ uuid)) message) = (m, r)"
    by (cases "sendtoDCS e (st\<lparr>futures := futures st @ [Pending]\<rparr>) server
      (setitem ''channel'' (PStr (''sync-'' @ uuid)) message)")
  moreover from this have "m = coerce_ints (setitem ''channel'' (PStr (''sync-'' @ uuid)) message)"
    using fst_sendtoDCS [of e "st\<lparr>futures := futures st @ [Pending]\<rparr>" server
       "setitem ''channel'' (PStr (''sync-'' @ uuid)) message"] by simp
  ultimately show ?thesis
    by (cases r) (simp_all add: sendtoDCSSync_def Let_def)
qed

lemma sendtoDCS_sent:
  "sendtoDCS e st server message = (m, Inr st') \<Longrightarrow>
   \<exists>host port msg. dumps e (PDict (coerce_ints message)) = Inr msg \<and>
      sent st' = sent st @ [(host, port, msg)]"
  by (auto simp: sendtoDCS_def Let_def log_msg_def split: sum.splits)

lemma coerced_item_fixed: "coerced_item kv = kv \<longleftrightarrow> (\<forall>i. snd kv \<noteq> PInt i)"
  by (cases kv; cases "snd kv") (auto simp: coerced_item_def)

lemma map_coerced_fixed:
  "map coerced_item m = m \<longleftrightarrow> (\<forall>k i. (k, PInt i) \<notin> set m)"
proof -
  have "map coerced_item m = m \<longleftrightarrow> (\<forall>kv \<in> set m. coerced_item kv = kv)"
    by (induction m) auto
  also have "\<dots> \<longleftrightarrow> (\<forall>k i. (k, PInt i) \<notin> set m)"
    by (auto simp: coerced_item_fixed)
  finally show ?thesis .
qed

lemma map_of_coerced:
  "map_of (map coerced_item m) k = map_option coerced (map_of m k)"
  by (induction m) (auto simp: coerced_item_def)


lemma table_codec_round_trip:
  assumes "distinct (map fst tbl)" and "table_dumps tbl v = Inr wire"
  shows "table_loads tbl wire = Inr v"
proof -
  from assms(2) obtain wv where f: "find (\<lambda>wv. snd wv = v) tbl = Some wv" and w: "wire = fst wv"
    by (auto simp: table_dumps_def split: option.splits)
  from f have "wv \<in> set tbl" "snd wv = v"
    by (auto simp: find_Some_iff)
  with assms(1) w have "map_of tbl wire = Some v"
    by (cases wv) auto
  then show ?thesis by (simp add: table_loads_def)
qed

lemma map_of_member: "well_formed m \<Longrightarrow> (k, v) \<in> set m \<Longrightarrow> map_of m k = Some v"
  by (simp add: well_formed_def)

lemma setitem_same: "map_of d k = Some v \<Longrightarrow> setitem k v d = d"
  by (induction d) (auto split: if_splits)

subsection \<open>The envelope on the wire\<close>

text \<open>
  C4. Whatever \<^verbatim>\<open>sendtoDCS\<close> sends decodes to the message with the same keys in
  the same order, every value that is an integer replaced by its decimal string and
  every other value as it was; the integer can be read back from the string. The JSON
  codec is the library's: it is asked only to decode what it encoded.
\<close>

theorem envelope_round_trip:
  assumes "well_formed message"
    and "\<forall>v wire. dumps e v = Inr wire \<longrightarrow> loads e wire = Inr v"
    and "sendtoDCS e st server message = (message', Inr st')"
  shows "(\<exists>host port wire. sent st' = sent st @ [(host, port, wire)] \<and>
            loads e wire = Inr (PDict (map coerced_item message))) \<and>
         map fst (map coerced_item message) = map fst message \<and>
         (\<forall>k i. map_of message k = Some (PInt i) \<longrightarrow>
            map_of (map coerced_item message) k = Some (PStr (str_int i))) \<and>
         (\<forall>k v. map_of message k = Some v \<and> (\<forall>i. v \<noteq> PInt i) \<longrightarrow>
            map_of (map coerced_item message) k = Some v) \<and>
         (\<forall>i. int_of_str (str_int i) = i)"
proof -
  from sendtoDCS_sent [OF assms(3)] obtain host port msg where
    "dumps e (PDict (coerce_ints message)) = Inr msg" "sent st' = sent st @ [(host, port, msg)]"
    by blast
  with assms(1,2) have 1: "\<exists>host port wire. sent st' = sent st @ [(host, port, wire)] \<and>
           loads e wire = Inr (PDict (map coerced_item message))"
    by (auto simp: coerce_ints_map)
  have 2: "map fst (map coerced_item message) = map fst message"
    by (simp add: coerced_item_def comp_def)
  have 3: "\<forall>k i. map_of message k = Some (PInt i) \<longrightarrow>
           map_of (map coerced_item message) k = Some (PStr (str_int i))"
    by (simp add: map_of_coerced)
  have 4: "\<forall>k v. map_of message k = Some v \<and> (\<forall>i. v \<noteq> PInt i) \<longrightarrow>
           map_of (map coerced_item message) k = Some v"
  proof (intro allI impI)
    fix k v assume "map_of message k = Some v \<and> (\<forall>i. v \<noteq> PInt i)"
    then show "map_of (map coerced_item message) k = Some v"
      by (cases v) (simp_all add: map_of_coerced)
  qed
  from 1 2 3 4 show ?thesis by (simp add: int_of_str_str_int)
qed


lemmas eval_simps = str_int_def str_nat_small str_nat_big digit_char_def
  sendtoDCS_def sendtoDCSSync_def coerce_ints_def coerce_item_def coerced_item_def
  getitem_def contains_def delitem_def remove_key_def dict_or_def well_formed_def
  log_msg_def example_env_def example_bot_def example_server_def example_int_def
  example_channels_def table_loads_def table_dumps_def Let_def

theorem envelope_round_trip_witness:
  "sendtoDCS (example_env [(''datagram-1'', PDict [(''command'', PStr ''ping''),
        (''id'', PStr ''9007199254740993''), (''args'', PList [PInt 7])])])
      example_bot (example_server ''Alpha'' 6666 RUNNING)
      [(''command'', PStr ''ping''), (''id'', PInt 9007199254740993), (''args'', PList [PInt 7])] =
     ([(''command'', PStr ''ping''), (''id'', PStr ''9007199254740993''), (''args'', PList [PInt 7])],
      Inr (example_bot\<lparr>log := [(Debug, ''HOST->server'')],
             sent := [(PStr ''127.0.0.1'', 6666, ''datagram-1'')]\<rparr>)) \<and>
   loads (example_env [(''datagram-1'', PDict [(''command'', PStr ''ping''),
        (''id'', PStr ''9007199254740993''), (''args'', PList [PInt 7])])]) ''datagram-1'' =
     Inr (PDict [(''command'', PStr ''ping''), (''id'', PStr ''9007199254740993''),
        (''args'', PList [PInt 7])]) \<and>
   int_of_str ''9007199254740993'' = 9007199254740993"
proof -
  let ?tbl = "[(''datagram-1'', PDict [(''command'', PStr ''ping''),
            (''id'', PStr ''9007199254740993''), (''args'', PList [PInt 7])])]"
  let ?msg = "[(''command'', PStr ''ping''), (''id'', PInt 9007199254740993), (''args'', PList [PInt 7])]"
  have wf: "well_formed ?msg" by (simp add: well_formed_def)
  have codec: "\<forall>v wire. dumps (example_env ?tbl) v = Inr wire \<longrightarrow> loads (example_env ?tbl) wire = Inr v"
    using table_codec_round_trip [of ?tbl] by (simp add: example_env_def)
  have run: "sendtoDCS (example_env ?tbl) example_bot (example_server ''Alpha'' 6666 RUNNING) ?msg =
      (map coerced_item ?msg,
       Inr (example_bot\<lparr>log := [(Debug, ''HOST->server'')],
              sent := [(PStr ''127.0.0.1'', 6666, ''datagram-1'')]\<rparr>))"
    by (simp add: eval_simps)
  have str: "str_int 9007199254740993 = ''9007199254740993''"
    by (simp add: eval_simps)
  from envelope_round_trip [OF wf codec run] run str show ?thesis
    by (simp add: coerced_item_def example_env_def table_loads_def)
      (metis str)
qed

subsection \<open>The caller's message dictionary\<close>

lemma sync_message_differs:
  assumes "well_formed m"
  shows "map coerced_item (setitem ''channel'' (PStr token) m) \<noteq> m \<longleftrightarrow>
         (\<exists>k i. (k, PInt i) \<in> set m) \<or> map_of m ''channel'' \<noteq> Some (PStr token)"
proof (cases "map_of m ''channel'' = Some (PStr token)")
  case True
  then have "setitem ''channel'' (PStr token) m = m" by (rule setitem_same)
  with True show ?thesis by (auto simp: map_coerced_fixed)
next
  case False
  have "map_of (map coerced_item (setitem ''channel'' (PStr token) m)) ''channel'' = Some (PStr token)"
    by (simp add: map_of_coerced map_of_setitem)
  with False have "map coerced_item (setitem ''channel'' (PStr token) m) \<noteq> m" by auto
  with False show ?thesis by simp
qed

text \<open>
  C10 as stated fails in its last clause: a message without a top-level integer comes
  back from \<^verbatim>\<open>sendtoDCS\<close> as it went in.
\<close>

theorem message_differs_counterexample:
  "fst (sendtoDCS (example_env []) example_bot (example_server ''Alpha'' 6666 RUNNING)
          [(''command'', PStr ''ping'')]) = [(''command'', PStr ''ping'')]"
  by (simp add: eval_simps)

text \<open>
  C10, amended. Both functions change the caller's dictionary in place, whether or not
  they go on to raise: \<^verbatim>\<open>sendtoDCS\<close> leaves it with every top-level integer replaced by
  its decimal string, \<^verbatim>\<open>sendtoDCSSync\<close> stores the token under \<^verbatim>\<open>channel\<close> first. The
  dictionary differs afterwards exactly when it held a top-level integer or, for
  \<^verbatim>\<open>sendtoDCSSync\<close>, when its \<^verbatim>\<open>channel\<close> was not the token already.
\<close>

theorem message_mutated_in_place:
  assumes "well_formed message"
  shows "fst (sendtoDCS e st server message) = map coerced_item message \<and>
         fst (sendtoDCSSync e st uuid server message) =
           map coerced_item (setitem ''channel'' (PStr (''sync-'' @ uuid)) message) \<and>
         (fst (sendtoDCS e st server message) \<noteq> message \<longleftrightarrow>
            (\<exists>k i. (k, PInt i) \<in> set message)) \<and>
         (fst (sendtoDCSSync e st uuid server message) \<noteq> message \<longleftrightarrow>
            (\<exists>k i. (k, PInt i) \<in> set message) \<or>
            map_of message ''channel'' \<noteq> Some (PStr (''sync-'' @ uuid)))"
proof -
  have 1: "fst (sendtoDCS e st server message) = map coerced_item message"
    using assms by (simp add: fst_sendtoDCS coerce_ints_map)
  have 2: "fst (sendtoDCSSync e st uuid server message) =
           map coerced_item (setitem ''channel'' (PStr (''sync-'' @ uuid)) message)"
    using assms by (simp add: fst_sendtoDCSSync coerce_ints_map well_formed_setitem)
  from 1 have 3: "fst (sendtoDCS e st server message) \<noteq> message \<longleftrightarrow>
            (\<exists>k i. (k, PInt i) \<in> set message)"
    by (simp add: map_coerced_fixed)
  from 2 have 4: "fst (sendtoDCSSync e st uuid server message) \<noteq> message \<longleftrightarrow>
            (\<exists>k i. (k, PInt i) \<in> set message) \<or>
            map_of message ''channel'' \<noteq> Some (PStr (''sync-'' @ uuid))"
    using sync_message_differs [OF assms] by simp
  from 1 2 3 4 show ?thesis by blast
qed

theorem message_mutated_in_place_witness:
  "fst (sendtoDCSSync (example_env []) example_bot ''6f1c'' (example_server ''Alpha'' 6666 RUNNING)
          [(''command'', PStr ''getMissionDetails''), (''limit'', PInt 12)]) =
     [(''command'', PStr ''getMissionDetails''), (''limit'', PStr ''12''),
      (''channel'', PStr ''sync-6f1c'')] \<and>
   fst (sendtoDCS (example_env []) example_bot (example_server ''Alpha'' 6666 RUNNING)
          [(''command'', PStr ''getMissionDetails''), (''limit'', PInt 12)]) \<noteq>
     [(''command'', PStr ''getMissionDetails''), (''limit'', PInt 12)]"
proof -
  have "well_formed [(''command'', PStr ''getMissionDetails''), (''limit'', PInt 12)]"
    by (simp add: well_formed_def)
  from message_mutated_in_place [OF this, of "example_env []" example_bot
      "example_server ''Alpha'' 6666 RUNNING" "''6f1c''"]
  show ?thesis
    by (simp add: coerced_item_def str_int_def str_nat_small str_nat_big digit_char_def)
qed

subsection \<open>Renaming a server\<close>

lemma map_of_remove_key: "map_of (remove_key k d) = (map_of d)(k := None)"
  by (induction d) (auto simp: remove_key_def fun_eq_iff)

lemma db_rename_globals: "db_rename old_name new_name st = Some st' \<Longrightarrow> globals st' = globals st"
  by (auto simp: db_rename_def Let_def split: if_splits)

lemma rename_rest_globals:
  "globals (fst (rename_rest e st old_name new_name upd)) = globals st"
  by (auto simp: rename_rest_def Let_def log_msg_def split: option.splits dest: db_rename_globals)

lemma rename_rest_ok:
  "cogs_rename (cogs e) old_name new_name = None \<Longrightarrow>
   snd (rename_rest e st old_name new_name upd) = Inr ()"
  by (simp add: rename_rest_def Let_def)

lemma rename_server_absent:
  "map_of (globals st) old_name = None \<Longrightarrow>
   rename_server e st old_name new_name upd = (st, Inl KeyError)"
  by (simp add: rename_server_def getitem_def delitem_def contains_def)

lemma rename_server_present:
  assumes "map_of (globals st) old_name = Some rec"
  shows "globals (fst (rename_server e st old_name new_name upd)) =
           remove_key old_name
             (if contains (globals st) new_name then globals st
              else setitem new_name (setitem ''server_name'' (PStr new_name) rec) (globals st))"
    and "cogs_rename (cogs e) old_name new_name = None \<Longrightarrow>
           snd (rename_server e st old_name new_name upd) = Inr ()"
  using assms
  by (simp_all add: rename_server_def getitem_def delitem_def contains_def map_of_setitem
      rename_rest_globals rename_rest_ok)

text \<open>
  C5 as stated fails twice: renaming a server that is not registered raises KeyError, and
  when the new name is registered already the record of the old name is dropped, not moved.
\<close>

theorem rename_server_counterexample:
  "snd (rename_server (example_env []) example_bot ''Alpha'' ''Bravo'' False) = Inl KeyError \<and>
   map_of (globals (fst (rename_server (example_env [])
       (example_bot\<lparr>globals := [(''Alpha'', example_server ''Alpha'' 10308 RUNNING),
                                 (''Bravo'', example_server ''Bravo'' 10309 LOADING)]\<rparr>)
       ''Alpha'' ''Bravo'' False))) ''Bravo'' = Some (example_server ''Bravo'' 10309 LOADING)"
  by (simp add: rename_server_def rename_rest_def db_rename_def eval_simps)

text \<open>
  C5, amended. If \<open>old_name\<close> is not registered, \<^verbatim>\<open>rename_server\<close> raises KeyError and
  changes nothing. If it is, and no plugin's \<^verbatim>\<open>rename\<close> raises, the call returns and
  \<open>old_name\<close> is registered no more; a \<open>new_name\<close> that was not registered is bound to
  the old record with \<^verbatim>\<open>server_name\<close> set to the new name and every other key as it
  was, a \<open>new_name\<close> that was registered keeps its own record; every other server is
  untouched.
\<close>

theorem rename_server_moves_record:
  "(map_of (globals st) old_name = None \<longrightarrow>
      rename_server e st old_name new_name upd = (st, Inl KeyError)) \<and>
   (\<forall>rec. map_of (globals st) old_name = Some rec \<and> cogs_rename (cogs e) old_name new_name = None \<longrightarrow>
      (\<exists>st'. rename_server e st old_name new_name upd = (st', Inr ()) \<and>
         map_of (globals st') old_name = None \<and>
         (old_name \<noteq> new_name \<longrightarrow>
            (case map_of (globals st) new_name of
               Some kept \<Rightarrow> map_of (globals st') new_name = Some kept
             | None \<Rightarrow> (\<exists>rec'. map_of (globals st') new_name = Some rec' \<and>
                          map_of rec' = (map_of rec)(''server_name'' \<mapsto> PStr new_name)))) \<and>
         (\<forall>n. n \<noteq> old_name \<and> n \<noteq> new_name \<longrightarrow>
            map_of (globals st') n = map_of (globals st) n)))"
proof (intro conjI allI impI)
  assume "map_of (globals st) old_name = None"
  then show "rename_server e st old_name new_name upd = (st, Inl KeyError)"
    by (rule rename_server_absent)
next
  fix rec
  assume a: "map_of (globals st) old_name = Some rec \<and> cogs_rename (cogs e) old_name new_name = None"
  obtain st' r where run: "rename_server e st old_name new_name upd = (st', r)"
    by (cases "rename_server e st old_name new_name upd")
  from a rename_server_present [of st old_name rec e new_name upd] run
  have g: "globals st' = remove_key old_name
             (if contains (globals st) new_name then globals st
              else setitem new_name (setitem ''server_name'' (PStr new_name) rec) (globals st))"
    and r: "r = Inr ()"
    by simp_all
  have 1: "map_of (globals st') old_name = None"
    by (simp add: g map_of_remove_key)
  have 2: "old_name \<noteq> new_name \<longrightarrow>
            (case map_of (globals st) new_name of
               Some kept \<Rightarrow> map_of (globals st') new_name = Some kept
             | None \<Rightarrow> (\<exists>rec'. map_of (globals st') new_name = Some rec' \<and>
                          map_of rec' = (map_of rec)(''server_name'' \<mapsto> PStr new_name)))"
    by (auto simp: g map_of_remove_key map_of_setitem contains_def split: option.splits)
  have 3: "\<forall>n. n \<noteq> old_name \<and> n \<noteq> new_name \<longrightarrow>
            map_of (globals st') n = map_of (globals st) n"
    by (simp add: g map_of_remove_key map_of_setitem)
  from run r 1 2 3
  show "\<exists>st'. rename_server e st old_name new_name upd = (st', Inr ()) \<and>
         map_of (globals st') old_name = None \<and>
         (old_name \<noteq> new_name \<longrightarrow>
            (case map_of (globals st) new_name of
               Some kept \<Rightarrow> map_of (globals st') new_name = Some kept
             | None \<Rightarrow> (\<exists>rec'. map_of (globals st') new_name = Some rec' \<and>
                          map_of rec' = (map_of rec)(''server_name'' \<mapsto> PStr new_name)))) \<and>
         (\<forall>n. n \<noteq> old_name \<and> n \<noteq> new_name \<longrightarrow>
            map_of (globals st') n = map_of (globals st) n)"
    by blast
qed

theorem rename_server_moves_record_witness:
  "snd (rename_server (example_env [])
     (example_bot\<lparr>globals := [(''Alpha'', example_server ''Alpha'' 10308 RUNNING)]\<rparr>)
     ''Alpha'' ''Bravo'' False) = Inr () \<and>
   globals (fst (rename_server (example_env [])
     (example_bot\<lparr>globals := [(''Alpha'', example_server ''Alpha'' 10308 RUNNING)]\<rparr>)
     ''Alpha'' ''Bravo'' False)) = [(''Bravo'', example_server ''Bravo'' 10308 RUNNING)] \<and>
   map_of (globals (fst (rename_server (example_env [])
     (example_bot\<lparr>globals := [(''Alpha'', example_server ''Alpha'' 10308 RUNNING)]\<rparr>)
     ''Alpha'' ''Bravo'' False))) ''Alpha'' = None \<and>
   rename_server (example_env []) example_bot ''Alpha'' ''Bravo'' False =
   (example_bot, Inl KeyError)"
proof -
  let ?st = "example_bot\<lparr>globals := [(''Alpha'', example_server ''Alpha'' 10308 RUNNING)]\<rparr>"
  have "map_of (globals example_bot) ''Alpha'' = None"
    by (simp add: example_bot_def)
  with rename_server_moves_record [of example_bot "''Alpha''" "example_env []" "''Bravo''" False]
  have absent: "rename_server (example_env []) example_bot ''Alpha'' ''Bravo'' False =
          (example_bot, Inl KeyError)"
    by blast
  have "map_of (globals ?st) ''Alpha'' = Some (example_server ''Alpha'' 10308 RUNNING) \<and>
        cogs_rename (cogs (example_env [])) ''Alpha'' ''Bravo'' = None"
    by (simp add: example_env_def)
  with rename_server_moves_record [of ?st "''Alpha''" "example_env []" "''Bravo''" False]
  obtain st' where "rename_server (example_env []) ?st ''Alpha'' ''Bravo'' False = (st', Inr ())"
    and "map_of (globals st') ''Alpha'' = None"
    by blast
  then have present: "snd (rename_server (example_env []) ?st ''Alpha'' ''Bravo'' False) = Inr ()"
    "map_of (globals (fst (rename_server (example_env []) ?st ''Alpha'' ''Bravo'' False))) ''Alpha'' = None"
    by simp_all
  have "globals (fst (rename_server (example_env []) ?st ''Alpha'' ''Bravo'' False)) =
      [(''Bravo'', example_server ''Bravo'' 10308 RUNNING)]"
    by (simp add: rename_server_def rename_rest_def db_rename_def eval_simps)
  with absent present show ?thesis by simp
qed

subsection \<open>Rejected registrations\<close>

lemma server_set_other:
  "n \<noteq> name \<Longrightarrow> map_of (globals (server_set name k v st)) n = map_of (globals st) n"
proof -
  have "n \<noteq> name \<Longrightarrow>
        map_of (map (\<lambda>nr. if fst nr = name then (fst nr, setitem k v (snd nr)) else nr) g) n = map_of g n"
    for g :: "pyval dict dict"
    by (induction g) auto
  then show "n \<noteq> name \<Longrightarrow> ?thesis" by (simp add: server_set_def)
qed

lemma server_set_frame [simp]:
  "db_servers (server_set name k v st) = db_servers st"
  "db_message_persistence (server_set name k v st) = db_message_persistence st"
  "embeds (server_set name k v st) = embeds st"
  "listeners (server_set name k v st) = listeners st"
  "futures (server_set name k v st) = futures st"
  "loop_calls (server_set name k v st) = loop_calls st"
  "delivered (server_set name k v st) = delivered st"
  "sent (server_set name k v st) = sent st"
  "version (server_set name k v st) = version st"
  "eventListeners (server_set name k v st) = eventListeners st"
  by (simp_all add: server_set_def)

lemma log_msg_frame [simp]:
  "globals (log_msg l t st) = globals st"
  "db_servers (log_msg l t st) = db_servers st"
  "db_message_persistence (log_msg l t st) = db_message_persistence st"
  "embeds (log_msg l t st) = embeds st"
  "listeners (log_msg l t st) = listeners st"
  "futures (log_msg l t st) = futures st"
  "loop_calls (log_msg l t st) = loop_calls st"
  "delivered (log_msg l t st) = delivered st"
  "sent (log_msg l t st) = sent st"
  "version (log_msg l t st) = version st"
  "eventListeners (log_msg l t st) = eventListeners st"
  by (simp_all add: log_msg_def)

lemma bind_server_other:
  "n \<noteq> name \<Longrightarrow>
   map_of (globals (fst (bind_server e st name installation data))) n = map_of (globals st) n"
  by (auto simp: bind_server_def Let_def map_of_setitem server_set_other
      split: option.splits sum.splits)

lemma bind_server_frame:
  "db_servers (fst (bind_server e st name installation data)) = db_servers st \<and>
   embeds (fst (bind_server e st name installation data)) = embeds st \<and>
   listeners (fst (bind_server e st name installation data)) = listeners st \<and>
   delivered (fst (bind_server e st name installation data)) = delivered st \<and>
   db_message_persistence (fst (bind_server e st name installation data)) = db_message_persistence st"
  by (auto simp: bind_server_def Let_def split: option.splits sum.splits)






lemma map_of_server_update:
  "map_of (servers (server_update name f st)) n =
     (if n = name then map_option f (map_of (servers st) n) else map_of (servers st) n)"
proof -
  have "map_of (map (\<lambda>ns. if fst ns = name then (fst ns, f (snd ns)) else ns) g) n =
     (if n = name then map_option f (map_of g n) else map_of g n)"
    for g :: "server_obj dict"
    by (induction g) auto
  then show ?thesis by (simp add: server_update_def)
qed

lemma server_update_frame [simp]:
  "svc_db_servers (server_update name f st) = svc_db_servers st"
  "intercom_table (server_update name f st) = intercom_table st"
  "events (server_update name f st) = events st"
  "svc_version (server_update name f st) = svc_version st"
  by (simp_all add: server_update_def)

lemma svc_log_msg_frame [simp]:
  "servers (svc_log_msg l t st) = servers st"
  "svc_db_servers (svc_log_msg l t st) = svc_db_servers st"
  "intercom_table (svc_log_msg l t st) = intercom_table st"
  "events (svc_log_msg l t st) = events st"
  "svc_version (svc_log_msg l t st) = svc_version st"
  "svc_futures (svc_log_msg l t st) = svc_futures st"
  "svc_loop_calls (svc_log_msg l t st) = svc_loop_calls st"
  "intercom_seq (svc_log_msg l t st) = intercom_seq st"
  by (simp_all add: svc_log_msg_def)

lemma validate_ports_frame:
  "validate_ports e st objs dcs gui rtc = (st', r) \<Longrightarrow>
   servers st' = servers st \<and> svc_db_servers st' = svc_db_servers st \<and>
   intercom_table st' = intercom_table st \<and> events st' = events st"
proof (induction e st objs dcs gui rtc arbitrary: st' r rule: validate_ports.induct)
  case (1 e st dcs_ports webgui_ports webrtc_ports)
  then show ?case by simp
next
  case (2 e st server rest dcs_ports webgui_ports webrtc_ports)
  let ?dcs = "case map_of (srv_settings server) ''port'' of None \<Rightarrow> PInt 10308 | Some p \<Rightarrow> p"
  let ?gui = "let p = webgui_port e (srv_installation server) in if truthy p then p else PInt 8088"
  let ?rtc = "let p = webrtc_port e (srv_installation server) in if truthy p then p else PInt 10309"
  show ?case
  proof (cases "port_taken ?dcs dcs_ports")
    case (Inl err)
    with "2.prems" show ?thesis by (simp add: Let_def)
  next
    case d: (Inr dt)
    show ?thesis
    proof (cases dt)
      case True
      with "2.prems" d show ?thesis by (auto simp: Let_def)
    next
      case dF: False
      show ?thesis
      proof (cases "port_taken ?gui webgui_ports")
        case (Inl err)
        with "2.prems" d dF show ?thesis by (simp add: Let_def)
      next
        case g: (Inr gt)
        show ?thesis
        proof (cases gt)
          case True
          with "2.prems" d dF g show ?thesis by (auto simp: Let_def)
        next
          case gF: False
          show ?thesis
          proof (cases "port_taken ?rtc webrtc_ports")
            case (Inl err)
            with "2.prems" d dF g gF show ?thesis by (simp add: Let_def)
          next
            case r: (Inr rt)
            show ?thesis
            proof (cases rt)
              case rT: True
              show ?thesis
              proof (cases "voice_chat server")
                case (Inl err)
                with "2.prems" d dF g gF r rT show ?thesis by (simp add: Let_def)
              next
                case (Inr chat)
                with "2.prems" d dF g gF r rT
                have "validate_ports e
                        (svc_log_msg (if chat then Error else Warning) ''shares its webrtc_port'' st)
                        rest (dcs_ports @ [?dcs]) (webgui_ports @ [?gui]) webrtc_ports = (st', r)"
                  by (simp add: Let_def)
                moreover have "dt = False" "gt = False" "rt = True" using dF gF rT by simp_all
                ultimately show ?thesis
                  using "2.IH"(1) [OF refl d _ refl g _ refl r _ Inr] by simp
              qed
            next
              case rF: False
              with "2.prems" d dF g gF r
              have "validate_ports e st rest (dcs_ports @ [?dcs]) (webgui_ports @ [?gui])
                      (webrtc_ports @ [?rtc]) = (st', r)"
                by (simp add: Let_def)
              moreover have "dt = False" "gt = False" "rt = False" using dF gF rF by simp_all
              ultimately show ?thesis
                using "2.IH"(2) [OF refl d _ refl g _ refl r] by simp
            qed
          qed
        qed
      qed
    qed
  qed
qed







subsection \<open>The life of a pending request\<close>

lemma sendtoDCS_frame:
  "sendtoDCS e st server message = (m, Inr st') \<Longrightarrow>
   listeners st' = listeners st \<and> futures st' = futures st \<and> globals st' = globals st \<and>
   loop_calls st' = loop_calls st"
  by (auto simp: sendtoDCS_def Let_def log_msg_def split: sum.splits)

lemma sendtoDCSSync_registers:
  assumes "sendtoDCSSync e st uuid server message = (m, st1, Inr fut)"
  shows "map_of (listeners st1) (''sync-'' @ uuid) = Some fut \<and> fut = length (futures st) \<and>
         futures st1 = futures st @ [Pending] \<and> globals st1 = globals st"
proof -
  let ?st0 = "st\<lparr>futures := futures st @ [Pending]\<rparr>"
  let ?m1 = "setitem ''channel'' (PStr (''sync-'' @ uuid)) message"
  obtain m2 r where s: "sendtoDCS e ?st0 server ?m1 = (m2, r)"
    by (cases "sendtoDCS e ?st0 server ?m1")
  have eq: "sendtoDCSSync e st uuid server message =
      (case r of Inl err \<Rightarrow> (m2, ?st0, Inl err)
       | Inr st2 \<Rightarrow> (m2, st2\<lparr>listeners := setitem (''sync-'' @ uuid) (length (futures st)) (listeners st2)\<rparr>,
                     Inr (length (futures st))))"
    using s by (cases r) (simp_all add: sendtoDCSSync_def Let_def)
  obtain st2 where r: "r = Inr st2"
    and st1: "st1 = st2\<lparr>listeners := setitem (''sync-'' @ uuid) fut (listeners st2)\<rparr>"
    and fut: "fut = length (futures st)"
  proof (cases r)
    case (Inl err)
    with eq assms show ?thesis by simp
  next
    case (Inr st2)
    with eq assms that show ?thesis by simp
  qed
  from sendtoDCS_frame [OF s [unfolded r]] st1 fut show ?thesis
    by (simp add: map_of_setitem)
qed

lemma wait_for_timeout_frame:
  "listeners (fst (wait_for_timeout st fut)) = listeners st \<and>
   globals (fst (wait_for_timeout st fut)) = globals st \<and>
   loop_calls (fst (wait_for_timeout st fut)) = loop_calls st"
  by (simp add: wait_for_timeout_def split: future.splits)

lemma wait_for_timeout_outcome:
  "fut < length (futures st) \<Longrightarrow>
   (case futures st ! fut of
      Done v \<Rightarrow> wait_for_timeout st fut = (st, Inr v)
    | _ \<Rightarrow> snd (wait_for_timeout st fut) = Inl TimeoutError \<and>
           futures (fst (wait_for_timeout st fut)) ! fut = Cancelled)"
  by (simp add: wait_for_timeout_def cancel_def split: future.splits)

lemma resolve_token:
  assumes "py_getitem data ''channel'' = Inr (PStr token)" "prefix ''sync'' token"
    and "map_of (listeners st) token = Some fut"
  shows "snd (resolve st data results) = Inr () \<and>
         listeners (fst (resolve st data results)) = remove_key token (listeners st) \<and>
         futures (fst (resolve st data results)) = futures st \<and>
         globals (fst (resolve st data results)) = globals st \<and>
         loop_calls (fst (resolve st data results)) =
           (if futures st ! fut = Cancelled then loop_calls st
            else loop_calls st @ [(fut, case results of [] \<Rightarrow> PNone | r # _ \<Rightarrow> r)])"
  using assms by (simp add: resolve_def contains_def Let_def)

lemma run_loop_call_head:
  "loop_calls st = (fut, v) # rest \<Longrightarrow> fut < length (futures st) \<Longrightarrow>
   futures (run_loop_call st) ! fut = (if futures st ! fut = Pending then Done v else futures st ! fut) \<and>
   listeners (run_loop_call st) = listeners st \<and> loop_calls (run_loop_call st) = rest"
  by (simp add: run_loop_call_def log_msg_def split: future.splits)

lemma outcome_kept:
  assumes "futures st ! i \<noteq> Pending"
  shows "futures (run_loop_call st) ! i = futures st ! i"
    and "futures (fst (wait_for_timeout st j)) ! i = futures st ! i"
proof -
  show "futures (run_loop_call st) ! i = futures st ! i"
  proof (cases "loop_calls st")
    case Nil
    then show ?thesis by (simp add: run_loop_call_def)
  next
    case (Cons c rest)
    obtain fut v where c: "c = (fut, v)" by (cases c)
    show ?thesis
    proof (cases "fut = i")
      case True
      with assms Cons c show ?thesis
        by (simp add: run_loop_call_def log_msg_def split: future.splits)
    next
      case False
      with Cons c show ?thesis
        by (simp add: run_loop_call_def log_msg_def split: future.splits)
    qed
  qed
  show "futures (fst (wait_for_timeout st j)) ! i = futures st ! i"
  proof (cases "j = i")
    case True
    have "(futures st)[i := futures st ! i] = futures st" by (rule list_update_id)
    with True assms show ?thesis
      by (cases "futures st ! i") (simp_all add: wait_for_timeout_def cancel_def)
  next
    case False
    then show ?thesis
      by (simp add: wait_for_timeout_def cancel_def split: future.splits)
  qed
qed

text \<open>
  C1 as stated fails: when the timeout elapses and no reply has come, the token is still
  in \<open>listeners\<close>. Nothing but the handler removes it.
\<close>

theorem timeout_leaves_token_counterexample:
  "snd (snd (sendtoDCSSync (example_env example_wire)
       (example_bot\<lparr>globals := [(''Alpha'', example_server ''Alpha'' 6666 RUNNING)]\<rparr>)
       ''6f1c'' (example_server ''Alpha'' 6666 RUNNING) [(''command'', PStr ''ping'')])) = Inr 0 \<and>
   snd (wait_for_timeout example_pending 0) = Inl TimeoutError \<and>
   map_of (listeners (fst (wait_for_timeout example_pending 0))) ''sync-6f1c'' = Some 0"
  by (simp add: example_pending_def example_wire_def wait_for_timeout_def cancel_def eval_simps)

text \<open>
  C1, amended. A request sent by \<^verbatim>\<open>sendtoDCSSync\<close> has its token in \<open>listeners\<close>,
  bound to a pending future. When the timeout elapses on the pending future the caller
  gets TimeoutError and the future is cancelled, and \<open>listeners\<close> is as it was: the
  token stays. The token is removed when the handler comes to the end of a datagram
  whose channel is the token, before or after the timeout; the handler posts the result
  for the loop unless the future is cancelled. A future that is done or cancelled keeps
  that outcome, so a request is fulfilled or timed out and never both.
\<close>

theorem pending_request_lifecycle:
  "(\<forall>m st1 fut. sendtoDCSSync e st uuid server message = (m, st1, Inr fut) \<longrightarrow>
      map_of (listeners st1) (''sync-'' @ uuid) = Some fut \<and> fut < length (futures st1) \<and>
      futures st1 ! fut = Pending) \<and>
   (\<forall>token fut. map_of (listeners st) token = Some fut \<and> fut < length (futures st) \<and>
        prefix ''sync'' token \<longrightarrow>
      listeners (fst (wait_for_timeout st fut)) = listeners st \<and>
      (futures st ! fut = Pending \<longrightarrow>
         snd (wait_for_timeout st fut) = Inl TimeoutError \<and>
         futures (fst (wait_for_timeout st fut)) ! fut = Cancelled) \<and>
      (\<forall>data results. py_getitem data ''channel'' = Inr (PStr token) \<longrightarrow>
         map_of (listeners (fst (resolve st data results))) token = None \<and>
         (\<forall>t. t \<noteq> token \<longrightarrow>
            map_of (listeners (fst (resolve st data results))) t = map_of (listeners st) t) \<and>
         loop_calls (fst (resolve st data results)) =
           (if futures st ! fut = Cancelled then loop_calls st
            else loop_calls st @ [(fut, case results of [] \<Rightarrow> PNone | r # _ \<Rightarrow> r)]))) \<and>
   (\<forall>i j. futures st ! i \<noteq> Pending \<longrightarrow>
      futures (run_loop_call st) ! i = futures st ! i \<and>
      futures (fst (wait_for_timeout st j)) ! i = futures st ! i) \<and>
   (\<forall>fut v rest. loop_calls st = (fut, v) # rest \<and> fut < length (futures st) \<and>
        futures st ! fut = Pending \<longrightarrow>
      futures (run_loop_call st) ! fut = Done v)"
proof (intro conjI allI impI)
  fix m st1 fut
  assume "sendtoDCSSync e st uuid server message = (m, st1, Inr fut)"
  from sendtoDCSSync_registers [OF this]
  show "map_of (listeners st1) (''sync-'' @ uuid) = Some fut" "fut < length (futures st1)"
    "futures st1 ! fut = Pending"
    by simp_all
next
  fix token fut
  assume a: "map_of (listeners st) token = Some fut \<and> fut < length (futures st) \<and> prefix ''sync'' token"
  show "listeners (fst (wait_for_timeout st fut)) = listeners st"
    by (simp add: wait_for_timeout_frame)
  {
    assume "futures st ! fut = Pending"
    with a wait_for_timeout_outcome [of fut st]
    show "snd (wait_for_timeout st fut) = Inl TimeoutError"
      "futures (fst (wait_for_timeout st fut)) ! fut = Cancelled"
      by simp_all
  }
  fix data results
  assume c: "py_getitem data ''channel'' = Inr (PStr token)"
  from a have "map_of (listeners st) token = Some fut" "prefix ''sync'' token" by simp_all
  note r = resolve_token [OF c this(2) this(1), of results]
  from r show "map_of (listeners (fst (resolve st data results))) token = None"
    by (simp add: map_of_remove_key)
  from r show "loop_calls (fst (resolve st data results)) =
           (if futures st ! fut = Cancelled then loop_calls st
            else loop_calls st @ [(fut, case results of [] \<Rightarrow> PNone | r # _ \<Rightarrow> r)])"
    by simp
  fix t
  assume "t \<noteq> token"
  with r show "map_of (listeners (fst (resolve st data results))) t = map_of (listeners st) t"
    by (simp add: map_of_remove_key)
next
  fix i j
  assume "futures st ! i \<noteq> Pending"
  then show "futures (run_loop_call st) ! i = futures st ! i"
    "futures (fst (wait_for_timeout st j)) ! i = futures st ! i"
    by (rule outcome_kept)+
next
  fix fut v rest
  assume "loop_calls st = (fut, v) # rest \<and> fut < length (futures st) \<and> futures st ! fut = Pending"
  with run_loop_call_head [of st fut v rest]
  show "futures (run_loop_call st) ! fut = Done v" by simp
qed


lemma example_pending_eq:
  "example_pending =
     example_bot\<lparr>globals := [(''Alpha'', example_server ''Alpha'' 6666 RUNNING)],
       futures := [Pending], log := [(Debug, ''HOST->server'')],
       sent := [(PStr ''127.0.0.1'', 6666, ''datagram-1'')],
       listeners := [(''sync-6f1c'', 0)]\<rparr>"
  by (simp add: example_pending_def example_wire_def eval_simps)

theorem pending_request_lifecycle_witness:
  "map_of (listeners example_pending) ''sync-6f1c'' = Some 0 \<and>
   snd (wait_for_timeout example_pending 0) = Inl TimeoutError \<and>
   futures (fst (wait_for_timeout example_pending 0)) ! 0 = Cancelled \<and>
   listeners (fst (wait_for_timeout example_pending 0)) = [(''sync-6f1c'', 0)] \<and>
   map_of (listeners (fst (resolve example_pending
      (PDict [(''command'', PStr ''ping''), (''channel'', PStr ''sync-6f1c'')]) [PStr ''pong'']))) ''sync-6f1c'' = None \<and>
   loop_calls (fst (resolve example_pending
      (PDict [(''command'', PStr ''ping''), (''channel'', PStr ''sync-6f1c'')]) [PStr ''pong''])) =
     [(0, PStr ''pong'')]"
proof -
  have pre: "map_of (listeners example_pending) ''sync-6f1c'' = Some 0 \<and>
      0 < length (futures example_pending) \<and> prefix ''sync'' ''sync-6f1c''"
    by (simp add: example_pending_eq)
  have pend: "futures example_pending ! 0 = Pending" "loop_calls example_pending = []"
    "listeners example_pending = [(''sync-6f1c'', 0)]"
    by (simp_all add: example_pending_eq example_bot_def)
  have ch: "py_getitem (PDict [(''command'', PStr ''ping''), (''channel'', PStr ''sync-6f1c'')]) ''channel'' =
      Inr (PStr ''sync-6f1c'')"
    by (simp add: py_getitem_def getitem_def)
  from pending_request_lifecycle [of "example_env example_wire" example_pending "''6f1c''"
      "example_server ''Alpha'' 6666 RUNNING" "[(''command'', PStr ''ping'')]"]
  have "\<forall>token fut. map_of (listeners example_pending) token = Some fut \<and>
        fut < length (futures example_pending) \<and> prefix ''sync'' token \<longrightarrow>
      listeners (fst (wait_for_timeout example_pending fut)) = listeners example_pending \<and>
      (futures example_pending ! fut = Pending \<longrightarrow>
         snd (wait_for_timeout example_pending fut) = Inl TimeoutError \<and>
         futures (fst (wait_for_timeout example_pending fut)) ! fut = Cancelled) \<and>
      (\<forall>data results. py_getitem data ''channel'' = Inr (PStr token) \<longrightarrow>
         map_of (listeners (fst (resolve example_pending data results))) token = None \<and>
         (\<forall>t. t \<noteq> token \<longrightarrow>
            map_of (listeners (fst (resolve example_pending data results))) t = map_of (listeners example_pending) t) \<and>
         loop_calls (fst (resolve example_pending data results)) =
           (if futures example_pending ! fut = Cancelled then loop_calls example_pending
            else loop_calls example_pending @ [(fut, case results of [] \<Rightarrow> PNone | r # _ \<Rightarrow> r)]))"
    by blast
  from this [rule_format, OF pre] pend ch pre show ?thesis
    by simp
qed

subsection \<open>Timeouts and the status of the server\<close>

lemma map_of_server_set:
  "map_of (globals (server_set name k v st)) n =
     (if n = name then map_option (setitem k v) (map_of (globals st) n) else map_of (globals st) n)"
proof -
  have "map_of (map (\<lambda>nr. if fst nr = name then (fst nr, setitem k v (snd nr)) else nr) g) n =
     (if n = name then map_option (setitem k v) (map_of g n) else map_of g n)"
    for g :: "pyval dict dict"
    by (induction g) auto
  then show ?thesis by (simp add: server_set_def)
qed

lemma probe_send_ok:
  assumes "probe_send e st uuid name = (st1, Inr fut)"
  shows "globals st1 = globals st \<and> fut < length (futures st1) \<and> futures st1 ! fut = Pending"
proof -
  from assms obtain server where "getitem (globals st) name = Inr server"
    by (auto simp: probe_send_def split: sum.splits)
  with assms have "snd (sendtoDCSSync e st uuid server [(''command'', PStr ''registerDCSServer'')]) =
      (st1, Inr fut)"
    by (simp add: probe_send_def)
  then obtain m where "sendtoDCSSync e st uuid server [(''command'', PStr ''registerDCSServer'')] =
      (m, st1, Inr fut)"
    by (cases "sendtoDCSSync e st uuid server [(''command'', PStr ''registerDCSServer'')]") simp
  from sendtoDCSSync_registers [OF this] show ?thesis by simp
qed

text \<open>
  C9 as stated fails: a request that times out leaves the status of its server alone.
  Alpha is RUNNING, a request to it times out, and Alpha is still RUNNING.
\<close>

theorem timeout_keeps_status_counterexample:
  "snd (wait_for_timeout example_pending 0) = Inl TimeoutError \<and>
   map_of (globals (fst (wait_for_timeout example_pending 0))) ''Alpha'' =
     Some (example_server ''Alpha'' 6666 RUNNING) \<and>
   getitem (example_server ''Alpha'' 6666 RUNNING) ''status'' = Inr (PStatus RUNNING)"
  by (simp add: example_pending_def example_wire_def wait_for_timeout_def cancel_def eval_simps)

lemma probe_unanswered_status:
  assumes "probe_unanswered e st uuid name = (st', r)" and "r = Inr ()"
  shows "map_of (globals st') n =
           (if n = name
            then map_option (setitem ''status'' (PStatus SHUTDOWN)) (map_of (globals st) n)
            else map_of (globals st) n)"
proof -
  obtain st1 r1 where s: "probe_send e st uuid name = (st1, r1)"
    by (cases "probe_send e st uuid name")
  with assms obtain fut where r1: "r1 = Inr fut"
    by (cases r1) (auto simp: probe_unanswered_def)
  from probe_send_ok [OF s [unfolded r1]] have p: "globals st1 = globals st"
    "fut < length (futures st1)" "futures st1 ! fut = Pending"
    by simp_all
  obtain st2 outcome where w: "wait_for_timeout st1 fut = (st2, outcome)"
    by (cases "wait_for_timeout st1 fut")
  with p wait_for_timeout_outcome [of fut st1] wait_for_timeout_frame [of st1 fut]
  have o: "outcome = Inl TimeoutError" "globals st2 = globals st"
    by auto
  from assms(1) s r1 w o have "st' = server_set name ''status'' (PStatus SHUTDOWN) st2"
    by (simp add: probe_unanswered_def probe_resume_def)
  with o show ?thesis
    by (simp add: map_of_server_set)
qed

lemma probes_unanswered_status:
  assumes "probes_unanswered e st uuid4 names = (st', Inr ())" "distinct names"
  shows "map_of (globals st') n =
           (if n \<in> set names
            then map_option (setitem ''status'' (PStatus SHUTDOWN)) (map_of (globals st) n)
            else map_of (globals st) n)"
  using assms
proof (induction names arbitrary: st)
  case Nil
  then show ?case by simp
next
  case (Cons name names)
  obtain st1 r1 where t: "probe_unanswered e st (uuid4 name) name = (st1, r1)"
    by (cases "probe_unanswered e st (uuid4 name) name")
  with Cons.prems(1) have r1: "r1 = Inr ()" and rest: "probes_unanswered e st1 uuid4 names = (st', Inr ())"
    by (cases r1; simp)+
  from Cons.prems(2) have d: "distinct names" and notin: "name \<notin> set names" by simp_all
  from Cons.IH [OF rest d] probe_unanswered_status [OF t r1, of n] notin show ?case
    by auto
qed

text \<open>
  C9, amended. When the timeout of a request sent by \<^verbatim>\<open>sendtoDCSSync\<close> elapses with
  no reply, the caller gets TimeoutError and the registry is what it was before the
  request. Only \<^verbatim>\<open>register_servers\<close> acts on the failure, in the \<^verbatim>\<open>except\<close> branch of
  its own probe: a turn of its loop in which nothing is handled while the probe waits
  ends with the status of the probed server set to SHUTDOWN, the other keys of its
  record and all other records as they were; and when no datagram is handled during the
  whole of \<^verbatim>\<open>register_servers\<close>, every server has the status SHUTDOWN when it returns.
\<close>

theorem timeout_sets_shutdown_in_register_servers:
  "(\<forall>m st1 fut. sendtoDCSSync e st uuid server message = (m, st1, Inr fut) \<longrightarrow>
      snd (wait_for_timeout st1 fut) = Inl TimeoutError \<and>
      globals (fst (wait_for_timeout st1 fut)) = globals st) \<and>
   (\<forall>st' name. probe_unanswered e st uuid name = (st', Inr ()) \<longrightarrow>
      (\<forall>n. map_of (globals st') n =
           (if n = name
            then map_option (setitem ''status'' (PStatus SHUTDOWN)) (map_of (globals st) n)
            else map_of (globals st) n))) \<and>
   (\<forall>st'. well_formed (globals st) \<and> register_servers_unanswered e st uuid4 = (st', Inr ()) \<longrightarrow>
      (\<forall>name rec. map_of (globals st) name = Some rec \<longrightarrow>
         map_of (globals st') name = Some (setitem ''status'' (PStatus SHUTDOWN) rec) \<and>
         map_of (setitem ''status'' (PStatus SHUTDOWN) rec) ''status'' = Some (PStatus SHUTDOWN)))"
proof (intro conjI allI impI)
  fix m st1 fut
  assume "sendtoDCSSync e st uuid server message = (m, st1, Inr fut)"
  from sendtoDCSSync_registers [OF this]
  have p: "fut < length (futures st1)" "futures st1 ! fut = Pending" "globals st1 = globals st"
    by simp_all
  with wait_for_timeout_outcome [of fut st1]
  show "snd (wait_for_timeout st1 fut) = Inl TimeoutError" by simp
  from p wait_for_timeout_frame [of st1 fut]
  show "globals (fst (wait_for_timeout st1 fut)) = globals st" by simp
next
  fix st' name n
  assume "probe_unanswered e st uuid name = (st', Inr ())"
  from probe_unanswered_status [OF this refl]
  show "map_of (globals st') n =
           (if n = name
            then map_option (setitem ''status'' (PStatus SHUTDOWN)) (map_of (globals st) n)
            else map_of (globals st) n)" .
next
  fix st' name rec
  assume a: "well_formed (globals st) \<and> register_servers_unanswered e st uuid4 = (st', Inr ())"
    and rec: "map_of (globals st) name = Some rec"
  from a have run: "probes_unanswered e (log_msg Info ''Searching for DCS servers'' st) uuid4
      (map fst (globals st)) = (st', Inr ())"
    by (simp add: register_servers_unanswered_def)
  from a have d: "distinct (map fst (globals st))"
    by (simp add: well_formed_def)
  from rec have "name \<in> set (map fst (globals st))"
    by (metis map_of_eq_None_iff option.distinct(1) set_map)
  with probes_unanswered_status [OF run d, of name] rec
  show "map_of (globals st') name = Some (setitem ''status'' (PStatus SHUTDOWN) rec)"
    by (simp add: log_msg_def)
  show "map_of (setitem ''status'' (PStatus SHUTDOWN) rec) ''status'' = Some (PStatus SHUTDOWN)"
    by (simp add: map_of_setitem)
qed

theorem timeout_sets_shutdown_in_register_servers_witness:
  "snd (register_servers_unanswered
      (example_env [(''datagram-r'', PDict [(''command'', PStr ''registerDCSServer''),
                                          (''channel'', PStr ''sync-aa'')])])
      (example_bot\<lparr>globals := [(''Alpha'', example_server ''Alpha'' 6666 UNKNOWN)]\<rparr>)
      (\<lambda>name. ''aa'')) = Inr () \<and>
   map_of (globals (fst (register_servers_unanswered
      (example_env [(''datagram-r'', PDict [(''command'', PStr ''registerDCSServer''),
                                          (''channel'', PStr ''sync-aa'')])])
      (example_bot\<lparr>globals := [(''Alpha'', example_server ''Alpha'' 6666 UNKNOWN)]\<rparr>)
      (\<lambda>name. ''aa'')))) ''Alpha'' = Some (example_server ''Alpha'' 6666 SHUTDOWN)"
proof -
  let ?e = "example_env [(''datagram-r'', PDict [(''command'', PStr ''registerDCSServer''),
                                          (''channel'', PStr ''sync-aa'')])]"
  let ?st = "example_bot\<lparr>globals := [(''Alpha'', example_server ''Alpha'' 6666 UNKNOWN)]\<rparr>"
  have ok: "snd (register_servers_unanswered ?e ?st (\<lambda>name. ''aa'')) = Inr ()"
    by (simp add: register_servers_unanswered_def probe_unanswered_def probe_send_def
        probe_resume_def wait_for_timeout_def cancel_def server_set_def eval_simps)
  have pre: "well_formed (globals ?st) \<and>
      register_servers_unanswered ?e ?st (\<lambda>name. ''aa'') =
        (fst (register_servers_unanswered ?e ?st (\<lambda>name. ''aa'')), Inr ())"
    using ok by (simp add: well_formed_def prod_eq_iff)
  have rec: "map_of (globals ?st) ''Alpha'' = Some (example_server ''Alpha'' 6666 UNKNOWN)"
    by simp
  from timeout_sets_shutdown_in_register_servers [of ?e ?st _ _ _ "\<lambda>name. ''aa''"]
  have "\<forall>st'. well_formed (globals ?st) \<and>
        register_servers_unanswered ?e ?st (\<lambda>name. ''aa'') = (st', Inr ()) \<longrightarrow>
      (\<forall>name rec. map_of (globals ?st) name = Some rec \<longrightarrow>
         map_of (globals st') name = Some (setitem ''status'' (PStatus SHUTDOWN) rec) \<and>
         map_of (setitem ''status'' (PStatus SHUTDOWN) rec) ''status'' = Some (PStatus SHUTDOWN))"
    by blast
  from this [rule_format, OF pre rec] ok show ?thesis
    by (simp add: example_server_def)
qed

subsection \<open>Events for servers that are not registered\<close>

lemma admit_unregistered:
  assumes "loads e (strip request) = Inr (PDict d)" "dumps e (PDict d) = Inr wire"
    and "map_of d ''server_name'' = Some (PStr name)" "map_of d ''command'' = Some command"
    and "command \<noteq> PStr ''registerDCSServer''"
    and "case map_of (globals st) name of None \<Rightarrow> True
         | Some rec \<Rightarrow> map_of rec ''status'' = Some (PStatus UNKNOWN)"
  shows "admit e st request =
           (log_msg Debug ''Command for unregistered server, ignoring''
              (log_msg Debug ''server->HOST'' st), Inr None)"
  using assms
  by (auto simp: admit_def py_in_def py_getitem_def getitem_def contains_def unregistered_def
      Let_def split: option.splits)

lemma admit_registration:
  assumes "loads e (strip request) = Inr (PDict d)" "dumps e (PDict d) = Inr wire"
    and "map_of d ''server_name'' = Some sn" "map_of d ''command'' = Some (PStr ''registerDCSServer'')"
  shows "admit e st request =
           (case register_server e (log_msg Debug ''server->HOST'' st) d of
              (st2, Inl err) \<Rightarrow> (st2, Inl err)
            | (st2, Inr ok) \<Rightarrow> (st2, Inr (if ok then Some (PDict d) else None)))"
  using assms
  by (auto simp: admit_def py_in_def py_getitem_def getitem_def contains_def Let_def
      split: prod.splits sum.splits bool.splits)

lemma service_handle_unknown:
  assumes "svc_loads e (strip request) = Inr (PDict d)"
    and "map_of d ''server_name'' = Some (PStr name)" "map_of d ''command'' = Some command"
    and "map_of (servers s) name = None"
  shows "service_handle e s request =
           (svc_log_msg Warning ''Command for unknown server received, ignoring'' s, Inr ())"
  using assms
  by (simp add: service_handle_def py_in_def getitem_def contains_def servers_get_def)

text \<open>
  C3 as stated fails for the handler of the agent: it drops a registration for a server
  it does not know, and it relays the event of a server whose status is UNKNOWN to the
  master.
\<close>

theorem service_guard_counterexample:
  "map_of (servers example_service) ''Bravo'' = None \<and>
   service_handle (example_service_env example_datagrams) example_service ''register Bravo'' =
     (example_service\<lparr>svc_log := [(Warning, ''Command for unknown server received, ignoring'')]\<rparr>,
      Inr ()) \<and>
   map_option srv_status (map_of (servers example_service) ''Alpha'') = Some UNKNOWN \<and>
   intercom_table (fst (service_handle (example_service_env example_datagrams) example_service
       ''Alpha started'')) =
     [(1, ''Master'', PDict [(''command'', PStr ''onSimulationStart''),
                            (''server_name'', PStr ''Alpha''), (''channel'', PStr ''-1'')])]"
  by (simp add: service_handle_def py_in_def getitem_def contains_def servers_get_def
      answer_request_def sendtoMaster_def svc_log_msg_def strip_def is_space_def
      example_service_def example_service_env_def example_datagrams_def example_server_obj_def
      table_loads_def table_dumps_def)


text \<open>
  C3, amended. In the handler of the bot an event whose server is not in the registry,
  or is there with status UNKNOWN, and whose command is not the registration, ends in
  two log lines: no listener is given the event, and the registry, the pending requests
  and the database are as they were. A registration goes to \<^verbatim>\<open>register_server\<close>
  whatever the registry holds, and on to the listeners if that returns True. The
  handler of the agent drops every datagram whose server is not in its registry, the
  registration too, and does not look at the status.
\<close>

theorem unregistered_server_guard:
  assumes "map_of d ''server_name'' = Some (PStr name)" and "map_of d ''command'' = Some command"
  shows
   "(loads e (strip request) = Inr (PDict d) \<and> dumps e (PDict d) = Inr wire \<longrightarrow>
       (command \<noteq> PStr ''registerDCSServer'' \<and>
        (case map_of (globals st) name of None \<Rightarrow> True
         | Some rec \<Rightarrow> map_of rec ''status'' = Some (PStatus UNKNOWN)) \<longrightarrow>
          (\<exists>st'. handle e st request = (st', Inr ()) \<and> globals st' = globals st \<and>
             delivered st' = delivered st \<and> listeners st' = listeners st \<and>
             loop_calls st' = loop_calls st \<and> db_servers st' = db_servers st)) \<and>
       (command = PStr ''registerDCSServer'' \<longrightarrow>
          admit e st request =
            (case register_server e (log_msg Debug ''server->HOST'' st) d of
               (st2, Inl err) \<Rightarrow> (st2, Inl err)
             | (st2, Inr ok) \<Rightarrow> (st2, Inr (if ok then Some (PDict d) else None))))) \<and>
    (svc_loads e' (strip request) = Inr (PDict d) \<and> map_of (servers s) name = None \<longrightarrow>
       (\<exists>s'. service_handle e' s request = (s', Inr ()) \<and> servers s' = servers s \<and>
          intercom_table s' = intercom_table s \<and> events s' = events s \<and>
          svc_loop_calls s' = svc_loop_calls s))"
proof (intro conjI impI)
  assume dec: "loads e (strip request) = Inr (PDict d) \<and> dumps e (PDict d) = Inr wire"
    and un: "command \<noteq> PStr ''registerDCSServer'' \<and>
        (case map_of (globals st) name of None \<Rightarrow> True
         | Some rec \<Rightarrow> map_of rec ''status'' = Some (PStatus UNKNOWN))"
  from dec have d1: "loads e (strip request) = Inr (PDict d)" and d2: "dumps e (PDict d) = Inr wire"
    by blast+
  from un have u1: "command \<noteq> PStr ''registerDCSServer''"
    and u2: "case map_of (globals st) name of None \<Rightarrow> True
         | Some rec \<Rightarrow> map_of rec ''status'' = Some (PStatus UNKNOWN)"
    by blast+
  have "admit e st request =
           (log_msg Debug ''Command for unregistered server, ignoring''
              (log_msg Debug ''server->HOST'' st), Inr None)"
    by (rule admit_unregistered [OF d1 d2 assms(1) assms(2) u1 u2])
  then have "handle e st request =
           (log_msg Debug ''Command for unregistered server, ignoring''
              (log_msg Debug ''server->HOST'' st), Inr ())"
    by (simp add: handle_def)
  then show "\<exists>st'. handle e st request = (st', Inr ()) \<and> globals st' = globals st \<and>
             delivered st' = delivered st \<and> listeners st' = listeners st \<and>
             loop_calls st' = loop_calls st \<and> db_servers st' = db_servers st"
    by simp
next
  assume dec: "loads e (strip request) = Inr (PDict d) \<and> dumps e (PDict d) = Inr wire"
    and c: "command = PStr ''registerDCSServer''"
  from dec have d1: "loads e (strip request) = Inr (PDict d)" and d2: "dumps e (PDict d) = Inr wire"
    by blast+
  show "admit e st request =
            (case register_server e (log_msg Debug ''server->HOST'' st) d of
               (st2, Inl err) \<Rightarrow> (st2, Inl err)
             | (st2, Inr ok) \<Rightarrow> (st2, Inr (if ok then Some (PDict d) else None)))"
    by (rule admit_registration [OF d1 d2 assms(1) assms(2) [unfolded c]])
next
  assume a: "svc_loads e' (strip request) = Inr (PDict d) \<and> map_of (servers s) name = None"
  then have a1: "svc_loads e' (strip request) = Inr (PDict d)" and a2: "map_of (servers s) name = None"
    by blast+
  have "service_handle e' s request =
           (svc_log_msg Warning ''Command for unknown server received, ignoring'' s, Inr ())"
    by (rule service_handle_unknown [OF a1 assms(1) assms(2) a2])
  then show "\<exists>s'. service_handle e' s request = (s', Inr ()) \<and> servers s' = servers s \<and>
          intercom_table s' = intercom_table s \<and> events s' = events s \<and>
          svc_loop_calls s' = svc_loop_calls s"
    by (simp add: svc_log_msg_def)
qed

theorem unregistered_server_guard_witness:
  "snd (handle (example_env example_datagrams) example_bot ''Bravo started'') = Inr () \<and>
   globals (fst (handle (example_env example_datagrams) example_bot ''Bravo started'')) = [] \<and>
   delivered (fst (handle (example_env example_datagrams) example_bot ''Bravo started'')) = [] \<and>
   snd (service_handle (example_service_env example_datagrams) example_service ''Bravo started'') =
     Inr () \<and>
   intercom_table (fst (service_handle (example_service_env example_datagrams) example_service
     ''Bravo started'')) = []"
proof -
  let ?d = "[(''command'', PStr ''onSimulationStart''), (''server_name'', PStr ''Bravo''),
                (''channel'', PStr ''-1'')]"
  have 1: "map_of ?d ''server_name'' = Some (PStr ''Bravo'')"
    and 2: "map_of ?d ''command'' = Some (PStr ''onSimulationStart'')"
    by simp_all
  have bot: "loads (example_env example_datagrams) (strip ''Bravo started'') = Inr (PDict ?d) \<and>
      dumps (example_env example_datagrams) (PDict ?d) = Inr ''Bravo started''"
    by (simp add: example_env_def example_datagrams_def table_loads_def table_dumps_def
        strip_def is_space_def)
  have un: "PStr ''onSimulationStart'' \<noteq> PStr ''registerDCSServer'' \<and>
      (case map_of (globals example_bot) ''Bravo'' of None \<Rightarrow> True
       | Some rec \<Rightarrow> map_of rec ''status'' = Some (PStatus UNKNOWN))"
    by (simp add: example_bot_def)
  have svc: "svc_loads (example_service_env example_datagrams) (strip ''Bravo started'') = Inr (PDict ?d) \<and>
      map_of (servers example_service) ''Bravo'' = None"
    by (simp add: example_service_env_def example_service_def example_datagrams_def
        table_loads_def strip_def is_space_def)
  note g = unregistered_server_guard [OF 1 2, of "example_env example_datagrams" "''Bravo started''"
      "''Bravo started''" example_bot "example_service_env example_datagrams" example_service]
  from g bot un obtain st' where
    "handle (example_env example_datagrams) example_bot ''Bravo started'' = (st', Inr ())"
    "globals st' = globals example_bot" "delivered st' = delivered example_bot"
    by blast
  moreover from g svc obtain s' where
    "service_handle (example_service_env example_datagrams) example_service ''Bravo started'' = (s', Inr ())"
    "intercom_table s' = intercom_table example_service"
    by blast
  ultimately show ?thesis
    by (simp add: example_bot_def example_service_def)
qed

subsection \<open>Malformed datagrams\<close>

lemma handle_undecodable:
  "loads e (strip request) = Inl err \<Longrightarrow> handle e st request = (st, Inl err)"
  by (simp add: handle_def admit_def)

lemma service_handle_undecodable:
  "svc_loads e (strip request) = Inl err \<Longrightarrow> service_handle e s request = (s, Inl err)"
  by (simp add: service_handle_def)

lemma handle_no_server_name:
  "loads e (strip request) = Inr (PDict d) \<Longrightarrow> map_of d ''server_name'' = None \<Longrightarrow>
   handle e st request = (log_msg Warning ''Message without server_name retrieved'' st, Inr ())"
  by (simp add: handle_def admit_def py_in_def contains_def)

lemma service_handle_no_server_name:
  "svc_loads e (strip request) = Inr (PDict d) \<Longrightarrow> map_of d ''server_name'' = None \<Longrightarrow>
   service_handle e s request = (svc_log_msg Warning ''Message without server_name received'' s, Inr ())"
  by (simp add: service_handle_def py_in_def contains_def)

lemma handle_no_command:
  "loads e (strip request) = Inr (PDict d) \<Longrightarrow> map_of d ''server_name'' = Some sn \<Longrightarrow>
   map_of d ''command'' = None \<Longrightarrow> dumps e (PDict d) = Inr wire \<Longrightarrow>
   handle e st request = (log_msg Debug ''server->HOST'' st, Inl KeyError)"
  by (simp add: handle_def admit_def py_in_def py_getitem_def getitem_def contains_def)

lemma service_handle_no_command:
  "svc_loads e (strip request) = Inr (PDict d) \<Longrightarrow> map_of d ''server_name'' = Some sn \<Longrightarrow>
   map_of d ''command'' = None \<Longrightarrow> service_handle e s request = (s, Inl KeyError)"
  by (simp add: service_handle_def py_in_def getitem_def contains_def)

lemma handle_unsearchable:
  "loads e (strip request) = Inr data \<Longrightarrow> py_in ''server_name'' data = Inl err \<Longrightarrow>
   handle e st request = (st, Inl err)"
  by (simp add: handle_def admit_def)

lemma handle_not_found:
  "loads e (strip request) = Inr data \<Longrightarrow> py_in ''server_name'' data = Inr False \<Longrightarrow>
   handle e st request = (log_msg Warning ''Message without server_name retrieved'' st, Inr ())"
  by (simp add: handle_def admit_def)

lemma handle_not_object:
  "loads e (strip request) = Inr data \<Longrightarrow> py_in ''server_name'' data = Inr True \<Longrightarrow>
   \<forall>d. data \<noteq> PDict d \<Longrightarrow> handle e st request = (st, Inl TypeError)"
  by (cases data) (simp_all add: handle_def admit_def py_getitem_def)

lemma service_handle_unsearchable:
  "svc_loads e (strip request) = Inr data \<Longrightarrow> py_in ''server_name'' data = Inl err \<Longrightarrow>
   service_handle e s request = (s, Inl err)"
  by (simp add: service_handle_def)

lemma service_handle_not_found:
  "svc_loads e (strip request) = Inr data \<Longrightarrow> py_in ''server_name'' data = Inr False \<Longrightarrow>
   service_handle e s request =
     (svc_log_msg Warning ''Message without server_name received'' s, Inr ())"
  by (simp add: service_handle_def)

lemma service_handle_not_object:
  "svc_loads e (strip request) = Inr data \<Longrightarrow> py_in ''server_name'' data = Inr True \<Longrightarrow>
   \<forall>d. data \<noteq> PDict d \<Longrightarrow> service_handle e s request = (s, Inl TypeError)"
  by (cases data) (simp_all add: service_handle_def)

lemma dispatch_delivered:
  "delivered (fst (dispatch ls i data st)) =
     delivered st @ map (\<lambda>k. (k, data)) [i ..< i + length ls]"
proof (induction ls arbitrary: i st)
  case Nil
  then show ?case by simp
next
  case (Cons l ls)
  obtain res g where l: "l data (globals st) = (res, g)" by (cases "l data (globals st)")
  let ?st1 = "st\<lparr>globals := g, delivered := delivered st @ [(i, data)]\<rparr>"
  have up: "[i ..< i + length (l # ls)] = i # [Suc i ..< Suc i + length ls]"
    by (subst upt_conv_Cons) simp_all
  show ?case
  proof (cases res)
    case (Inl err)
    with l Cons.IH [where i = "Suc i" and st = "log_msg Exception ''listener raised'' ?st1"]
    show ?thesis unfolding up by (simp add: log_msg_def)
  next
    case (Inr result)
    obtain st2 rs where d: "dispatch ls (Suc i) data ?st1 = (st2, rs)"
      by (cases "dispatch ls (Suc i) data ?st1")
    with Cons.IH [where i = "Suc i" and st = ?st1]
    have "delivered st2 = delivered ?st1 @ map (\<lambda>k. (k, data)) [Suc i ..< Suc i + length ls]"
      by simp
    with l Inr d show ?thesis unfolding up by simp
  qed
qed

lemma handle_no_channel:
  assumes "loads e (strip request) = Inr (PDict d)" "dumps e (PDict d) = Inr wire"
    and "map_of d ''server_name'' = Some (PStr name)" "map_of d ''command'' = Some command"
    and "command \<noteq> PStr ''registerDCSServer''" "map_of d ''channel'' = None"
    and "map_of (globals st) name = Some rec" "map_of rec ''status'' = Some status"
    and "status \<noteq> PStatus UNKNOWN"
  shows "handle e st request =
           (fst (dispatch (eventListeners st) 0 (PDict d) (log_msg Debug ''server->HOST'' st)),
            Inl KeyError)"
proof -
  have "admit e st request = (log_msg Debug ''server->HOST'' st, Inr (Some (PDict d)))"
    using assms
    by (simp add: admit_def py_in_def py_getitem_def getitem_def contains_def unregistered_def
        Let_def)
  moreover obtain st3 results where
    "dispatch (eventListeners st) 0 (PDict d) (log_msg Debug ''server->HOST'' st) = (st3, results)"
    by (cases "dispatch (eventListeners st) 0 (PDict d) (log_msg Debug ''server->HOST'' st)")
  ultimately show ?thesis
    using assms(6) by (simp add: handle_def resolve_def py_getitem_def getitem_def log_msg_def)
qed

lemma bind_server_bound:
  assumes "bind_server e st name installation data = (st2, r)"
  shows "map_of (globals st2) name \<noteq> None \<and> (r = Inr () \<or> r = Inl KeyError) \<and>
         delivered st2 = delivered st \<and>
         (\<forall>n. n \<noteq> name \<longrightarrow> map_of (globals st2) n = map_of (globals st) n)"
proof -
  have k: "config_get e installation option = Inl err \<Longrightarrow> err = KeyError" for option err
    by (auto simp: config_get_def getitem_def split: option.splits)
  have "map_of (globals st2) name \<noteq> None \<and> (r = Inr () \<or> r = Inl KeyError)"
    using assms
    by (auto simp: bind_server_def Let_def map_of_setitem map_of_server_set
        split: option.splits sum.splits dest: k)
  moreover have "delivered st2 = delivered st"
    using bind_server_frame [of e st name installation data] assms by simp
  moreover have "\<forall>n. n \<noteq> name \<longrightarrow> map_of (globals st2) n = map_of (globals st) n"
    using bind_server_other [of _ name e st installation data] assms by simp
  ultimately show ?thesis by blast
qed

lemma handle_registration_no_hook_version:
  assumes "loads e (strip request) = Inr (PDict d)" "dumps e (PDict d) = Inr wire"
    and "map_of d ''server_name'' = Some (PStr name)"
    and "map_of d ''command'' = Some (PStr ''registerDCSServer'')"
    and "findDCSInstallations e name = installation # rest"
    and "map_of d ''hook_version'' = None"
  shows "handle e st request =
           (log_msg Debug ''Registering DCS-Server'' (log_msg Debug ''server->HOST'' st),
            Inl KeyError)"
  using assms
  by (simp add: handle_def admit_def register_server_def find_installations_def
      py_in_def py_getitem_def getitem_def contains_def Let_def)

lemma handle_registration_no_channel:
  assumes "loads e (strip request) = Inr (PDict d)" "dumps e (PDict d) = Inr wire"
    and "map_of d ''server_name'' = Some (PStr name)"
    and "map_of d ''command'' = Some (PStr ''registerDCSServer'')"
    and "findDCSInstallations e name = installation # rest"
    and "map_of d ''hook_version'' = Some (PStr (version st))"
    and "map_of d ''channel'' = None"
  shows "\<exists>st'. handle e st request = (st', Inl KeyError) \<and> map_of (globals st') name \<noteq> None \<and>
           delivered st' = delivered st \<and>
           (\<forall>n. n \<noteq> name \<longrightarrow> map_of (globals st') n = map_of (globals st) n)"
proof -
  let ?st1 = "log_msg Debug ''Registering DCS-Server'' (log_msg Debug ''server->HOST'' st)"
  obtain st2 r2 where b: "bind_server e ?st1 name installation d = (st2, r2)"
    by (cases "bind_server e ?st1 name installation d")
  note bb = bind_server_bound [OF b]
  have ann: "announced_status d = Inl KeyError"
    using assms(7) by (simp add: announced_status_def getitem_def)
  have pre: "admit e st request =
      (case register_server e (log_msg Debug ''server->HOST'' st) d of
              (st2, Inl err) \<Rightarrow> (st2, Inl err)
            | (st2, Inr ok) \<Rightarrow> (st2, Inr (if ok then Some (PDict d) else None)))"
    by (rule admit_registration [OF assms(1) assms(2) assms(3) assms(4)])
  show ?thesis
  proof (cases r2)
    case (Inl err)
    with bb have "r2 = Inl KeyError" by auto
    with b assms have "register_server e (log_msg Debug ''server->HOST'' st) d = (st2, Inl KeyError)"
      by (simp add: register_server_def find_installations_def getitem_def Let_def log_msg_def)
    with pre have "handle e st request = (st2, Inl KeyError)"
      by (simp add: handle_def)
    with bb show ?thesis by simp
  next
    case (Inr u)
    with b assms ann
    have "register_server e (log_msg Debug ''server->HOST'' st) d =
        (server_set name ''installation'' (PStr installation) st2, Inl KeyError)"
      by (simp add: register_server_def find_installations_def getitem_def Let_def log_msg_def)
    with pre have "handle e st request =
        (server_set name ''installation'' (PStr installation) st2, Inl KeyError)"
      by (simp add: handle_def)
    with bb show ?thesis
      by (auto simp: map_of_server_set)
  qed
qed


lemma admit_registration_no_host:
  assumes "loads e (strip request) = Inr (PDict d)" "dumps e (PDict d) = Inr wire"
    and "map_of d ''server_name'' = Some (PStr name)"
    and "map_of d ''command'' = Some (PStr ''registerDCSServer'')"
    and "findDCSInstallations e name = installation # rest"
    and "map_of d ''hook_version'' = Some (PStr (version st))"
    and "map_of d ''channel'' = Some (PStr channel)"
    and "map_of d ''host'' = None \<or> map_of d ''port'' = None"
    and "map_of (globals st) name = Some rec"
  shows "\<exists>st2 rec2. admit e st request = (st2, Inr (Some (PDict d))) \<and>
           map_of (globals st2) name = Some rec2 \<and>
           map_of rec2 ''status'' =
             Some (PStatus (if prefix ''sync-'' channel
                            then (if map_of d ''pause'' = Some (PBool True) then PAUSED else RUNNING)
                            else LOADING)) \<and>
           last (log st2) = (Exception, ''KeyError'')"
proof -
  let ?status = "if prefix ''sync-'' channel
                 then (if map_of d ''pause'' = Some (PBool True) then PAUSED else RUNNING)
                 else LOADING"
  let ?st0 = "log_msg Debug ''server->HOST'' st"
  let ?st1 = "log_msg Debug ''Registering DCS-Server'' ?st0"
  let ?st2 = "?st1\<lparr>globals := setitem name (dict_or rec d) (globals ?st1)\<rparr>"
  let ?st4 = "log_msg Debug ''Server initialized''
                (server_set name ''status'' (PStatus ?status)
                   (server_set name ''installation'' (PStr installation) ?st2))"
  have b: "bind_server e ?st1 name installation d = (?st2, Inr ())"
    using assms(9) by (simp add: bind_server_def log_msg_def)
  have a: "announced_status d = Inr ?status"
    using assms(7) by (simp add: announced_status_def getitem_def)
  have db: "register_db e ?st4 name d = (log_msg Exception ''KeyError'' ?st4, True)"
    using assms(8) by (auto simp: register_db_def getitem_def split: option.splits)
  have "register_server e ?st0 d = (log_msg Exception ''KeyError'' ?st4, Inr True)"
    using assms(3,5,6) b a db
    by (simp add: register_server_def find_installations_def getitem_def Let_def log_msg_def)
  with admit_registration [OF assms(1) assms(2) assms(3) assms(4), of st]
  have "admit e st request = (log_msg Exception ''KeyError'' ?st4, Inr (Some (PDict d)))"
    by simp
  moreover have "map_of (globals (log_msg Exception ''KeyError'' ?st4)) name =
      Some (setitem ''status'' (PStatus ?status)
              (setitem ''installation'' (PStr installation) (dict_or rec d)))"
    by (simp add: map_of_server_set map_of_setitem log_msg_def)
  moreover have "last (log (log_msg Exception ''KeyError'' ?st4)) = (Exception, ''KeyError'')"
    by (simp add: log_msg_def)
  ultimately show ?thesis
    by (intro exI conjI) (assumption, assumption, simp add: map_of_setitem, assumption)
qed

lemma service_handle_no_channel:
  assumes "svc_loads e (strip request) = Inr (PDict d)" "svc_dumps e (PDict d) = Inr wire"
    and "map_of d ''server_name'' = Some (PStr name)" "map_of d ''command'' = Some command"
    and "command \<noteq> PStr ''registerDCSServer''" "map_of d ''channel'' = None"
    and "map_of (servers s) name = Some server"
  shows "service_handle e s request =
           (sendtoMaster (svc_log_msg Debug ''server->HOST'' s) (PDict d), Inr ())"
  using assms
  by (simp add: service_handle_def py_in_def getitem_def contains_def servers_get_def
      answer_request_def)

lemma service_handle_registration_raises:
  assumes "svc_loads e (strip request) = Inr (PDict d)" "svc_dumps e (PDict d) = Inr wire"
    and "map_of d ''server_name'' = Some (PStr name)"
    and "map_of d ''command'' = Some (PStr ''registerDCSServer'')" "map_of d ''channel'' = None"
    and "map_of (servers s) name = Some server"
    and "service_register_server e (svc_log_msg Debug ''server->HOST'' s) d = (s2, Inl err)"
  shows "service_handle e s request = (s2, Inl err)"
  using assms
  by (simp add: service_handle_def py_in_def getitem_def contains_def servers_get_def
      answer_request_def)

lemma service_register_no_hook_version:
  assumes "map_of d ''server_name'' = Some (PStr name)"
    and "svc_findDCSInstallations e name = i # rest" "contains (svc_config e) (snd i)"
    and "map_of d ''hook_version'' = None"
  shows "service_register_server e s d =
           (svc_log_msg Debug ''Registering DCS-Server'' s, Inl KeyError)"
  using assms by (simp add: service_register_server_def getitem_def Let_def)

lemma service_register_no_dcs_version:
  assumes "map_of d ''server_name'' = Some (PStr name)"
    and "svc_findDCSInstallations e name = i # rest" "contains (svc_config e) (snd i)"
    and "map_of d ''hook_version'' = Some (PStr (svc_version s))"
    and "map_of (servers s) name = Some server" "map_of d ''dcs_version'' = None"
  shows "service_register_server e s d =
           (server_update name
              (\<lambda>s. s\<lparr>srv_process :=
                     (case find_process e ''DCS_server.exe'' (srv_installation s) of
                        Some pid \<Rightarrow> Some pid
                      | None \<Rightarrow> find_process e ''DCS.exe'' (srv_installation s))\<rparr>)
              (svc_log_msg Debug ''Registering DCS-Server'' s), Inl KeyError)"
  using assms by (simp add: service_register_server_def getitem_def contains_def Let_def)

lemma service_register_no_host:
  assumes "map_of d ''server_name'' = Some (PStr name)"
    and "svc_findDCSInstallations e name = i # rest" "contains (svc_config e) (snd i)"
    and "map_of d ''hook_version'' = Some (PStr (svc_version s))"
    and "map_of (servers s) name = Some server" "map_of d ''dcs_version'' = Some dv"
    and "map_of d ''host'' = None \<or> map_of d ''port'' = None"
    and "validate_ports e
           (server_update name (\<lambda>s. s\<lparr>srv_dcs_version := dv, srv_status := STOPPED\<rparr>)
             (server_update name
                (\<lambda>s. s\<lparr>srv_process :=
                       (case find_process e ''DCS_server.exe'' (srv_installation s) of
                          Some pid \<Rightarrow> Some pid
                        | None \<Rightarrow> find_process e ''DCS.exe'' (srv_installation s))\<rparr>)
                (svc_log_msg Debug ''Registering DCS-Server'' s)))
           (map snd (servers
             (server_update name (\<lambda>s. s\<lparr>srv_dcs_version := dv, srv_status := STOPPED\<rparr>)
               (server_update name
                  (\<lambda>s. s\<lparr>srv_process :=
                         (case find_process e ''DCS_server.exe'' (srv_installation s) of
                            Some pid \<Rightarrow> Some pid
                          | None \<Rightarrow> find_process e ''DCS.exe'' (srv_installation s))\<rparr>)
                  (svc_log_msg Debug ''Registering DCS-Server'' s))))) [] [] [] = (s5, Inr True)"
  shows "service_register_server e s d = (s5, Inl KeyError) \<and>
         map_option srv_status (map_of (servers s5) name) = Some STOPPED"
proof -
  have db: "service_register_db e s5 name d = (s5, Inl KeyError)"
    using assms(7) by (auto simp: service_register_db_def getitem_def split: option.splits)
  have run: "service_register_server e s d = (s5, Inl KeyError)"
    using assms(1-6) assms(8) db
    by (simp add: service_register_server_def getitem_def contains_def Let_def)
  from validate_ports_frame [OF assms(8)] assms(5)
  have "map_option srv_status (map_of (servers s5) name) = Some STOPPED"
    by (simp add: map_of_server_update)
  with run show ?thesis by simp
qed

text \<open>
  C6 as stated fails: a datagram that is not JSON, and one without a command, make the
  handler raise.
\<close>

theorem malformed_datagram_counterexample:
  "handle (example_env example_datagrams) example_bot ''not JSON'' =
     (example_bot, Inl JSONDecodeError) \<and>
   handle (example_env example_datagrams) example_bot ''no command'' =
     (example_bot\<lparr>log := [(Debug, ''server->HOST'')]\<rparr>, Inl KeyError)"
  by (simp add: handle_def admit_def py_in_def py_getitem_def getitem_def contains_def
      strip_def is_space_def log_msg_def example_env_def example_bot_def example_datagrams_def
      table_loads_def table_dumps_def)

text \<open>
  C6, amended. What the handler does with a malformed datagram depends on what is
  wrong with it, and it catches nothing itself; what becomes of an exception is the
  business of \<^verbatim>\<open>socketserver\<close>, outside the source. In both handlers:
  \<^item> a datagram that cannot be decoded, and a decoded value in which \<^verbatim>\<open>server_name\<close>
    cannot be looked for or that holds it without being an object, raise with the
    state untouched;
  \<^item> a decoded value that does not hold \<^verbatim>\<open>server_name\<close> is logged with a warning
    and dropped: nothing else changes and nothing is raised;
  \<^item> an object with \<^verbatim>\<open>server_name\<close> and no \<^verbatim>\<open>command\<close> raises KeyError, the bot having
    written one debug line.

  In the bot, further:
  \<^item> an event without \<^verbatim>\<open>channel\<close> for a registered server is given to every listener
    and then raises KeyError;
  \<^item> a registration without \<^verbatim>\<open>hook_version\<close> raises KeyError with nothing but log
    lines written;
  \<^item> a registration without \<^verbatim>\<open>channel\<close> raises KeyError after the announced record
    has been bound in the registry; no listener is called;
  \<^item> a registration without \<^verbatim>\<open>host\<close> or \<^verbatim>\<open>port\<close> is accepted: the KeyError is logged
    inside \<^verbatim>\<open>register_server\<close>, the status is set and the event goes on to the
    listeners.

  In the agent, further, for a server it knows:
  \<^item> an event without \<^verbatim>\<open>channel\<close> is relayed to the master;
  \<^item> what \<^verbatim>\<open>register_server\<close> raises leaves the handler: KeyError for a registration
    without \<^verbatim>\<open>hook_version\<close> (log lines only), without \<^verbatim>\<open>dcs_version\<close> (the process
    of the server has been written) and without \<^verbatim>\<open>host\<close> or \<^verbatim>\<open>port\<close> (the status
    STOPPED has been written, when the ports of the local servers pass the check).
\<close>

theorem malformed_datagram_handling:
  "(loads e (strip request) = Inl err \<longrightarrow> handle e st request = (st, Inl err)) \<and>
   (svc_loads e' (strip request) = Inl err \<longrightarrow> service_handle e' s request = (s, Inl err)) \<and>
   (\<forall>data. loads e (strip request) = Inr data \<longrightarrow>
      (py_in ''server_name'' data = Inl err \<longrightarrow> handle e st request = (st, Inl err)) \<and>
      (py_in ''server_name'' data = Inr False \<longrightarrow>
         handle e st request =
           (log_msg Warning ''Message without server_name retrieved'' st, Inr ())) \<and>
      (py_in ''server_name'' data = Inr True \<and> (\<forall>d. data \<noteq> PDict d) \<longrightarrow>
         handle e st request = (st, Inl TypeError))) \<and>
   (\<forall>data. svc_loads e' (strip request) = Inr data \<longrightarrow>
      (py_in ''server_name'' data = Inl err \<longrightarrow> service_handle e' s request = (s, Inl err)) \<and>
      (py_in ''server_name'' data = Inr False \<longrightarrow>
         service_handle e' s request =
           (svc_log_msg Warning ''Message without server_name received'' s, Inr ())) \<and>
      (py_in ''server_name'' data = Inr True \<and> (\<forall>d. data \<noteq> PDict d) \<longrightarrow>
         service_handle e' s request = (s, Inl TypeError))) \<and>
   (\<forall>d. loads e (strip request) = Inr (PDict d) \<and> map_of d ''server_name'' = None \<longrightarrow>
      handle e st request = (log_msg Warning ''Message without server_name retrieved'' st, Inr ())) \<and>
   (\<forall>d. svc_loads e' (strip request) = Inr (PDict d) \<and> map_of d ''server_name'' = None \<longrightarrow>
      service_handle e' s request =
        (svc_log_msg Warning ''Message without server_name received'' s, Inr ())) \<and>
   (\<forall>d sn wire. loads e (strip request) = Inr (PDict d) \<and> map_of d ''server_name'' = Some sn \<and>
        map_of d ''command'' = None \<and> dumps e (PDict d) = Inr wire \<longrightarrow>
      handle e st request = (log_msg Debug ''server->HOST'' st, Inl KeyError)) \<and>
   (\<forall>d sn. svc_loads e' (strip request) = Inr (PDict d) \<and> map_of d ''server_name'' = Some sn \<and>
        map_of d ''command'' = None \<longrightarrow>
      service_handle e' s request = (s, Inl KeyError)) \<and>
   (\<forall>d wire name command rec status.
      loads e (strip request) = Inr (PDict d) \<and> dumps e (PDict d) = Inr wire \<and>
      map_of d ''server_name'' = Some (PStr name) \<and> map_of d ''command'' = Some command \<and>
      command \<noteq> PStr ''registerDCSServer'' \<and> map_of d ''channel'' = None \<and>
      map_of (globals st) name = Some rec \<and> map_of rec ''status'' = Some status \<and>
      status \<noteq> PStatus UNKNOWN \<longrightarrow>
      handle e st request =
        (fst (dispatch (eventListeners st) 0 (PDict d) (log_msg Debug ''server->HOST'' st)),
         Inl KeyError) \<and>
      delivered (fst (handle e st request)) =
        delivered st @ map (\<lambda>k. (k, PDict d)) [0 ..< length (eventListeners st)]) \<and>
   (\<forall>d wire name installation rest.
      loads e (strip request) = Inr (PDict d) \<and> dumps e (PDict d) = Inr wire \<and>
      map_of d ''server_name'' = Some (PStr name) \<and>
      map_of d ''command'' = Some (PStr ''registerDCSServer'') \<and>
      findDCSInstallations e name = installation # rest \<longrightarrow>
      (map_of d ''hook_version'' = None \<longrightarrow>
         handle e st request =
           (log_msg Debug ''Registering DCS-Server'' (log_msg Debug ''server->HOST'' st),
            Inl KeyError)) \<and>
      (map_of d ''hook_version'' = Some (PStr (version st)) \<and> map_of d ''channel'' = None \<longrightarrow>
         (\<exists>st'. handle e st request = (st', Inl KeyError) \<and> map_of (globals st') name \<noteq> None \<and>
            delivered st' = delivered st \<and>
            (\<forall>n. n \<noteq> name \<longrightarrow> map_of (globals st') n = map_of (globals st) n))) \<and>
      (\<forall>channel rec. map_of d ''hook_version'' = Some (PStr (version st)) \<and>
          map_of d ''channel'' = Some (PStr channel) \<and>
          (map_of d ''host'' = None \<or> map_of d ''port'' = None) \<and>
          map_of (globals st) name = Some rec \<longrightarrow>
         (\<exists>st2 rec2. admit e st request = (st2, Inr (Some (PDict d))) \<and>
            map_of (globals st2) name = Some rec2 \<and>
            map_of rec2 ''status'' =
              Some (PStatus (if prefix ''sync-'' channel
                             then (if map_of d ''pause'' = Some (PBool True) then PAUSED else RUNNING)
                             else LOADING)) \<and>
            last (log st2) = (Exception, ''KeyError'')))) \<and>
   (\<forall>d wire name server.
      svc_loads e' (strip request) = Inr (PDict d) \<and> svc_dumps e' (PDict d) = Inr wire \<and>
      map_of d ''server_name'' = Some (PStr name) \<and> map_of d ''channel'' = None \<and>
      map_of (servers s) name = Some server \<longrightarrow>
      (\<forall>command. map_of d ''command'' = Some command \<and> command \<noteq> PStr ''registerDCSServer'' \<longrightarrow>
         service_handle e' s request =
           (sendtoMaster (svc_log_msg Debug ''server->HOST'' s) (PDict d), Inr ())) \<and>
      (\<forall>s2 err'. map_of d ''command'' = Some (PStr ''registerDCSServer'') \<and>
          service_register_server e' (svc_log_msg Debug ''server->HOST'' s) d = (s2, Inl err') \<longrightarrow>
         service_handle e' s request = (s2, Inl err'))) \<and>
   (\<forall>d name i rest.
      map_of d ''server_name'' = Some (PStr name) \<and>
      svc_findDCSInstallations e' name = i # rest \<and> contains (svc_config e') (snd i) \<longrightarrow>
      (map_of d ''hook_version'' = None \<longrightarrow>
         service_register_server e' s d =
           (svc_log_msg Debug ''Registering DCS-Server'' s, Inl KeyError)) \<and>
      (\<forall>server. map_of d ''hook_version'' = Some (PStr (svc_version s)) \<and>
          map_of (servers s) name = Some server \<and> map_of d ''dcs_version'' = None \<longrightarrow>
         service_register_server e' s d =
           (server_update name
              (\<lambda>s. s\<lparr>srv_process :=
                     (case find_process e' ''DCS_server.exe'' (srv_installation s) of
                        Some pid \<Rightarrow> Some pid
                      | None \<Rightarrow> find_process e' ''DCS.exe'' (srv_installation s))\<rparr>)
              (svc_log_msg Debug ''Registering DCS-Server'' s), Inl KeyError)) \<and>
      (\<forall>server dv s5. map_of d ''hook_version'' = Some (PStr (svc_version s)) \<and>
          map_of (servers s) name = Some server \<and> map_of d ''dcs_version'' = Some dv \<and>
          (map_of d ''host'' = None \<or> map_of d ''port'' = None) \<and>
          validate_ports e'
           (server_update name (\<lambda>s. s\<lparr>srv_dcs_version := dv, srv_status := STOPPED\<rparr>)
             (server_update name
                (\<lambda>s. s\<lparr>srv_process :=
                       (case find_process e' ''DCS_server.exe'' (srv_installation s) of
                          Some pid \<Rightarrow> Some pid
                        | None \<Rightarrow> find_process e' ''DCS.exe'' (srv_installation s))\<rparr>)
                (svc_log_msg Debug ''Registering DCS-Server'' s)))
           (map snd (servers
             (server_update name (\<lambda>s. s\<lparr>srv_dcs_version := dv, srv_status := STOPPED\<rparr>)
               (server_update name
                  (\<lambda>s. s\<lparr>srv_process :=
                         (case find_process e' ''DCS_server.exe'' (srv_installation s) of
                            Some pid \<Rightarrow> Some pid
                          | None \<Rightarrow> find_process e' ''DCS.exe'' (srv_installation s))\<rparr>)
                  (svc_log_msg Debug ''Registering DCS-Server'' s))))) [] [] [] = (s5, Inr True) \<longrightarrow>
         service_register_server e' s d = (s5, Inl KeyError) \<and>
         map_option srv_status (map_of (servers s5) name) = Some STOPPED))"
proof (intro conjI allI impI; (elim conjE)?)
  show "handle e st request = (st, Inl err)" if "loads e (strip request) = Inl err"
    using that by (rule handle_undecodable)
  show "service_handle e' s request = (s, Inl err)" if "svc_loads e' (strip request) = Inl err"
    using that by (rule service_handle_undecodable)
qed (erule (1) handle_unsearchable handle_not_found service_handle_unsearchable
      service_handle_not_found
    | (rule handle_not_object service_handle_not_object; assumption)
    | (rule handle_no_server_name service_handle_no_server_name handle_no_command
        service_handle_no_command handle_no_channel handle_registration_no_hook_version
        handle_registration_no_channel admit_registration_no_host service_handle_no_channel
        service_handle_registration_raises service_register_no_hook_version
        service_register_no_dcs_version; assumption)
    | (simp add: handle_no_channel dispatch_delivered; fail)
    | (rule service_register_no_host [THEN conjunct1] service_register_no_host [THEN conjunct2];
        assumption))+


theorem malformed_datagram_handling_witness:
  "handle (example_env malformed_datagrams) example_bot ''a number'' =
     (example_bot, Inl TypeError) \<and>
   handle (example_env malformed_datagrams) example_bot ''a list'' =
     (example_bot\<lparr>log := [(Warning, ''Message without server_name retrieved'')]\<rparr>, Inr ()) \<and>
   service_handle (example_service_env malformed_datagrams) example_service
     ''a list with server_name'' = (example_service, Inl TypeError) \<and>
   service_handle (example_service_env malformed_datagrams) example_service ''not JSON'' =
     (example_service, Inl JSONDecodeError) \<and>
   snd (handle (example_env malformed_datagrams) example_listening ''event without channel'') =
     Inl KeyError \<and>
   delivered (fst (handle (example_env malformed_datagrams) example_listening
       ''event without channel'')) =
     [(0, PDict [(''command'', PStr ''onSimulationStart''), (''server_name'', PStr ''Alpha'')])] \<and>
   snd (handle (example_env malformed_datagrams) example_bot ''registration without channel'') =
     Inl KeyError \<and>
   contains (globals (fst (handle (example_env malformed_datagrams) example_bot
       ''registration without channel''))) ''Bravo'' \<and>
   snd (service_handle (example_service_env malformed_datagrams) example_service
       ''event without channel'') = Inr () \<and>
   intercom_table (fst (service_handle (example_service_env malformed_datagrams) example_service
       ''event without channel'')) =
     [(1, ''Master'',
       PDict [(''command'', PStr ''onSimulationStart''), (''server_name'', PStr ''Alpha'')])] \<and>
   snd (service_handle (example_service_env malformed_datagrams) example_service
       ''registration without dcs_version'') = Inl KeyError"
proof -
  let ?E = "example_env malformed_datagrams"
  let ?S = "example_service_env malformed_datagrams"
  let ?ev = "[(''command'', PStr ''onSimulationStart''), (''server_name'', PStr ''Alpha'')]"
  let ?rc = "[(''command'', PStr ''registerDCSServer''), (''server_name'', PStr ''Bravo''),
              (''hook_version'', PStr ''2.5''), (''host'', PStr ''127.0.0.1''),
              (''port'', PInt 6667), (''dcs_version'', PStr ''2.8'')]"
  let ?rv = "[(''command'', PStr ''registerDCSServer''), (''server_name'', PStr ''Alpha''),
              (''hook_version'', PStr ''2.5''), (''host'', PStr ''127.0.0.1''),
              (''port'', PInt 6666)]"
  let ?s1 = "svc_log_msg Debug ''server->HOST'' example_service"
  let ?s2 = "server_update ''Alpha''
        (\<lambda>s. s\<lparr>srv_process :=
               (case find_process ?S ''DCS_server.exe'' (srv_installation s) of
                  Some pid \<Rightarrow> Some pid
                | None \<Rightarrow> find_process ?S ''DCS.exe'' (srv_installation s))\<rparr>)
        (svc_log_msg Debug ''Registering DCS-Server'' ?s1)"
  note tbl = example_env_def example_service_env_def malformed_datagrams_def table_loads_def
    table_dumps_def strip_def is_space_def
  note T = malformed_datagram_handling
  note T3 = T [THEN conjunct2, THEN conjunct2, THEN conjunct1, rule_format]
  note T4 = T [THEN conjunct2, THEN conjunct2, THEN conjunct2, THEN conjunct1, rule_format]
  note T9 = T [THEN conjunct2, THEN conjunct2, THEN conjunct2, THEN conjunct2, THEN conjunct2,
      THEN conjunct2, THEN conjunct2, THEN conjunct2, THEN conjunct1, rule_format]
  note T10 = T [THEN conjunct2, THEN conjunct2, THEN conjunct2, THEN conjunct2, THEN conjunct2,
      THEN conjunct2, THEN conjunct2, THEN conjunct2, THEN conjunct2, THEN conjunct1, rule_format]
  note T12 = T [THEN conjunct2, THEN conjunct2, THEN conjunct2, THEN conjunct2, THEN conjunct2,
      THEN conjunct2, THEN conjunct2, THEN conjunct2, THEN conjunct2, THEN conjunct2,
      THEN conjunct2, rule_format]
  note T11 = T [THEN conjunct2, THEN conjunct2, THEN conjunct2, THEN conjunct2, THEN conjunct2,
      THEN conjunct2, THEN conjunct2, THEN conjunct2, THEN conjunct2, THEN conjunct2,
      THEN conjunct1, rule_format]
  have w1: "handle ?E example_bot ''a number'' = (example_bot, Inl TypeError)"
  proof (rule T3 [THEN conjunct1, rule_format])
    show "loads ?E (strip ''a number'') = Inr (PInt 42)" by (simp add: tbl)
    show "py_in ''server_name'' (PInt 42) = Inl TypeError" by (simp add: py_in_def)
  qed
  have w2: "handle ?E example_bot ''a list'' =
      (log_msg Warning ''Message without server_name retrieved'' example_bot, Inr ())"
  proof (rule T3 [THEN conjunct2, THEN conjunct1, rule_format])
    show "loads ?E (strip ''a list'') = Inr (PList [PInt 1, PInt 2])" by (simp add: tbl)
    show "py_in ''server_name'' (PList [PInt 1, PInt 2]) = Inr False" by (simp add: py_in_def)
  qed
  have w3: "service_handle ?S example_service ''a list with server_name'' =
      (example_service, Inl TypeError)"
  proof (rule T4 [THEN conjunct2, THEN conjunct2, rule_format])
    show "svc_loads ?S (strip ''a list with server_name'') = Inr (PList [PStr ''server_name''])"
      by (simp add: tbl)
    show "py_in ''server_name'' (PList [PStr ''server_name'']) = Inr True \<and>
        (\<forall>d. PList [PStr ''server_name''] \<noteq> PDict d)"
      by (simp add: py_in_def)
  qed
  have w4: "service_handle ?S example_service ''not JSON'' = (example_service, Inl JSONDecodeError)"
  proof (rule T [THEN conjunct2, THEN conjunct1, rule_format])
    show "svc_loads ?S (strip ''not JSON'') = Inl JSONDecodeError" by (simp add: tbl)
  qed
  have w5: "handle ?E example_listening ''event without channel'' =
        (fst (dispatch (eventListeners example_listening) 0 (PDict ?ev)
           (log_msg Debug ''server->HOST'' example_listening)), Inl KeyError) \<and>
      delivered (fst (handle ?E example_listening ''event without channel'')) =
        delivered example_listening @
          map (\<lambda>k. (k, PDict ?ev)) [0 ..< length (eventListeners example_listening)]"
  proof (rule T9)
    show "loads ?E (strip ''event without channel'') = Inr (PDict ?ev) \<and>
        dumps ?E (PDict ?ev) = Inr ''event without channel'' \<and>
        map_of ?ev ''server_name'' = Some (PStr ''Alpha'') \<and>
        map_of ?ev ''command'' = Some (PStr ''onSimulationStart'') \<and>
        PStr ''onSimulationStart'' \<noteq> PStr ''registerDCSServer'' \<and>
        map_of ?ev ''channel'' = None \<and>
        map_of (globals example_listening) ''Alpha'' = Some (example_server ''Alpha'' 6666 RUNNING) \<and>
        map_of (example_server ''Alpha'' 6666 RUNNING) ''status'' = Some (PStatus RUNNING) \<and>
        PStatus RUNNING \<noteq> PStatus UNKNOWN"
      by (simp add: tbl example_listening_def example_bot_def example_server_def)
  qed
  have w6: "\<exists>st'. handle ?E example_bot ''registration without channel'' = (st', Inl KeyError) \<and>
      map_of (globals st') ''Bravo'' \<noteq> None \<and> delivered st' = delivered example_bot \<and>
      (\<forall>n. n \<noteq> ''Bravo'' \<longrightarrow> map_of (globals st') n = map_of (globals example_bot) n)"
  proof (rule T10 [THEN conjunct2, THEN conjunct1, rule_format])
    show "loads ?E (strip ''registration without channel'') = Inr (PDict ?rc) \<and>
        dumps ?E (PDict ?rc) = Inr ''registration without channel'' \<and>
        map_of ?rc ''server_name'' = Some (PStr ''Bravo'') \<and>
        map_of ?rc ''command'' = Some (PStr ''registerDCSServer'') \<and>
        findDCSInstallations ?E ''Bravo'' = ''instance2'' # []"
      by (simp add: tbl)
    show "map_of ?rc ''hook_version'' = Some (PStr (version example_bot)) \<and>
        map_of ?rc ''channel'' = None"
      by (simp add: example_bot_def)
  qed
  have w7: "service_handle ?S example_service ''event without channel'' =
      (sendtoMaster (svc_log_msg Debug ''server->HOST'' example_service) (PDict ?ev), Inr ())"
  proof (rule T11 [THEN conjunct1, rule_format])
    show "svc_loads ?S (strip ''event without channel'') = Inr (PDict ?ev) \<and>
        svc_dumps ?S (PDict ?ev) = Inr ''event without channel'' \<and>
        map_of ?ev ''server_name'' = Some (PStr ''Alpha'') \<and> map_of ?ev ''channel'' = None \<and>
        map_of (servers example_service) ''Alpha'' =
          Some (example_server_obj ''Alpha'' ''instance1'' UNKNOWN)"
      by (simp add: tbl example_service_def)
    show "map_of ?ev ''command'' = Some (PStr ''onSimulationStart'') \<and>
        PStr ''onSimulationStart'' \<noteq> PStr ''registerDCSServer''"
      by simp
  qed
  have r8: "service_register_server ?S ?s1 ?rv = (?s2, Inl KeyError)"
  proof (rule T12 [THEN conjunct2, THEN conjunct1, rule_format])
    show "map_of ?rv ''server_name'' = Some (PStr ''Alpha'') \<and>
        svc_findDCSInstallations ?S ''Alpha'' = (''Alpha'', ''instance1'') # [] \<and>
        contains (svc_config ?S) (snd (''Alpha'', ''instance1''))"
      by (simp add: tbl contains_def)
    show "map_of ?rv ''hook_version'' = Some (PStr (svc_version ?s1)) \<and>
        map_of (servers ?s1) ''Alpha'' = Some (example_server_obj ''Alpha'' ''instance1'' UNKNOWN) \<and>
        map_of ?rv ''dcs_version'' = None"
      by (simp add: svc_log_msg_def example_service_def)
  qed
  have w8: "service_handle ?S example_service ''registration without dcs_version'' =
      (?s2, Inl KeyError)"
  proof (rule T11 [THEN conjunct2, rule_format])
    show "svc_loads ?S (strip ''registration without dcs_version'') = Inr (PDict ?rv) \<and>
        svc_dumps ?S (PDict ?rv) = Inr ''registration without dcs_version'' \<and>
        map_of ?rv ''server_name'' = Some (PStr ''Alpha'') \<and> map_of ?rv ''channel'' = None \<and>
        map_of (servers example_service) ''Alpha'' =
          Some (example_server_obj ''Alpha'' ''instance1'' UNKNOWN)"
      by (simp add: tbl example_service_def)
    show "map_of ?rv ''command'' = Some (PStr ''registerDCSServer'') \<and>
        service_register_server ?S ?s1 ?rv = (?s2, Inl KeyError)"
      using r8 by simp
  qed
  from w1 w2 w3 w4 w5 w6 w7 w8 show ?thesis
    by (auto simp: log_msg_def example_bot_def example_listening_def example_service_def
        sendtoMaster_def svc_log_msg_def contains_def)
qed

subsection \<open>Several listeners with a result\<close>

lemma same_pending_trans: "same_pending a b \<Longrightarrow> same_pending b c \<Longrightarrow> same_pending a c"
  by (simp add: same_pending_def)

lemma db_rename_pending: "db_rename old_name new_name st = Some st' \<Longrightarrow> same_pending st st'"
  by (auto simp: db_rename_def Let_def same_pending_def split: if_splits)

lemma rename_rest_pending:
  "rename_rest e st old_name new_name upd = (st', r) \<Longrightarrow> same_pending st st'"
  by (auto simp: rename_rest_def Let_def same_pending_def log_msg_def
      split: option.splits dest!: db_rename_pending)

lemma rename_server_pending:
  "rename_server e st old_name new_name upd = (st', r) \<Longrightarrow> same_pending st st'"
  by (auto simp: rename_server_def same_pending_def split: sum.splits if_splits
      dest!: rename_rest_pending)

lemma bind_server_pending:
  "bind_server e st name installation data = (st', r) \<Longrightarrow> same_pending st st'"
  by (auto simp: bind_server_def Let_def same_pending_def server_set_def
      split: option.splits sum.splits)

lemma register_db_pending:
  "register_db e st name data = (st', ok) \<Longrightarrow> same_pending st st'"
  by (auto simp: register_db_def Let_def same_pending_def log_msg_def server_set_def
      db_upsert_server_def
      split: sum.splits list.splits prod.splits if_splits dest!: rename_server_pending)

lemma register_server_pending:
  "register_server e st data = (st', r) \<Longrightarrow> same_pending st st'"
  by (auto simp: register_server_def Let_def same_pending_def log_msg_def server_set_def
      split: sum.splits pyval.splits list.splits prod.splits if_splits
      dest!: bind_server_pending register_db_pending)

lemma admit_pending:
  assumes "admit e st request = (st', r)"
  shows "same_pending st st'"
proof (cases "loads e (strip request)")
  case (Inl err)
  with assms show ?thesis by (simp add: admit_def same_pending_def)
next
  case data: (Inr data)
  show ?thesis
  proof (cases "py_in ''server_name'' data")
    case (Inl err)
    with assms data show ?thesis by (simp add: admit_def same_pending_def)
  next
    case p: (Inr present)
    show ?thesis
    proof (cases present)
      case False
      with assms data p show ?thesis by (auto simp: admit_def same_pending_def log_msg_def)
    next
      case True
      show ?thesis
      proof (cases "py_getitem data ''server_name''")
        case (Inl err)
        with assms data p True show ?thesis by (simp add: admit_def same_pending_def)
      next
        case sn: (Inr sn)
        show ?thesis
        proof (cases "dumps e data")
          case (Inl err)
          with assms data p True sn show ?thesis by (simp add: admit_def same_pending_def)
        next
          case w: (Inr wire)
          let ?st1 = "log_msg Debug ''server->HOST'' st"
          have s1: "same_pending st ?st1" by (simp add: same_pending_def log_msg_def)
          show ?thesis
          proof (cases "py_getitem data ''command''")
            case (Inl err)
            with assms data p True sn w have "st' = ?st1" by (simp add: admit_def Let_def)
            with s1 show ?thesis by simp
          next
            case c: (Inr command)
            show ?thesis
            proof (cases "command = PStr ''registerDCSServer''")
              case reg: True
              show ?thesis
              proof (cases data)
                case (PDict d)
                obtain st2 r2 where rs: "register_server e ?st1 d = (st2, r2)"
                  by (cases "register_server e ?st1 d")
                with assms data p True sn w c reg PDict have "st' = st2"
                  by (cases r2) (auto simp: admit_def Let_def split: bool.splits)
                with register_server_pending [OF rs] s1 show ?thesis
                  by (auto intro: same_pending_trans)
              qed (use assms data p True sn w c reg s1 in \<open>auto simp: admit_def Let_def\<close>)
            next
              case nreg: False
              show ?thesis
              proof (cases "unregistered ?st1 sn")
                case (Inl err)
                with assms data p True sn w c nreg have "st' = ?st1" by (simp add: admit_def Let_def)
                with s1 show ?thesis by simp
              next
                case (Inr u)
                with assms data p True sn w c nreg have "st' = ?st1 \<or>
                    st' = log_msg Debug ''Command for unregistered server, ignoring'' ?st1"
                  by (cases u) (simp_all add: admit_def Let_def)
                then show ?thesis by (auto simp: same_pending_def log_msg_def)
              qed
            qed
          qed
        qed
      qed
    qed
  qed
qed

lemma dispatch_pending:
  "dispatch ls i data st = (st', results) \<Longrightarrow> same_pending st st'"
proof (induction ls arbitrary: i st st' results)
  case Nil
  then show ?case by (simp add: same_pending_def)
next
  case (Cons l ls)
  obtain res g where l: "l data (globals st) = (res, g)" by (cases "l data (globals st)")
  let ?st1 = "st\<lparr>globals := g, delivered := delivered st @ [(i, data)]\<rparr>"
  show ?case
  proof (cases res)
    case (Inl err)
    with l Cons.prems have "dispatch ls (Suc i) data (log_msg Exception ''listener raised'' ?st1) =
        (st', results)" by simp
    from Cons.IH [OF this] show ?thesis
      by (simp add: same_pending_def log_msg_def)
  next
    case (Inr result)
    obtain st2 rs where d: "dispatch ls (Suc i) data ?st1 = (st2, rs)"
      by (cases "dispatch ls (Suc i) data ?st1")
    with l Inr Cons.prems have "st' = st2" by simp
    with Cons.IH [OF d] show ?thesis
      by (simp add: same_pending_def)
  qed
qed

lemma dispatch_results:
  "snd (dispatch ls i data st) = non_empty_results (returns ls data (globals st))"
proof (induction ls arbitrary: i st)
  case Nil
  then show ?case by simp
next
  case (Cons l ls)
  obtain res g where l: "l data (globals st) = (res, g)" by (cases "l data (globals st)")
  let ?st1 = "st\<lparr>globals := g, delivered := delivered st @ [(i, data)]\<rparr>"
  show ?case
  proof (cases res)
    case (Inl err)
    with l Cons.IH [where i = "Suc i" and st = "log_msg Exception ''listener raised'' ?st1"]
    show ?thesis by (simp add: log_msg_def)
  next
    case (Inr result)
    obtain st2 rs where d: "dispatch ls (Suc i) data ?st1 = (st2, rs)"
      by (cases "dispatch ls (Suc i) data ?st1")
    with Cons.IH [where i = "Suc i" and st = ?st1]
    have "rs = non_empty_results (returns ls data g)" by simp
    with l Inr d show ?thesis by simp
  qed
qed


text \<open>
  C8. When an event on a synchronous channel has passed the guard and two or more
  listeners return a result that counts, the handler posts one call for the future of
  the token, with the first of these results in the order of the listeners; the other
  results go nowhere. The token leaves \<open>listeners\<close>, no other token does, and when
  the loop runs the call the waiting caller has that first result.
\<close>

theorem first_result_wins:
  assumes "admit e st request = (st2, Inr (Some data))"
    and "non_empty_results (returns (eventListeners st2) data (globals st2)) = r1 # r2 # rest"
    and "py_getitem data ''channel'' = Inr (PStr token)" and "prefix ''sync'' token"
    and "map_of (listeners st) token = Some fut" and "fut < length (futures st)"
    and "futures st ! fut = Pending"
  shows "\<exists>st'. handle e st request = (st', Inr ()) \<and>
           loop_calls st' = loop_calls st @ [(fut, r1)] \<and>
           map_of (listeners st') token = None \<and>
           (\<forall>t. t \<noteq> token \<longrightarrow> map_of (listeners st') t = map_of (listeners st) t) \<and>
           futures st' = futures st \<and>
           (loop_calls st = [] \<longrightarrow>
              futures (run_loop_call st') ! fut = Done r1 \<and> loop_calls (run_loop_call st') = [])"
proof -
  obtain st3 results where d: "dispatch (eventListeners st2) 0 data st2 = (st3, results)"
    by (cases "dispatch (eventListeners st2) 0 data st2")
  from dispatch_results [of "eventListeners st2" 0 data st2] d assms(2)
  have results: "results = r1 # r2 # rest" by simp
  from admit_pending [OF assms(1)] dispatch_pending [OF d]
  have same: "same_pending st st3" by (rule same_pending_trans)
  then have l3: "map_of (listeners st3) token = Some fut" and f3: "futures st3 = futures st"
    and c3: "loop_calls st3 = loop_calls st" and ls3: "listeners st3 = listeners st"
    using assms(5) by (simp_all add: same_pending_def)
  obtain st' r where h: "resolve st3 data results = (st', r)"
    by (cases "resolve st3 data results")
  from resolve_token [OF assms(3) assms(4) l3, of results] h results assms(7) f3 c3 ls3
  have r: "r = Inr ()" and l': "listeners st' = remove_key token (listeners st)"
    and f': "futures st' = futures st" and c': "loop_calls st' = loop_calls st @ [(fut, r1)]"
    by simp_all
  from assms(1) d h r have run: "handle e st request = (st', Inr ())"
    by (simp add: handle_def)
  have fin: "futures (run_loop_call st') ! fut = Done r1 \<and> loop_calls (run_loop_call st') = []"
    if "loop_calls st = []"
    using run_loop_call_head [of st' fut r1 "[]"] that c' f' assms(6,7) by simp
  from run c' l' f' fin show ?thesis
    by (auto simp: map_of_remove_key)
qed

theorem first_result_wins_witness:
  "snd (handle (example_env example_datagrams)
      (example_pending\<lparr>eventListeners := [\<lambda>data g. (Inr (PStr ''first''), g),
                                          \<lambda>data g. (Inr (PStr ''second''), g)]\<rparr>)
      ''Alpha answers'') = Inr () \<and>
   loop_calls (fst (handle (example_env example_datagrams)
      (example_pending\<lparr>eventListeners := [\<lambda>data g. (Inr (PStr ''first''), g),
                                          \<lambda>data g. (Inr (PStr ''second''), g)]\<rparr>)
      ''Alpha answers'')) = [(0, PStr ''first'')] \<and>
   listeners (fst (handle (example_env example_datagrams)
      (example_pending\<lparr>eventListeners := [\<lambda>data g. (Inr (PStr ''first''), g),
                                          \<lambda>data g. (Inr (PStr ''second''), g)]\<rparr>)
      ''Alpha answers'')) = [] \<and>
   futures (run_loop_call (fst (handle (example_env example_datagrams)
      (example_pending\<lparr>eventListeners := [\<lambda>data g. (Inr (PStr ''first''), g),
                                          \<lambda>data g. (Inr (PStr ''second''), g)]\<rparr>)
      ''Alpha answers''))) ! 0 = Done (PStr ''first'')"
proof -
  let ?e = "example_env example_datagrams"
  let ?ls = "[\<lambda>data g. (Inr (PStr ''first''), g), \<lambda>data g. (Inr (PStr ''second''), g)] :: listener list"
  let ?st = "example_pending\<lparr>eventListeners := ?ls\<rparr>"
  let ?data = "PDict [(''command'', PStr ''getMissionDetails''), (''server_name'', PStr ''Alpha''),
                (''channel'', PStr ''sync-6f1c'')]"
  have a: "admit ?e ?st ''Alpha answers'' = (log_msg Debug ''server->HOST'' ?st, Inr (Some ?data))"
    by (simp add: admit_def py_in_def py_getitem_def getitem_def contains_def unregistered_def
        strip_def is_space_def example_pending_eq example_env_def example_datagrams_def
        example_server_def table_loads_def table_dumps_def)
  have b: "non_empty_results (returns (eventListeners (log_msg Debug ''server->HOST'' ?st)) ?data
      (globals (log_msg Debug ''server->HOST'' ?st))) = PStr ''first'' # PStr ''second'' # []"
    by (simp add: log_msg_def)
  have c: "py_getitem ?data ''channel'' = Inr (PStr ''sync-6f1c'')" "prefix ''sync'' ''sync-6f1c''"
    by (simp_all add: py_getitem_def getitem_def)
  have p: "map_of (listeners ?st) ''sync-6f1c'' = Some 0" "0 < length (futures ?st)"
    "futures ?st ! 0 = Pending" "loop_calls ?st = []" "listeners ?st = [(''sync-6f1c'', 0)]"
    by (simp_all add: example_pending_eq example_bot_def)
  from first_result_wins [OF a b c p(1) p(2) p(3)] obtain st' where
    h: "handle ?e ?st ''Alpha answers'' = (st', Inr ())"
    and 1: "loop_calls st' = loop_calls ?st @ [(0, PStr ''first'')]"
    and 2: "map_of (listeners st') ''sync-6f1c'' = None"
    and 3: "loop_calls ?st = [] \<longrightarrow> futures (run_loop_call st') ! 0 = Done (PStr ''first'')"
    by blast
  have 4: "listeners (fst (handle ?e ?st ''Alpha answers'')) = []"
    using a by (simp add: handle_def resolve_def py_getitem_def getitem_def contains_def
        remove_key_def log_msg_def example_pending_eq)
  from h 1 3 4 p(4) show ?thesis by simp
qed

subsection \<open>The order of the intercom loop\<close>

text \<open>What one row adds to the events: its own effects, none of them a deletion.\<close>

lemma process_row_events:
  assumes "process_row e st i data = (st1, r)"
  shows "\<exists>evs. events st1 = events st @ evs \<and>
           list_all (\<lambda>ev. event_id ev = i \<and> \<not> is_delete ev) evs"
proof -
  have goal: "events s = events st \<or> events s = events st @ [RpcInvoked i name] \<or>
      events s = events st @ [SentToDCS i name data] \<Longrightarrow>
      \<exists>evs. events s = events st @ evs \<and>
           list_all (\<lambda>ev. event_id ev = i \<and> \<not> is_delete ev) evs" for s name
    by auto
  show ?thesis
  proof (cases data)
    case (PDict d)
    show ?thesis
    proof (cases "getitem d ''server_name''")
      case (Inl err)
      with assms PDict show ?thesis by (simp add: process_row_def)
    next
      case sn: (Inr sn)
      show ?thesis
      proof (cases "getitem d ''command''")
        case (Inl err)
        with assms PDict sn show ?thesis by (simp add: process_row_def)
      next
        case c: (Inr command)
        show ?thesis
        proof (cases "servers_get st sn")
          case (Inl err)
          with assms PDict sn c show ?thesis by (simp add: process_row_def)
        next
          case (Inr found)
          show ?thesis
          proof (cases found)
            case None
            with assms PDict sn c Inr show ?thesis
              by (auto simp: process_row_def svc_log_msg_def)
          next
            case (Some ns)
            obtain name server where ns: "ns = (name, server)" by (cases ns)
            have "events st1 = events st \<or> events st1 = events st @ [RpcInvoked i name] \<or>
                events st1 = events st @ [SentToDCS i name data]"
              using assms PDict sn c Inr Some ns
              by (auto simp: process_row_def Let_def emit_def svc_log_msg_def sendtoMaster_def
                  split: if_splits sum.splits)
            then show ?thesis by (rule goal)
          qed
        qed
      qed
    qed
  qed (use assms in \<open>simp_all add: process_row_def\<close>)
qed

lemma intercom_rows_events:
  assumes "intercom_rows e st rows deleted = (st', Inr deleted')"
  shows "deleted' = deleted @ map fst rows \<and>
         (\<exists>effects. length effects = length rows \<and>
            events st' = events st @
              concat (map (\<lambda>(row, evs). evs @ [Deleted (fst row)]) (zip rows effects)) \<and>
            list_all2 (\<lambda>row evs. list_all (\<lambda>ev. event_id ev = fst row \<and> \<not> is_delete ev) evs)
              rows effects)"
  using assms
proof (induction rows arbitrary: st deleted)
  case Nil
  then show ?case by simp
next
  case (Cons row rows)
  obtain st1 r where p: "process_row e st (fst row) (snd (snd row)) = (st1, r)"
    by (cases "process_row e st (fst row) (snd (snd row))")
  with Cons.prems have rest: "intercom_rows e (emit (Deleted (fst row)) st1) rows
      (deleted @ [fst row]) = (st', Inr deleted')"
    by (cases r) simp_all
  from process_row_events [OF p] obtain evs where evs: "events st1 = events st @ evs"
    "list_all (\<lambda>ev. event_id ev = fst row \<and> \<not> is_delete ev) evs"
    by blast
  from Cons.IH [OF rest] obtain effects where d: "deleted' = (deleted @ [fst row]) @ map fst rows"
    and len: "length effects = length rows"
    and ev: "events st' = events (emit (Deleted (fst row)) st1) @
              concat (map (\<lambda>(row, evs). evs @ [Deleted (fst row)]) (zip rows effects))"
    and all: "list_all2 (\<lambda>row evs. list_all (\<lambda>ev. event_id ev = fst row \<and> \<not> is_delete ev) evs)
              rows effects"
    by blast
  have "length (evs # effects) = length (row # rows) \<and>
        events st' = events st @
          concat (map (\<lambda>(row, evs). evs @ [Deleted (fst row)]) (zip (row # rows) (evs # effects))) \<and>
        list_all2 (\<lambda>row evs. list_all (\<lambda>ev. event_id ev = fst row \<and> \<not> is_delete ev) evs)
          (row # rows) (evs # effects)"
    using len ev all evs by (simp add: emit_def)
  with d show ?case by (intro conjI exI [of _ "evs # effects"]) simp_all
qed

lemma deletions_of_effects:
  assumes "length effects = length rows"
    and "list_all2 (\<lambda>row evs. list_all (\<lambda>ev. event_id ev = fst row \<and> \<not> is_delete ev) evs)
              rows effects"
  shows "filter is_delete (concat (map (\<lambda>(row, evs). evs @ [Deleted (fst row)]) (zip rows effects))) =
         map (\<lambda>row. Deleted (fst row)) rows"
  using assms
proof (induction rows arbitrary: effects)
  case Nil
  then show ?case by simp
next
  case (Cons row rows)
  then obtain evs rest where e: "effects = evs # rest" by (cases effects) auto
  with Cons.prems have "filter is_delete evs = []"
    by (auto simp: list_all_iff filter_empty_conv)
  with Cons e show ?case by simp
qed

lemma select_sorted:
  "sorted_wrt (<) (map fst (intercom_table st)) \<Longrightarrow>
   sorted_wrt (<) (map fst (select_intercom e st))"
  by (simp add: select_intercom_def sorted_wrt_map sorted_wrt_filter)


text \<open>The loop only adds rows to the table; the deletions come with the end of the transaction.\<close>

lemma process_row_table:
  assumes "process_row e st i data = (st1, r)"
  shows "\<exists>extra. intercom_table st1 = intercom_table st @ extra"
proof (cases data)
  case (PDict d)
  show ?thesis
  proof (cases "getitem d ''server_name''")
    case (Inl err)
    with assms PDict show ?thesis by (simp add: process_row_def)
  next
    case sn: (Inr sn)
    show ?thesis
    proof (cases "getitem d ''command''")
      case (Inl err)
      with assms PDict sn show ?thesis by (simp add: process_row_def)
    next
      case c: (Inr command)
      show ?thesis
      proof (cases "servers_get st sn")
        case (Inl err)
        with assms PDict sn c show ?thesis by (simp add: process_row_def)
      next
        case (Inr found)
        show ?thesis
        proof (cases found)
          case None
          with assms PDict sn c Inr show ?thesis
            by (auto simp: process_row_def svc_log_msg_def)
        next
          case (Some ns)
          obtain name server where ns: "ns = (name, server)" by (cases ns)
          show ?thesis
            using assms PDict sn c Inr Some ns
            by (auto simp: process_row_def Let_def emit_def svc_log_msg_def sendtoMaster_def
                split: if_splits sum.splits)
        qed
      qed
    qed
  qed
qed (use assms in \<open>simp_all add: process_row_def\<close>)

lemma intercom_rows_table:
  assumes "intercom_rows e st rows deleted = (st', r)"
  shows "\<exists>extra. intercom_table st' = intercom_table st @ extra"
  using assms
proof (induction rows arbitrary: st deleted)
  case Nil
  then show ?case by simp
next
  case (Cons row rows)
  obtain st1 r1 where p: "process_row e st (fst row) (snd (snd row)) = (st1, r1)"
    by (cases "process_row e st (fst row) (snd (snd row))")
  from process_row_table [OF p] obtain x where x: "intercom_table st1 = intercom_table st @ x"
    by blast
  show ?case
  proof (cases r1)
    case (Inl err)
    with Cons.prems p x show ?thesis by simp
  next
    case (Inr u)
    with Cons.prems p have "intercom_rows e (emit (Deleted (fst row)) st1) rows
        (deleted @ [fst row]) = (st', r)"
      by simp
    from Cons.IH [OF this] x show ?thesis by (auto simp: emit_def)
  qed
qed


text \<open>
  C7 as stated fails in its first half: the query has no \<^verbatim>\<open>ORDER BY\<close>, and the loop
  takes the rows as they come. Here the store returns the row with id 2 before the row
  with id 1, and the message of row 2 goes to the server first.
\<close>

theorem intercom_order_counterexample:
  "intercom (example_service_env [])
     (example_service\<lparr>intercom_table :=
        [(2, ''node1'', PDict [(''command'', PStr ''stop''), (''server_name'', PStr ''Alpha'')]),
         (1, ''node1'', PDict [(''command'', PStr ''start''), (''server_name'', PStr ''Alpha'')])]\<rparr>) =
   (example_service\<lparr>events :=
        [SentToDCS 2 ''Alpha'' (PDict [(''command'', PStr ''stop''), (''server_name'', PStr ''Alpha'')]),
         Deleted 2,
         SentToDCS 1 ''Alpha'' (PDict [(''command'', PStr ''start''), (''server_name'', PStr ''Alpha'')]),
         Deleted 1]\<rparr>, Inr ())"
  by (simp add: intercom_def select_intercom_def process_row_def servers_get_def getitem_def
      emit_def example_service_def example_service_env_def example_server_obj_def)

text \<open>
  C7, amended. A turn of the loop that ends without an exception has handled the
  rows addressed to the node one after the other in the order the query returned them:
  the events of a row are followed by its deletion, and only then come the events of
  the next row. The rows are deleted in that order and are gone from the table, the
  other rows stay. The order is ascending in the id when the store returns the rows so.
  A turn that ends with an exception deletes nothing: every row is still in the table.
\<close>

theorem intercom_handles_rows_in_query_order:
  "(intercom e st = (st', Inr ()) \<longrightarrow>
      (\<exists>effects. length effects = length (select_intercom e st) \<and>
            events st' = events st @
              concat (map (\<lambda>(row, evs). evs @ [Deleted (fst row)])
                        (zip (select_intercom e st) effects)) \<and>
            list_all2 (\<lambda>row evs. list_all (\<lambda>ev. event_id ev = fst row \<and> \<not> is_delete ev) evs)
              (select_intercom e st) effects \<and>
            filter is_delete (drop (length (events st)) (events st')) =
              map (\<lambda>row. Deleted (fst row)) (select_intercom e st)) \<and>
      (\<forall>row \<in> set (intercom_table st'). fst row \<notin> fst ` set (select_intercom e st)) \<and>
      (\<forall>row \<in> set (intercom_table st).
         fst row \<notin> fst ` set (select_intercom e st) \<longrightarrow> row \<in> set (intercom_table st'))) \<and>
   (intercom e st = (st', Inl err) \<longrightarrow>
      (\<exists>extra. intercom_table st' = intercom_table st @ extra)) \<and>
   (sorted_wrt (<) (map fst (intercom_table st)) \<longrightarrow>
      sorted_wrt (<) (map fst (select_intercom e st)))"
proof (intro conjI impI)
  assume run: "intercom e st = (st', Inr ())"
  obtain st1 r where rows: "intercom_rows e st (select_intercom e st) [] = (st1, r)"
    by (cases "intercom_rows e st (select_intercom e st) []")
  with run obtain deleted where r: "r = Inr deleted"
    and st': "st' = st1\<lparr>intercom_table := filter (\<lambda>row. fst row \<notin> set deleted) (intercom_table st1)\<rparr>"
    by (cases r) (auto simp: intercom_def)
  from intercom_rows_events [OF rows [unfolded r]] obtain effects where
    d: "deleted = map fst (select_intercom e st)" and
    len: "length effects = length (select_intercom e st)" and
    ev: "events st1 = events st @
              concat (map (\<lambda>(row, evs). evs @ [Deleted (fst row)])
                        (zip (select_intercom e st) effects))" and
    all: "list_all2 (\<lambda>row evs. list_all (\<lambda>ev. event_id ev = fst row \<and> \<not> is_delete ev) evs)
              (select_intercom e st) effects"
    by auto
  from intercom_rows_table [OF rows] obtain extra where
    x: "intercom_table st1 = intercom_table st @ extra"
    by blast
  show "\<exists>effects. length effects = length (select_intercom e st) \<and>
            events st' = events st @
              concat (map (\<lambda>(row, evs). evs @ [Deleted (fst row)])
                        (zip (select_intercom e st) effects)) \<and>
            list_all2 (\<lambda>row evs. list_all (\<lambda>ev. event_id ev = fst row \<and> \<not> is_delete ev) evs)
              (select_intercom e st) effects \<and>
            filter is_delete (drop (length (events st)) (events st')) =
              map (\<lambda>row. Deleted (fst row)) (select_intercom e st)"
    using len ev all deletions_of_effects [OF len all] st'
    by (intro exI [of _ effects]) simp
  show "\<forall>row \<in> set (intercom_table st'). fst row \<notin> fst ` set (select_intercom e st)"
    using st' d by auto
  show "\<forall>row \<in> set (intercom_table st).
         fst row \<notin> fst ` set (select_intercom e st) \<longrightarrow> row \<in> set (intercom_table st')"
    using st' d x by auto
next
  assume run: "intercom e st = (st', Inl err)"
  obtain st1 r where rows: "intercom_rows e st (select_intercom e st) [] = (st1, r)"
    by (cases "intercom_rows e st (select_intercom e st) []")
  with run have "st' = st1"
    by (cases r) (auto simp: intercom_def)
  with intercom_rows_table [OF rows]
  show "\<exists>extra. intercom_table st' = intercom_table st @ extra"
    by simp
next
  assume "sorted_wrt (<) (map fst (intercom_table st))"
  then show "sorted_wrt (<) (map fst (select_intercom e st))"
    by (rule select_sorted)
qed

theorem intercom_handles_rows_in_query_order_witness:
  "snd (intercom (example_service_env [])
     (example_service\<lparr>intercom_table :=
        [(1, ''node1'', PDict [(''command'', PStr ''start''), (''server_name'', PStr ''Alpha'')]),
         (2, ''Master'', PDict [(''command'', PStr ''onSimulationStart''), (''server_name'', PStr ''Alpha'')]),
         (3, ''node1'', PDict [(''command'', PStr ''stop''), (''server_name'', PStr ''Bravo'')])]\<rparr>)) =
     Inr () \<and>
   filter is_delete (events (fst (intercom (example_service_env [])
     (example_service\<lparr>intercom_table :=
        [(1, ''node1'', PDict [(''command'', PStr ''start''), (''server_name'', PStr ''Alpha'')]),
         (2, ''Master'', PDict [(''command'', PStr ''onSimulationStart''), (''server_name'', PStr ''Alpha'')]),
         (3, ''node1'', PDict [(''command'', PStr ''stop''), (''server_name'', PStr ''Bravo'')])]\<rparr>)))) =
     [Deleted 1, Deleted 3] \<and>
   intercom (example_service_env [])
     (example_service\<lparr>intercom_table := [(1, ''node1'', PDict [(''server_name'', PStr ''Alpha'')])]\<rparr>) =
   (example_service\<lparr>intercom_table := [(1, ''node1'', PDict [(''server_name'', PStr ''Alpha'')])]\<rparr>,
    Inl KeyError)"
proof -
  let ?e = "example_service_env []"
  let ?st = "example_service\<lparr>intercom_table :=
        [(1, ''node1'', PDict [(''command'', PStr ''start''), (''server_name'', PStr ''Alpha'')]),
         (2, ''Master'', PDict [(''command'', PStr ''onSimulationStart''), (''server_name'', PStr ''Alpha'')]),
         (3, ''node1'', PDict [(''command'', PStr ''stop''), (''server_name'', PStr ''Bravo'')])]\<rparr>"
  have ok: "snd (intercom ?e ?st) = Inr ()"
    by (simp add: intercom_def select_intercom_def process_row_def servers_get_def getitem_def
      emit_def svc_log_msg_def example_service_def example_service_env_def example_server_obj_def)
  then have run: "intercom ?e ?st = (fst (intercom ?e ?st), Inr ())"
    by (simp add: prod_eq_iff)
  have sel: "select_intercom ?e ?st =
      [(1, ''node1'', PDict [(''command'', PStr ''start''), (''server_name'', PStr ''Alpha'')]),
       (3, ''node1'', PDict [(''command'', PStr ''stop''), (''server_name'', PStr ''Bravo'')])]"
    by (simp add: select_intercom_def example_service_env_def)
  have raised: "intercom ?e
      (example_service\<lparr>intercom_table := [(1, ''node1'', PDict [(''server_name'', PStr ''Alpha'')])]\<rparr>) =
      (example_service\<lparr>intercom_table := [(1, ''node1'', PDict [(''server_name'', PStr ''Alpha'')])]\<rparr>,
       Inl KeyError)"
    by (simp add: intercom_def select_intercom_def process_row_def servers_get_def getitem_def
      example_service_def example_service_env_def)
  have "events ?st = []" by (simp add: example_service_def)
  with raised intercom_handles_rows_in_query_order [of ?e ?st "fst (intercom ?e ?st)", THEN conjunct1,
      rule_format, OF run, THEN conjunct1] sel ok show ?thesis
    by auto
qed

end
